(* ===== verification/Prelude.thy ===== *)
theory Prelude
  imports Complex_Main "HOL-Library.Multiset"
begin

text \<open>
  Shared vocabulary of the development: how JavaScript values that the
  frontend computes with are represented, and the generic lemmas that the
  component theories use.
  \<^item> A JavaScript time value (the result of \<open>new Date(s)\<close>) is an integer
    number of milliseconds, or NaN for an unparsable string: \<open>js_time\<close>, with
    \<open>None\<close> for NaN. Arithmetic on it yields a number or NaN: \<open>rat option\<close>.
    Every comparison with NaN is false (\<open>js_le\<close>, \<open>js_gt\<close>).
  \<^item> \<open>Math.round\<close> rounds half up: \<open>js_round\<close>. Percentages of the form
    \<open>Math.round((a / b) * 100)\<close> are \<open>ratio_percent\<close>.
  \<^item> \<open>x || d\<close> on a possibly missing string: \<open>js_or_string\<close> (the empty
    string is falsy too).
  \<^item> A template literal \<open>${n}\<close> of a count prints it in decimal:
    \<open>string_of_nat\<close>.
  Numbers are modelled exactly (rationals), not as IEEE doubles; the header of
  \<open>Spec2Isabelle\<close> says where this matters.
\<close>

named_theorems model_eval "equations that evaluate the model on concrete inputs"

type_synonym ident = nat
type_synonym js_time = "int option"

definition ms_per_hour :: int where
  "ms_per_hour = 1000 * 60 * 60"

lemma ms_per_hour_pos: "0 < ms_per_hour"
  by (simp add: ms_per_hour_def)

subsection \<open>Numbers that may be NaN\<close>

definition js_le :: "rat option \<Rightarrow> rat \<Rightarrow> bool" where
  "js_le x c = (case x of None \<Rightarrow> False | Some v \<Rightarrow> v \<le> c)"

definition js_gt :: "rat option \<Rightarrow> rat \<Rightarrow> bool" where
  "js_gt x c = (case x of None \<Rightarrow> False | Some v \<Rightarrow> c < v)"

lemma js_le_simps [simp, model_eval]:
  "js_le None c = False" "js_le (Some v) c = (v \<le> c)"
  by (simp_all add: js_le_def)

lemma js_gt_simps [simp, model_eval]:
  "js_gt None c = False" "js_gt (Some v) c = (c < v)"
  by (simp_all add: js_gt_def)

text \<open>
  A difference of time values divided by the milliseconds of an hour compares
  with a whole number of hours exactly as the difference compares with that
  many milliseconds.
\<close>

lemma hours_le_iff:
  "(of_int d / of_int ms_per_hour \<le> (of_int k :: rat)) \<longleftrightarrow> d \<le> k * ms_per_hour"
proof -
  have "(of_int d / of_int ms_per_hour \<le> (of_int k :: rat))
      \<longleftrightarrow> (of_int d \<le> (of_int (k * ms_per_hour) :: rat))"
    by (simp add: ms_per_hour_def divide_le_eq)
  then show ?thesis by (simp only: of_int_le_iff)
qed

lemma hours_gt_iff:
  "((of_int k :: rat) < of_int d / of_int ms_per_hour) \<longleftrightarrow> k * ms_per_hour < d"
proof -
  have "((of_int k :: rat) < of_int d / of_int ms_per_hour)
      \<longleftrightarrow> ((of_int (k * ms_per_hour) :: rat) < of_int d)"
    by (simp add: ms_per_hour_def less_divide_eq)
  then show ?thesis by (simp only: of_int_less_iff)
qed

lemma hours_numeral_iff [simp]:
  "(of_int d / of_int ms_per_hour \<le> (numeral k :: rat)) \<longleftrightarrow> d \<le> numeral k * ms_per_hour"
  "((numeral k :: rat) < of_int d / of_int ms_per_hour) \<longleftrightarrow> numeral k * ms_per_hour < d"
  "(of_int d / of_int ms_per_hour \<le> (0 :: rat)) \<longleftrightarrow> d \<le> 0"
  "((0 :: rat) < of_int d / of_int ms_per_hour) \<longleftrightarrow> 0 < d"
  using hours_le_iff [of d "numeral k"] hours_gt_iff [of "numeral k" d]
    hours_le_iff [of d 0] hours_gt_iff [of 0 d]
  by simp_all

text \<open>The same, for a difference of two time values as the simplifier writes it.\<close>

lemma hours_diff_iff [simp]:
  "((of_int a - of_int b) / of_int ms_per_hour \<le> (numeral k :: rat)) \<longleftrightarrow> a - b \<le> numeral k * ms_per_hour"
  "((numeral k :: rat) < (of_int a - of_int b) / of_int ms_per_hour) \<longleftrightarrow> numeral k * ms_per_hour < a - b"
  "((of_int a - of_int b) / of_int ms_per_hour \<le> (0 :: rat)) \<longleftrightarrow> a - b \<le> 0"
  "((0 :: rat) < (of_int a - of_int b) / of_int ms_per_hour) \<longleftrightarrow> 0 < a - b"
  using hours_le_iff [of "a - b" "numeral k"] hours_gt_iff [of "numeral k" "a - b"]
    hours_le_iff [of "a - b" 0] hours_gt_iff [of 0 "a - b"]
  by simp_all

subsection \<open>Rounding and percentages\<close>

definition js_round :: "rat \<Rightarrow> int" where
  "js_round x = \<lfloor>x + 1 / 2\<rfloor>"

lemma js_round_div:
  assumes "0 < b"
  shows "js_round (of_int a / of_int b) = (2 * a + b) div (2 * b)"
proof -
  have "of_int a / of_int b + 1 / 2 = (of_int (2 * a + b) / of_int (2 * b) :: rat)"
    using assms by (simp add: field_simps)
  then show ?thesis
    unfolding js_round_def by (simp only: floor_divide_of_int_eq)
qed

lemma js_round_mono: "x \<le> y \<Longrightarrow> js_round x \<le> js_round y"
  by (simp add: js_round_def floor_mono)

lemma js_round_of_int [simp]: "js_round (of_int k) = k"
  by (simp add: js_round_def floor_eq_iff)

lemma js_round_numeral [simp]: "js_round 0 = 0" "js_round (numeral n) = numeral n"
  by (simp_all add: js_round_def floor_eq_iff)

text \<open>\<open>Math.round((a / b) * 100)\<close> for counts \<open>a\<close> and \<open>b\<close>.\<close>

definition ratio_percent :: "nat \<Rightarrow> nat \<Rightarrow> int" where
  "ratio_percent a b = js_round (of_nat a / of_nat b * 100)"

lemma ratio_percent_int:
  assumes "0 < b"
  shows "ratio_percent a b = (200 * int a + int b) div (2 * int b)"
proof -
  have eq: "(of_nat a / of_nat b * 100 :: rat) = of_int (100 * int a) / of_int (int b)"
    by simp
  have "ratio_percent a b = js_round (of_int (100 * int a) / of_int (int b))"
    unfolding ratio_percent_def eq ..
  also have "\<dots> = (2 * (100 * int a) + int b) div (2 * int b)"
    using assms by (intro js_round_div) simp
  finally show ?thesis by simp
qed

lemma ratio_percent_nonneg: "0 \<le> ratio_percent a b"
  by (simp add: ratio_percent_def js_round_def)

lemma ratio_percent_le_100:
  assumes "a \<le> b"
  shows "ratio_percent a b \<le> 100"
proof (cases "b = 0")
  case True
  then show ?thesis by (simp add: ratio_percent_def js_round_def)
next
  case False
  have "(200 * int a + int b) div (2 * int b) \<le> (200 * int b + int b) div (2 * int b)"
    using assms False by (intro zdiv_mono1) simp_all
  also have "\<dots> = 100"
    using False by simp
  finally show ?thesis
    using False by (simp add: ratio_percent_int)
qed

lemma ratio_percent_full [simp]: "0 < b \<Longrightarrow> ratio_percent b b = 100"
  by (simp add: ratio_percent_def)

lemma ratio_percent_zero [simp]: "ratio_percent 0 b = 0"
  by (simp add: ratio_percent_def)

text \<open>One more of \<open>b + 1\<close> items in the good part never lowers the percentage.\<close>

lemma ratio_percent_Suc_mono:
  assumes "a \<le> b"
  shows "ratio_percent a b \<le> ratio_percent (Suc a) (Suc b)"
proof (cases "b = 0")
  case True
  with assms show ?thesis by (simp add: ratio_percent_def)
next
  case False
  have "(of_nat a / of_nat b :: rat) \<le> of_nat (Suc a) / of_nat (Suc b)"
    using assms False by (simp add: divide_simps) (simp add: algebra_simps)
  then have "(of_nat a / of_nat b * 100 :: rat) \<le> of_nat (Suc a) / of_nat (Suc b) * 100"
    by (rule mult_right_mono) simp
  then show ?thesis
    unfolding ratio_percent_def by (rule js_round_mono)
qed

subsection \<open>Falsy defaults\<close>

definition js_or_string :: "string option \<Rightarrow> string \<Rightarrow> string" where
  "js_or_string v d = (case v of None \<Rightarrow> d | Some s \<Rightarrow> if s = [] then d else s)"

lemma js_or_string_simps [simp, model_eval]:
  "js_or_string None d = d"
  "js_or_string (Some []) d = d"
  "js_or_string (Some (c # cs)) d = c # cs"
  by (simp_all add: js_or_string_def)

subsection \<open>Lists\<close>

lemma length_tl_dropWhile:
  "dropWhile P xs \<noteq> [] \<Longrightarrow> length (tl (dropWhile P xs)) < length xs"
  using length_dropWhile_le [of P xs] by (cases "dropWhile P xs") auto

lemma mset_concat_filter:
  "distinct cs \<Longrightarrow>
   mset (concat (map (\<lambda>c. filter (\<lambda>x. f x = c) xs) cs)) = mset (filter (\<lambda>x. f x \<in> set cs) xs)"
proof (induction cs)
  case Nil
  then show ?case by simp
next
  case (Cons c cs)
  from Cons.prems have "c \<notin> set cs" by simp
  then have "mset (filter (\<lambda>x. f x \<in> set (c # cs)) xs) =
      mset (filter (\<lambda>x. f x = c) xs) + mset (filter (\<lambda>x. f x \<in> set cs) xs)"
    by (induction xs) auto
  with Cons show ?case by simp
qed

lemma filter_remove1_in: "P x \<Longrightarrow> filter P (remove1 x xs) = remove1 x (filter P xs)"
  by (induction xs) auto

lemma length_filter_disj:
  assumes "\<forall>x \<in> set xs. \<not> (P x \<and> Q x)"
  shows "length (filter (\<lambda>x. P x \<or> Q x) xs) = length (filter P xs) + length (filter Q xs)"
  using assms by (induction xs) auto

subsection \<open>Strings\<close>

text \<open>\<open>toLowerCase\<close>, on ASCII letters.\<close>

definition js_lower_char :: "char \<Rightarrow> char" where
  "js_lower_char c =
     (if 65 \<le> (of_char c :: nat) \<and> (of_char c :: nat) \<le> 90 then char_of (of_char c + (32 :: nat)) else c)"

definition js_lower :: "string \<Rightarrow> string" where
  "js_lower s = map js_lower_char s"

text \<open>The bullet U+2022 of the listings, in UTF-8.\<close>

definition bullet :: string where
  "bullet = [char_of (226 :: nat), char_of (128 :: nat), char_of (162 :: nat)]"

subsection \<open>Decimal printing\<close>

fun string_of_nat :: "nat \<Rightarrow> string" where
  "string_of_nat n =
     (if n < 10 then [char_of (48 + n)]
      else string_of_nat (n div 10) @ [char_of (48 + n mod 10)])"

declare string_of_nat.simps [simp del]

text \<open>
  Reading the digits back, used only to show that printing is injective; the
  frontend never parses a number it has printed.
\<close>

fun read_digits :: "nat \<Rightarrow> string \<Rightarrow> nat option" where
  "read_digits acc [] = Some acc"
| "read_digits acc (c # cs) =
     (if 48 \<le> (of_char c :: nat) \<and> (of_char c :: nat) < 58
      then read_digits (10 * acc + ((of_char c :: nat) - 48)) cs else None)"

lemma read_digits_append:
  "read_digits acc (xs @ ys) =
     (case read_digits acc xs of None \<Rightarrow> None | Some a \<Rightarrow> read_digits a ys)"
  by (induction acc xs rule: read_digits.induct) auto

lemma of_char_digit: "d < 10 \<Longrightarrow> (of_char (char_of (48 + d) :: char) :: nat) = 48 + d"
  by (simp add: of_char_of)

lemma read_string_of_nat:
  "read_digits acc (string_of_nat n) = Some (acc * 10 ^ length (string_of_nat n) + n)"
proof (induction n arbitrary: acc rule: string_of_nat.induct)
  case (1 n)
  show ?case
  proof (cases "n < 10")
    case True
    then show ?thesis
      by (simp add: string_of_nat.simps [of n] of_char_digit)
  next
    case False
    have IH: "read_digits acc (string_of_nat (n div 10)) =
        Some (acc * 10 ^ length (string_of_nat (n div 10)) + n div 10)"
      using "1.IH" False by simp
    have "(acc * 10 ^ length (string_of_nat (n div 10)) + n div 10) * 10 + n mod 10
        = acc * 10 ^ Suc (length (string_of_nat (n div 10))) + n"
      by (simp add: algebra_simps)
    then show ?thesis
      using False IH
      by (simp add: string_of_nat.simps [of n] read_digits_append of_char_digit algebra_simps)
  qed
qed

lemma string_of_nat_inj:
  assumes "string_of_nat m = string_of_nat n"
  shows "m = n"
proof -
  have "read_digits 0 (string_of_nat m) = read_digits 0 (string_of_nat n)"
    using assms by simp
  then show ?thesis
    by (simp add: read_string_of_nat)
qed

lemma string_of_nat_nonempty [simp]: "string_of_nat n \<noteq> []"
  by (simp add: string_of_nat.simps [of n])

lemma string_of_nat_digit_chars: "c \<in> set (string_of_nat n) \<Longrightarrow> 48 \<le> (of_char c :: nat) \<and> (of_char c :: nat) \<le> 57"
proof (induction n rule: string_of_nat.induct)
  case (1 n)
  then show ?case
    by (cases "n < 10") (auto simp: string_of_nat.simps [of n])
qed

lemma string_of_nat_noslash: "CHR ''/'' \<notin> set (string_of_nat n)"
  using string_of_nat_digit_chars [of "CHR ''/''" n] by auto

text \<open>\<open>${n}\<close> of an integer: a minus sign before the digits of a negative one.\<close>

definition string_of_int :: "int \<Rightarrow> string" where
  "string_of_int i = (if i < 0 then ''-'' @ string_of_nat (nat (- i)) else string_of_nat (nat i))"

lemma string_of_int_nat [simp]: "string_of_int (int n) = string_of_nat n"
  by (simp add: string_of_int_def)

lemma string_of_nat_zero [simp, model_eval]: "string_of_nat 0 = ''0''"
  by code_simp

lemma string_of_int_zero [simp, model_eval]: "string_of_int 0 = ''0''"
  by (simp add: string_of_int_def)

end
