(* ===== verification/Entities.thy ===== *)
theory Entities
  imports Prelude
begin

text \<open>
  The entity model: the records the frontend receives from the record store
  and the enumerations its select widgets offer. The fields follow the form
  state objects of \<open>BidTracker.jsx\<close> (\<open>formData\<close>),
  \<open>ComplianceChecker.jsx\<close> and \<open>DocumentManager.jsx\<close>, and the fields the
  pages read from fetched records (\<open>id\<close>, \<open>created_at\<close>).
  Field names that several records share in the source (\<open>status\<close>,
  \<open>opportunity_id\<close>, \<open>id\<close>, \<open>created_at\<close>, \<open>notes\<close>) get a prefix,
  since a record field is a global constant in HOL.
\<close>

datatype opp_status = Drafting | Review | Approved | Submitted | Won | Lost

datatype priority = High | Medium | Low

datatype submission_format = Portal | Email | Hybrid

datatype ci_status = Pending | Compliant | NonCompliant

datatype category = Proposal | Annexures | Financials | Compliance | Supporting

text \<open>The strings the source stores for each constructor.\<close>

fun status_name :: "opp_status \<Rightarrow> string" where
  "status_name Drafting = ''Drafting''"
| "status_name Review = ''Review''"
| "status_name Approved = ''Approved''"
| "status_name Submitted = ''Submitted''"
| "status_name Won = ''Won''"
| "status_name Lost = ''Lost''"

fun category_name :: "category \<Rightarrow> string" where
  "category_name Proposal = ''Proposal''"
| "category_name Annexures = ''Annexures''"
| "category_name Financials = ''Financials''"
| "category_name Compliance = ''Compliance''"
| "category_name Supporting = ''Supporting''"

fun priority_name :: "priority \<Rightarrow> string" where
  "priority_name High = ''High''"
| "priority_name Medium = ''Medium''"
| "priority_name Low = ''Low''"

fun ci_status_name :: "ci_status \<Rightarrow> string" where
  "ci_status_name Pending = ''Pending''"
| "ci_status_name Compliant = ''Compliant''"
| "ci_status_name NonCompliant = ''Non-Compliant''"

fun format_name :: "submission_format \<Rightarrow> string" where
  "format_name Portal = ''Portal''"
| "format_name Email = ''Email''"
| "format_name Hybrid = ''Hybrid''"

text \<open>
  The thirteen fields of an opportunity that the tracker's form edits
  (\<open>formData\<close>), and the opportunity as stored, which adds the identifier
  the record store assigns. A deadline is held as the time value
  \<open>new Date(submission_deadline)\<close> yields; the empty string of a fresh
  form is an Invalid Date.
\<close>

record opp_fields =
  client :: string
  project_type :: string
  rfp_release_date :: string
  submission_deadline :: js_time
  proposal_owner :: string
  status :: opp_status
  compliance_percentage :: int
  priority_level :: priority
  portal_link :: string
  risk_flags :: "string list"
  submission_format :: submission_format
  budget :: "string option"
  industry :: "string option"

record opportunity = opp_fields +
  opp_id :: ident

definition initialFormData :: opp_fields where
  "initialFormData =
     \<lparr>client = [], project_type = [], rfp_release_date = [], submission_deadline = None,
      proposal_owner = [], status = Drafting, compliance_percentage = 0,
      priority_level = Medium, portal_link = [], risk_flags = [],
      submission_format = Portal, budget = Some [], industry = Some []\<rparr>"

text \<open>The record store's \<open>POST /opportunities\<close>: the submitted fields with a fresh identifier.\<close>

definition new_opportunity :: "ident \<Rightarrow> opp_fields \<Rightarrow> opportunity" where
  "new_opportunity i f = opp_fields.extend f (opportunity.fields i)"

lemma new_opportunity_sel [simp, model_eval]:
  "opp_id (new_opportunity i f) = i"
  "status (new_opportunity i f) = status f"
  "submission_deadline (new_opportunity i f) = submission_deadline f"
  "client (new_opportunity i f) = client f"
  "project_type (new_opportunity i f) = project_type f"
  "proposal_owner (new_opportunity i f) = proposal_owner f"
  "rfp_release_date (new_opportunity i f) = rfp_release_date f"
  "compliance_percentage (new_opportunity i f) = compliance_percentage f"
  "priority_level (new_opportunity i f) = priority_level f"
  "industry (new_opportunity i f) = industry f"
  "budget (new_opportunity i f) = budget f"
  by (simp_all add: new_opportunity_def opp_fields.defs opportunity.defs)

lemma initialFormData_sel [simp, model_eval]:
  "status initialFormData = Drafting"
  "submission_deadline initialFormData = None"
  "client initialFormData = []"
  "project_type initialFormData = []"
  "proposal_owner initialFormData = []"
  "rfp_release_date initialFormData = []"
  "compliance_percentage initialFormData = 0"
  "priority_level initialFormData = Medium"
  "industry initialFormData = Some []"
  "budget initialFormData = Some []"
  by (simp_all add: initialFormData_def)

text \<open>
  A child of an opportunity is posted as the page's form object plus the
  parent reference (\<open>{...formData, opportunity_id: id}\<close>, and for a
  document its \<open>version\<close>); the record store adds the identifier and, for
  documents and activities, the creation time.
\<close>

record compliance_form =
  requirement :: string
  ci_status :: ci_status
  ci_notes :: string
  assigned_to :: string

record compliance_item = compliance_form +
  ci_opportunity_id :: ident
  item_id :: ident

record document_form =
  document_name :: string
  doc_category :: category
  uploaded_by :: string

record document = document_form +
  doc_opportunity_id :: ident
  version :: string
  doc_id :: ident
  doc_created_at :: int

record activity =
  act_opportunity_id :: ident
  activity_type :: string
  description :: string
  act_user :: string
  act_id :: ident
  act_created_at :: int

definition initialComplianceForm :: compliance_form where
  "initialComplianceForm =
     \<lparr>requirement = [], ci_status = Pending, ci_notes = [], assigned_to = []\<rparr>"

definition initialDocumentForm :: document_form where
  "initialDocumentForm = \<lparr>document_name = [], doc_category = Proposal, uploaded_by = []\<rparr>"

text \<open>The record store's create operations: the posted form with the fields it assigns.\<close>

definition new_compliance_item :: "ident \<Rightarrow> ident \<Rightarrow> compliance_form \<Rightarrow> compliance_item" where
  "new_compliance_item oid i f = compliance_form.extend f (compliance_item.fields oid i)"

definition new_document :: "ident \<Rightarrow> string \<Rightarrow> ident \<Rightarrow> int \<Rightarrow> document_form \<Rightarrow> document" where
  "new_document oid v i t f = document_form.extend f (document.fields oid v i t)"

lemma new_compliance_item_sel [simp, model_eval]:
  "ci_status (new_compliance_item oid i f) = ci_status f"
  "requirement (new_compliance_item oid i f) = requirement f"
  "assigned_to (new_compliance_item oid i f) = assigned_to f"
  "ci_opportunity_id (new_compliance_item oid i f) = oid"
  "item_id (new_compliance_item oid i f) = i"
  by (simp_all add: new_compliance_item_def compliance_form.defs compliance_item.defs)

lemma new_document_sel [simp, model_eval]:
  "document_name (new_document oid v i t f) = document_name f"
  "doc_category (new_document oid v i t f) = doc_category f"
  "uploaded_by (new_document oid v i t f) = uploaded_by f"
  "doc_opportunity_id (new_document oid v i t f) = oid"
  "version (new_document oid v i t f) = v"
  "doc_id (new_document oid v i t f) = i"
  "doc_created_at (new_document oid v i t f) = t"
  by (simp_all add: new_document_def document_form.defs document.defs)

lemma initial_forms_sel [simp, model_eval]:
  "ci_status initialComplianceForm = Pending"
  "document_name initialDocumentForm = []"
  "doc_category initialDocumentForm = Proposal"
  by (simp_all add: initialComplianceForm_def initialDocumentForm_def)

text \<open>
  The status sets the pages test with \<open>===\<close> chains and
  \<open>['Won', 'Lost'].includes(...)\<close>: resolved statuses (deadline no longer
  relevant) and active ones (not yet decided).
\<close>

definition is_resolved :: "opp_status \<Rightarrow> bool" where
  "is_resolved s \<longleftrightarrow> s = Won \<or> s = Lost \<or> s = Submitted"

definition is_active :: "opp_status \<Rightarrow> bool" where
  "is_active s \<longleftrightarrow> \<not> (s = Won \<or> s = Lost)"

lemma is_resolved_simps [simp, model_eval]:
  "is_resolved Drafting = False" "is_resolved Review = False"
  "is_resolved Approved = False" "is_resolved Submitted = True"
  "is_resolved Won = True" "is_resolved Lost = True"
  by (simp_all add: is_resolved_def)

lemma is_active_simps [simp, model_eval]:
  "is_active Drafting = True" "is_active Review = True"
  "is_active Approved = True" "is_active Submitted = True"
  "is_active Won = False" "is_active Lost = False"
  by (simp_all add: is_active_def)

lemma status_name_inj: "status_name a = status_name b \<longleftrightarrow> a = b"
  by (cases a; cases b) simp_all

lemma category_name_inj: "category_name a = category_name b \<longleftrightarrow> a = b"
  by (cases a; cases b) simp_all

end
