(* ===== verification/Urgency.thy ===== *)
theory Urgency
  imports Entities
begin

text \<open>
  The urgency classifier. The frontend has four deadline tests, written
  separately in three pages:
  \<^item> \<open>getDeadlineClass\<close> (\<open>BidTracker.jsx\<close>): the row tint of the tracker
    table, with \<open>hoursRemaining \<le> 24\<close> urgent (overdue included) and
    \<open>\<le> 48\<close> warning, resolved statuses always normal;
  \<^item> the urgent filter of \<open>Dashboard.jsx\<close>: unresolved and
    \<open>0 < hoursRemaining \<le> 48\<close> (the "actionable-urgent" predicate);
  \<^item> the urgent filter of \<open>Reports.jsx\<close>: the same window, but applied to
    the active opportunities (not Won or Lost), so Submitted ones count;
  \<^item> the tint of the Dashboard's recent list: \<open>0 < h \<le> 24\<close> urgent,
    \<open>24 < h \<le> 48\<close> warning, regardless of status.
  The clock \<open>now\<close> (\<open>new Date()\<close>) is a parameter. A deadline that
  \<open>new Date\<close> cannot parse is NaN (\<open>None\<close>), and every comparison with it
  is false.
\<close>

definition hours_remaining :: "js_time \<Rightarrow> int \<Rightarrow> rat option" where
  "hours_remaining deadline now =
     map_option (\<lambda>d. of_int (d - now) / of_int ms_per_hour) deadline"

lemma hours_remaining_simps [simp, model_eval]:
  "hours_remaining None now = None"
  "hours_remaining (Some d) now = Some (of_int (d - now) / of_int ms_per_hour)"
  by (simp_all add: hours_remaining_def)

datatype deadline_class = DeadlineNormal | DeadlineWarning | DeadlineUrgent

fun deadline_css :: "deadline_class \<Rightarrow> string" where
  "deadline_css DeadlineNormal = ''deadline-normal''"
| "deadline_css DeadlineWarning = ''deadline-warning''"
| "deadline_css DeadlineUrgent = ''deadline-urgent''"

definition getDeadlineClass :: "js_time \<Rightarrow> opp_status \<Rightarrow> int \<Rightarrow> deadline_class" where
  "getDeadlineClass deadline st now =
     (if st = Won \<or> st = Lost \<or> st = Submitted then DeadlineNormal
      else let h = hours_remaining deadline now in
        if js_le h 24 then DeadlineUrgent
        else if js_le h 48 then DeadlineWarning
        else DeadlineNormal)"

definition dashboardUrgent :: "int \<Rightarrow> opportunity \<Rightarrow> bool" where
  "dashboardUrgent now opp =
     (if status opp = Won \<or> status opp = Lost \<or> status opp = Submitted then False
      else let h = hours_remaining (submission_deadline opp) now in
        js_le h 48 \<and> js_gt h 0)"

definition activeOpportunities :: "opportunity list \<Rightarrow> opportunity list" where
  "activeOpportunities opps = filter (\<lambda>opp. \<not> (status opp = Won \<or> status opp = Lost)) opps"

definition within48 :: "int \<Rightarrow> opportunity \<Rightarrow> bool" where
  "within48 now opp =
     (let h = hours_remaining (submission_deadline opp) now in js_le h 48 \<and> js_gt h 0)"

definition reportsUrgentOpportunities :: "int \<Rightarrow> opportunity list \<Rightarrow> opportunity list" where
  "reportsUrgentOpportunities now opps = filter (within48 now) (activeOpportunities opps)"

definition dashboardUrgentOpportunities :: "int \<Rightarrow> opportunity list \<Rightarrow> opportunity list" where
  "dashboardUrgentOpportunities now opps = filter (dashboardUrgent now) opps"

definition recentDeadlineClass :: "int \<Rightarrow> opportunity \<Rightarrow> deadline_class" where
  "recentDeadlineClass now opp =
     (let h = hours_remaining (submission_deadline opp) now;
          isUrgent = js_le h 24 \<and> js_gt h 0;
          isWarning = js_le h 48 \<and> js_gt h 24
      in if isUrgent then DeadlineUrgent else if isWarning then DeadlineWarning
         else DeadlineNormal)"

subsection \<open>The tests in milliseconds\<close>

text \<open>
  Each test, unfolded to integer comparisons of \<open>deadline - now\<close> with a
  whole number of hours in milliseconds; the proofs below rest on these.
\<close>

lemma getDeadlineClass_ms:
  "getDeadlineClass deadline st now =
     (if is_resolved st then DeadlineNormal
      else case deadline of
        None \<Rightarrow> DeadlineNormal
      | Some t \<Rightarrow>
          if t - now \<le> 24 * ms_per_hour then DeadlineUrgent
          else if t - now \<le> 48 * ms_per_hour then DeadlineWarning
          else DeadlineNormal)"
  by (simp add: getDeadlineClass_def is_resolved_def split: option.split)

lemma within48_ms:
  "within48 now opp \<longleftrightarrow>
     (\<exists>t. submission_deadline opp = Some t \<and> 0 < t - now \<and> t - now \<le> 48 * ms_per_hour)"
  by (cases "submission_deadline opp") (auto simp: within48_def)

lemma dashboardUrgent_within48:
  "dashboardUrgent now opp \<longleftrightarrow> \<not> is_resolved (status opp) \<and> within48 now opp"
  by (simp add: dashboardUrgent_def within48_def is_resolved_def Let_def)

lemma recentDeadlineClass_ms:
  "recentDeadlineClass now opp =
     (case submission_deadline opp of
        None \<Rightarrow> DeadlineNormal
      | Some t \<Rightarrow>
          if 0 < t - now \<and> t - now \<le> 24 * ms_per_hour then DeadlineUrgent
          else if 24 * ms_per_hour < t - now \<and> t - now \<le> 48 * ms_per_hour then DeadlineWarning
          else DeadlineNormal)"
  by (simp add: recentDeadlineClass_def Let_def split: option.split)

lemma dashboardUrgent_ms:
  "dashboardUrgent now opp \<longleftrightarrow> \<not> is_resolved (status opp) \<and>
     (\<exists>t. submission_deadline opp = Some t \<and> 0 < t - now \<and> t - now \<le> 48 * ms_per_hour)"
  by (simp add: dashboardUrgent_within48 within48_ms)

lemmas urgency_ms = getDeadlineClass_ms dashboardUrgent_ms within48_ms recentDeadlineClass_ms

subsection \<open>Properties of the classifier\<close>

text \<open>
  C1: A resolved opportunity (Won, Lost or Submitted) is tinted normal in the
  tracker, whatever its deadline: past, far future or unparsable.
\<close>

theorem getDeadlineClass_resolved:
  assumes "is_resolved st"
  shows "getDeadlineClass deadline st now = DeadlineNormal"
  using assms by (simp add: getDeadlineClass_ms)

theorem getDeadlineClass_resolved_witness:
  "is_resolved Won \<and> getDeadlineClass (Some (- 100 * ms_per_hour)) Won 0 = DeadlineNormal"
  using getDeadlineClass_resolved [of Won "Some (- 100 * ms_per_hour)" 0] by simp

text \<open>
  C2: For an unresolved opportunity with a valid deadline, the tracker's tint
  is urgent when at most 24 hours remain (overdue included), warning when
  between 24 (exclusive) and 48 (inclusive) hours remain, and normal beyond.
\<close>

theorem getDeadlineClass_tiers:
  assumes "\<not> is_resolved st"
  shows "getDeadlineClass (Some t) st now =
           (if t - now \<le> 24 * ms_per_hour then DeadlineUrgent
            else if t - now \<le> 48 * ms_per_hour then DeadlineWarning
            else DeadlineNormal)"
  using assms by (simp add: getDeadlineClass_ms)

theorem getDeadlineClass_tiers_witness:
  "\<not> is_resolved Review \<and>
   getDeadlineClass (Some (30 * ms_per_hour)) Review 0 = DeadlineWarning \<and>
   getDeadlineClass (Some (- 5 * ms_per_hour)) Review 0 = DeadlineUrgent"
  using getDeadlineClass_tiers [of Review "30 * ms_per_hour" 0]
    getDeadlineClass_tiers [of Review "- 5 * ms_per_hour" 0]
  by (simp add: ms_per_hour_def)

text \<open>
  C3: The two predicates of the spec are distinct: an unresolved opportunity
  whose deadline has passed is tinted urgent in the tracker but is not counted
  by the Dashboard's urgent-deadline filter.
\<close>

theorem overdue_urgent_not_actionable:
  assumes "\<not> is_resolved (status opp)" and "submission_deadline opp = Some t" and "t \<le> now"
  shows "getDeadlineClass (submission_deadline opp) (status opp) now = DeadlineUrgent \<and>
         \<not> dashboardUrgent now opp"
  using assms ms_per_hour_pos by (simp add: urgency_ms)

theorem overdue_urgent_not_actionable_witness:
  "getDeadlineClass (Some (- 100 * ms_per_hour)) Review 0 = DeadlineUrgent \<and>
   \<not> dashboardUrgent 0 (new_opportunity 2 (initialFormData\<lparr>status := Review,
      submission_deadline := Some (- 100 * ms_per_hour)\<rparr>))"
  using overdue_urgent_not_actionable [of "new_opportunity 2 (initialFormData\<lparr>status := Review,
      submission_deadline := Some (- 100 * ms_per_hour)\<rparr>)" "- 100 * ms_per_hour" 0]
  by (simp add: ms_per_hour_def)

text \<open>
  C4: A deadline that \<open>new Date\<close> cannot parse (NaN) raises nothing: the
  tracker tints it normal and neither urgent filter nor the recent list flags
  it, for every status.
\<close>

theorem invalid_deadline_silent:
  assumes "submission_deadline opp = None"
  shows "getDeadlineClass (submission_deadline opp) (status opp) now = DeadlineNormal \<and>
         \<not> dashboardUrgent now opp \<and> \<not> within48 now opp \<and>
         recentDeadlineClass now opp = DeadlineNormal"
  using assms by (simp add: urgency_ms)

theorem invalid_deadline_silent_witness:
  "getDeadlineClass None Drafting 0 = DeadlineNormal \<and>
   \<not> dashboardUrgent 0 (new_opportunity 3 initialFormData)"
  using invalid_deadline_silent [of "new_opportunity 3 initialFormData" 0] by simp

text \<open>
  C5: The Reports page's urgent list is the Dashboard's urgent list plus the
  Submitted opportunities whose deadline is within the next 48 hours: it
  filters the active (not Won, not Lost) opportunities only.
\<close>

theorem reportsUrgent_eq:
  "reportsUrgentOpportunities now opps =
     filter (\<lambda>opp. dashboardUrgent now opp \<or> (status opp = Submitted \<and> within48 now opp)) opps"
  unfolding reportsUrgentOpportunities_def activeOpportunities_def filter_filter
  by (rule filter_cong) (auto simp: dashboardUrgent_within48 is_resolved_def)

theorem reportsUrgent_eq_witness:
  "reportsUrgentOpportunities 0 [new_opportunity 4 (initialFormData\<lparr>status := Submitted,
      submission_deadline := Some (10 * ms_per_hour)\<rparr>)] =
   filter (\<lambda>opp. dashboardUrgent 0 opp \<or> (status opp = Submitted \<and> within48 0 opp))
     [new_opportunity 4 (initialFormData\<lparr>status := Submitted,
      submission_deadline := Some (10 * ms_per_hour)\<rparr>)]"
  by (rule reportsUrgent_eq)

text \<open>
  C7: The Dashboard's recent list and the tracker tint an opportunity
  differently exactly when its deadline is valid and either it is unresolved
  and overdue (the tracker says urgent, the recent list normal) or it is
  resolved and due within 48 hours (the recent list ignores the status).
\<close>

theorem recent_tracker_differ:
  "recentDeadlineClass now opp \<noteq> getDeadlineClass (submission_deadline opp) (status opp) now \<longleftrightarrow>
   (\<exists>t. submission_deadline opp = Some t \<and>
        (is_resolved (status opp) \<and> 0 < t - now \<and> t - now \<le> 48 * ms_per_hour \<or>
         \<not> is_resolved (status opp) \<and> t \<le> now))"
  using ms_per_hour_pos
  by (cases "submission_deadline opp") (auto simp: urgency_ms)

theorem recent_tracker_differ_witness:
  "recentDeadlineClass 0 (new_opportunity 5 (initialFormData\<lparr>status := Drafting,
      submission_deadline := Some (- 2 * ms_per_hour)\<rparr>)) \<noteq>
   getDeadlineClass (Some (- 2 * ms_per_hour)) Drafting 0 \<and>
   recentDeadlineClass 0 (new_opportunity 6 (initialFormData\<lparr>status := Won,
      submission_deadline := Some (3 * ms_per_hour)\<rparr>)) \<noteq>
   getDeadlineClass (Some (3 * ms_per_hour)) Won 0"
  using recent_tracker_differ [of 0 "new_opportunity 5 (initialFormData\<lparr>status := Drafting,
      submission_deadline := Some (- 2 * ms_per_hour)\<rparr>)"]
    recent_tracker_differ [of 0 "new_opportunity 6 (initialFormData\<lparr>status := Won,
      submission_deadline := Some (3 * ms_per_hour)\<rparr>)"]
  by (simp add: ms_per_hour_def is_resolved_def initialFormData_def)

end
