(* ===== verification/Compliance.thy ===== *)
theory Compliance
  imports Entities
begin

text \<open>
  The compliance aggregator of \<open>ComplianceChecker.jsx\<close>: the rate of
  requirements marked Compliant (\<open>calculateComplianceRate\<close>), the pending
  count of the summary card, the colour band every page draws a compliance
  bar with, and the status badge of a requirement. The rate is derived from
  the items and is independent of the opportunity's stored
  \<open>compliance_percentage\<close>.
\<close>

definition calculateComplianceRate :: "compliance_item list \<Rightarrow> int" where
  "calculateComplianceRate complianceItems =
     (if length complianceItems = 0 then 0
      else ratio_percent (length (filter (\<lambda>item. ci_status item = Compliant) complianceItems))
             (length complianceItems))"

definition pendingCount :: "compliance_item list \<Rightarrow> nat" where
  "pendingCount complianceItems = length (filter (\<lambda>item. ci_status item = Pending) complianceItems)"

datatype compliance_band = ComplianceHigh | ComplianceMedium | ComplianceLow

definition complianceBand :: "int \<Rightarrow> compliance_band" where
  "complianceBand pct =
     (if pct \<ge> 80 then ComplianceHigh else if pct \<ge> 60 then ComplianceMedium else ComplianceLow)"

fun ci_badge :: "ci_status \<Rightarrow> string" where
  "ci_badge Compliant = ''badge-approved''"
| "ci_badge NonCompliant = ''badge-lost''"
| "ci_badge Pending = ''badge-review''"

subsection \<open>Counting lemmas\<close>

abbreviation compliant_count :: "compliance_item list \<Rightarrow> nat" where
  "compliant_count xs \<equiv> length (filter (\<lambda>item. ci_status item = Compliant) xs)"

lemma compliant_count_le: "compliant_count xs \<le> length xs"
  by (rule length_filter_le)

lemma compliant_count_mset:
  "compliant_count xs = count (mset (map ci_status xs)) Compliant"
  by (induction xs) auto

lemma calculateComplianceRate_Nil [simp, model_eval]: "calculateComplianceRate [] = 0"
  by (simp add: calculateComplianceRate_def)

lemma calculateComplianceRate_nonempty:
  "xs \<noteq> [] \<Longrightarrow> calculateComplianceRate xs = ratio_percent (compliant_count xs) (length xs)"
  by (simp add: calculateComplianceRate_def)

lemma calculateComplianceRate_div:
  "xs \<noteq> [] \<Longrightarrow> calculateComplianceRate xs =
     (200 * int (compliant_count xs) + int (length xs)) div (2 * int (length xs))"
  by (simp add: calculateComplianceRate_nonempty ratio_percent_int)

text \<open>One item fewer in the good part of \<open>b\<close> never raises the percentage.\<close>

lemma ratio_percent_Suc_anti:
  assumes "a \<le> b"
  shows "ratio_percent a (Suc b) \<le> ratio_percent a b"
proof (cases "b = 0")
  case True
  with assms show ?thesis by (simp add: ratio_percent_def)
next
  case False
  have "(of_nat a / of_nat (Suc b) :: rat) \<le> of_nat a / of_nat b"
    using False by (intro divide_left_mono) simp_all
  then have "(of_nat a / of_nat (Suc b) * 100 :: rat) \<le> of_nat a / of_nat b * 100"
    by (rule mult_right_mono) simp
  then show ?thesis
    unfolding ratio_percent_def by (rule js_round_mono)
qed

subsection \<open>Properties of the compliance rate\<close>

lemma calculateComplianceRate_bounds:
  "0 \<le> calculateComplianceRate xs \<and> calculateComplianceRate xs \<le> 100"
  by (simp add: calculateComplianceRate_def ratio_percent_nonneg ratio_percent_le_100
      compliant_count_le)

text \<open>
  C8: Adding a Compliant requirement never lowers the rate, and adding a
  Pending or Non-Compliant one never raises it.
\<close>

theorem calculateComplianceRate_add:
  "(ci_status item = Compliant \<longrightarrow>
      calculateComplianceRate xs \<le> calculateComplianceRate (xs @ [item])) \<and>
   (ci_status item \<noteq> Compliant \<longrightarrow>
      calculateComplianceRate (xs @ [item]) \<le> calculateComplianceRate xs)"
proof (cases "xs = []")
  case True
  then show ?thesis
    by (simp add: calculateComplianceRate_def ratio_percent_nonneg)
next
  case False
  have le: "compliant_count xs \<le> length xs"
    by (rule compliant_count_le)
  show ?thesis
    using False ratio_percent_Suc_mono [OF le] ratio_percent_Suc_anti [OF le]
    by (simp add: calculateComplianceRate_def)
qed

theorem calculateComplianceRate_add_witness:
  "calculateComplianceRate [new_compliance_item 1 1 initialComplianceForm] \<le>
   calculateComplianceRate ([new_compliance_item 1 1 initialComplianceForm] @
     [new_compliance_item 1 2 (initialComplianceForm\<lparr>ci_status := Compliant\<rparr>)])"
  using calculateComplianceRate_add [of "new_compliance_item 1 2 (initialComplianceForm\<lparr>ci_status := Compliant\<rparr>)"
      "[new_compliance_item 1 1 initialComplianceForm]"]
  by simp

text \<open>
  C9: A rate of 100 does not mean every requirement is met: with 200
  Compliant requirements and one Pending, the rate rounds to 100. Exactly: a
  non-empty list has rate 100 iff at most one item in 200 is not Compliant.
\<close>

theorem calculateComplianceRate_100_iff:
  assumes "xs \<noteq> []"
  shows "calculateComplianceRate xs = 100 \<longleftrightarrow>
           200 * (length xs - compliant_count xs) \<le> length xs"
proof -
  let ?c = "compliant_count xs" and ?n = "length xs"
  have n: "0 < 2 * ?n" using assms by simp
  have c: "?c \<le> ?n" by (rule compliant_count_le)
  have conv: "(200 * int ?c + int ?n) div (2 * int ?n) = int ((200 * ?c + ?n) div (2 * ?n))"
    by (simp add: zdiv_int)
  have "200 * ?c + ?n < 101 * (2 * ?n)"
    using c n by linarith
  then have hi: "(200 * ?c + ?n) div (2 * ?n) < 101"
    using div_less_iff_less_mult [OF n] by blast
  have lo: "100 \<le> (200 * ?c + ?n) div (2 * ?n) \<longleftrightarrow> 100 * (2 * ?n) \<le> 200 * ?c + ?n"
    using n by (rule less_eq_div_iff_mult_less_eq)
  have "(200 * ?c + ?n) div (2 * ?n) = 100 \<longleftrightarrow> 200 * (?n - ?c) \<le> ?n"
    using hi lo c by auto
  then show ?thesis
    using assms conv by (simp add: calculateComplianceRate_div)
qed

theorem calculateComplianceRate_100_iff_witness:
  "calculateComplianceRate
     (replicate 200 (new_compliance_item 1 1 (initialComplianceForm\<lparr>ci_status := Compliant\<rparr>)) @
      [new_compliance_item 1 2 initialComplianceForm]) = 100"
  using calculateComplianceRate_100_iff [of
     "replicate 200 (new_compliance_item 1 1 (initialComplianceForm\<lparr>ci_status := Compliant\<rparr>)) @
      [new_compliance_item 1 2 initialComplianceForm]"]
  by simp

end
