(* ===== verification/Store.thy ===== *)
theory Store
  imports Entities
begin

text \<open>
  The remote record store behind \<open>/api\<close>. Its code is not in the repository;
  this theory models the operations the pages call from the spec (section 6):
  list, get, create, update and delete of opportunities, compliance items,
  documents and activities, children listed by their opportunity reference.
  Collections keep insertion order; identifiers come from one counter, so
  they are unique across the store; creation times are passed in by the
  caller as the server clock. Deleting an opportunity does not cascade
  (spec sections 3 and 9). Every request the pages make can also fail (the
  network or the server): \<open>outcome\<close> is that result, chosen by the
  environment, and a failed request leaves the store unchanged.
\<close>

datatype outcome = Ok | Failed

text \<open>The notifications a page shows with \<open>toast.success\<close> and \<open>toast.error\<close>.\<close>

datatype toast = ToastSuccess string | ToastError string

record store =
  st_opportunities :: "opportunity list"
  st_compliance :: "compliance_item list"
  st_documents :: "document list"
  st_activities :: "activity list"
  st_next_id :: ident

definition empty_store :: store where
  "empty_store =
     \<lparr>st_opportunities = [], st_compliance = [], st_documents = [], st_activities = [],
      st_next_id = 1\<rparr>"

subsection \<open>Reads\<close>

definition get_opportunity :: "store \<Rightarrow> ident \<Rightarrow> opportunity option" where
  "get_opportunity s i = find (\<lambda>opp. opp_id opp = i) (st_opportunities s)"

definition compliance_of :: "store \<Rightarrow> ident \<Rightarrow> compliance_item list" where
  "compliance_of s oid = filter (\<lambda>c. ci_opportunity_id c = oid) (st_compliance s)"

definition documents_of :: "store \<Rightarrow> ident \<Rightarrow> document list" where
  "documents_of s oid = filter (\<lambda>d. doc_opportunity_id d = oid) (st_documents s)"

definition activities_of :: "store \<Rightarrow> ident \<Rightarrow> activity list" where
  "activities_of s oid = filter (\<lambda>a. act_opportunity_id a = oid) (st_activities s)"

subsection \<open>Writes\<close>

definition create_opportunity :: "opp_fields \<Rightarrow> store \<Rightarrow> store" where
  "create_opportunity f s =
     s\<lparr>st_opportunities := st_opportunities s @ [new_opportunity (st_next_id s) f],
       st_next_id := Suc (st_next_id s)\<rparr>"

definition update_opportunity :: "ident \<Rightarrow> opp_fields \<Rightarrow> store \<Rightarrow> store" where
  "update_opportunity i f s =
     s\<lparr>st_opportunities :=
         map (\<lambda>opp. if opp_id opp = i then new_opportunity i f else opp) (st_opportunities s)\<rparr>"

definition delete_opportunity :: "ident \<Rightarrow> store \<Rightarrow> store" where
  "delete_opportunity i s = s\<lparr>st_opportunities := filter (\<lambda>opp. opp_id opp \<noteq> i) (st_opportunities s)\<rparr>"

definition create_compliance :: "ident \<Rightarrow> compliance_form \<Rightarrow> store \<Rightarrow> store" where
  "create_compliance oid f s =
     s\<lparr>st_compliance := st_compliance s @ [new_compliance_item oid (st_next_id s) f],
       st_next_id := Suc (st_next_id s)\<rparr>"

definition delete_compliance :: "ident \<Rightarrow> store \<Rightarrow> store" where
  "delete_compliance i s = s\<lparr>st_compliance := filter (\<lambda>c. item_id c \<noteq> i) (st_compliance s)\<rparr>"

definition create_document :: "ident \<Rightarrow> string \<Rightarrow> int \<Rightarrow> document_form \<Rightarrow> store \<Rightarrow> store" where
  "create_document oid v t f s =
     s\<lparr>st_documents := st_documents s @ [new_document oid v (st_next_id s) t f],
       st_next_id := Suc (st_next_id s)\<rparr>"

definition delete_document :: "ident \<Rightarrow> store \<Rightarrow> store" where
  "delete_document i s = s\<lparr>st_documents := filter (\<lambda>d. doc_id d \<noteq> i) (st_documents s)\<rparr>"

definition create_activity :: "ident \<Rightarrow> string \<Rightarrow> string \<Rightarrow> string \<Rightarrow> int \<Rightarrow> store \<Rightarrow> store" where
  "create_activity oid ty desc user t s =
     s\<lparr>st_activities := st_activities s @
         [\<lparr>act_opportunity_id = oid, activity_type = ty, description = desc, act_user = user,
           act_id = st_next_id s, act_created_at = t\<rparr>],
       st_next_id := Suc (st_next_id s)\<rparr>"

subsection \<open>Well-formedness\<close>

text \<open>
  The identifiers the store has handed out: every record has its own, and all
  are below the counter, so the next one is fresh.
\<close>

definition store_ids :: "store \<Rightarrow> ident list" where
  "store_ids s =
     map opp_id (st_opportunities s) @ map item_id (st_compliance s) @
     map doc_id (st_documents s) @ map act_id (st_activities s)"

definition store_wf :: "store \<Rightarrow> bool" where
  "store_wf s = (distinct (store_ids s) \<and> (\<forall>i \<in> set (store_ids s). i < st_next_id s))"

subsection \<open>Frame lemmas\<close>

lemma documents_of_create_document [simp]:
  "documents_of (create_document oid v t f s) oid' =
     documents_of s oid' @ (if oid = oid' then [new_document oid v (st_next_id s) t f] else [])"
  by (simp add: documents_of_def create_document_def)

lemma documents_of_create_activity [simp]:
  "documents_of (create_activity oid ty desc u t s) oid' = documents_of s oid'"
  by (simp add: documents_of_def create_activity_def)

lemma documents_of_delete_document:
  "documents_of (delete_document i s) oid = filter (\<lambda>d. doc_id d \<noteq> i) (documents_of s oid)"
  by (simp add: documents_of_def delete_document_def filter_filter conj_commute)

lemma get_opportunity_delete_document [simp]:
  "get_opportunity (delete_document i s) oid = get_opportunity s oid"
  by (simp add: get_opportunity_def delete_document_def)

lemma get_opportunity_compliance [simp]:
  "get_opportunity (create_compliance oid f s) i = get_opportunity s i"
  "get_opportunity (delete_compliance c s) i = get_opportunity s i"
  by (simp_all add: get_opportunity_def create_compliance_def delete_compliance_def)

lemma st_documents_create_activity [simp]:
  "st_documents (create_activity oid ty desc u t s) = st_documents s"
  by (simp add: create_activity_def)

lemma st_next_id_create [simp]:
  "st_next_id (create_document oid v t f s) = Suc (st_next_id s)"
  "st_next_id (create_activity oid ty desc u t s) = Suc (st_next_id s)"
  "st_next_id (create_compliance oid cf s) = Suc (st_next_id s)"
  "st_next_id (create_opportunity g s) = Suc (st_next_id s)"
  by (simp_all add: create_document_def create_activity_def create_compliance_def
      create_opportunity_def)

lemma activities_of_create_activity [simp]:
  "activities_of (create_activity oid ty desc u t s) oid' =
     activities_of s oid' @
       (if oid = oid' then [\<lparr>act_opportunity_id = oid, activity_type = ty, description = desc,
          act_user = u, act_id = st_next_id s, act_created_at = t\<rparr>] else [])"
  by (simp add: activities_of_def create_activity_def)

lemma activities_of_create_document [simp]:
  "activities_of (create_document oid v t f s) oid' = activities_of s oid'"
  by (simp add: activities_of_def create_document_def)

text \<open>Deleting an opportunity removes it and nothing else: its children stay.\<close>

lemma delete_opportunity_frame [simp]:
  "get_opportunity (delete_opportunity i s) i = None"
  "compliance_of (delete_opportunity i s) oid = compliance_of s oid"
  "documents_of (delete_opportunity i s) oid = documents_of s oid"
  "activities_of (delete_opportunity i s) oid = activities_of s oid"
  by (simp_all add: get_opportunity_def delete_opportunity_def find_None_iff compliance_of_def
      documents_of_def activities_of_def)

subsection \<open>Every operation keeps the store well-formed\<close>

lemma store_wf_empty: "store_wf empty_store"
  by (simp add: store_wf_def store_ids_def empty_store_def)

lemma store_wf_fresh:
  "store_wf s \<Longrightarrow> st_next_id s \<notin> set (store_ids s)"
  by (auto simp: store_wf_def)

lemma store_wf_create_opportunity: "store_wf s \<Longrightarrow> store_wf (create_opportunity f s)"
  by (auto simp: store_wf_def store_ids_def create_opportunity_def less_Suc_eq)

lemma store_wf_update_opportunity: "store_wf s \<Longrightarrow> store_wf (update_opportunity i f s)"
proof -
  have "opp_id \<circ> (\<lambda>opp. if opp_id opp = i then new_opportunity i f else opp) = opp_id"
    by (rule ext) simp
  then show "store_wf s \<Longrightarrow> store_wf (update_opportunity i f s)"
    by (simp add: store_wf_def store_ids_def update_opportunity_def)
qed

lemma store_wf_delete_opportunity: "store_wf s \<Longrightarrow> store_wf (delete_opportunity i s)"
  by (auto simp: store_wf_def store_ids_def delete_opportunity_def distinct_map_filter)

lemma store_wf_create_compliance: "store_wf s \<Longrightarrow> store_wf (create_compliance oid f s)"
  by (auto simp: store_wf_def store_ids_def create_compliance_def less_Suc_eq)

lemma store_wf_delete_compliance: "store_wf s \<Longrightarrow> store_wf (delete_compliance i s)"
  by (auto simp: store_wf_def store_ids_def delete_compliance_def distinct_map_filter)

lemma store_wf_create_document: "store_wf s \<Longrightarrow> store_wf (create_document oid v t f s)"
  by (auto simp: store_wf_def store_ids_def create_document_def less_Suc_eq)

lemma store_wf_delete_document: "store_wf s \<Longrightarrow> store_wf (delete_document i s)"
  by (auto simp: store_wf_def store_ids_def delete_document_def distinct_map_filter)

lemma store_wf_create_activity: "store_wf s \<Longrightarrow> store_wf (create_activity oid ty d u t s)"
  by (auto simp: store_wf_def store_ids_def create_activity_def less_Suc_eq)

lemma store_wf_doc_ids: "store_wf s \<Longrightarrow> distinct (map doc_id (documents_of s oid))"
  by (auto simp: store_wf_def store_ids_def documents_of_def distinct_map_filter)

lemmas store_wf_ops =
  store_wf_create_opportunity store_wf_update_opportunity store_wf_delete_opportunity
  store_wf_create_compliance store_wf_delete_compliance store_wf_create_document
  store_wf_delete_document store_wf_create_activity

end
