(* ===== verification/Documents.thy ===== *)
theory Documents
  imports Store
begin

text \<open>
  The document manager of \<open>DocumentManager.jsx\<close>: a page for one opportunity
  (route parameter \<open>id\<close>) holding a snapshot \<open>documents\<close> of that
  opportunity's documents, fetched by \<open>loadData\<close>. \<open>handleSubmit\<close> labels a
  new document \<open>V<n>\<close>, \<open>n\<close> one more than the number of documents of the
  same name in the snapshot, posts it, closes and resets the dialog, starts a
  reload and posts an activity entry. \<open>handleDelete\<close> deletes after a
  confirmation. The page and the record store evolve together under
  \<open>doc_step\<close>; the reload that \<open>handleSubmit\<close> and \<open>handleDelete\<close> start is
  asynchronous, so its arrival is an event of its own (\<open>DocLoad\<close>), and the
  outcome of every request is chosen by the environment.
\<close>

record doc_page =
  dp_id :: ident
  dp_opportunity :: "opportunity option"
  documents :: "document list"
  dp_loading :: bool
  dp_dialog_open :: bool
  dp_form :: document_form
  dp_toasts :: "toast list"

definition initDocPage :: "ident \<Rightarrow> doc_page" where
  "initDocPage i =
     \<lparr>dp_id = i, dp_opportunity = None, documents = [], dp_loading = True,
      dp_dialog_open = False, dp_form = initialDocumentForm, dp_toasts = []\<rparr>"

definition version_label :: "nat \<Rightarrow> string" where
  "version_label n = ''V'' @ string_of_nat n"

definition nextVersion :: "document list \<Rightarrow> string \<Rightarrow> string" where
  "nextVersion docs name =
     version_label (length (filter (\<lambda>doc. document_name doc = name) docs) + 1)"

definition upload_description :: "document_form \<Rightarrow> string \<Rightarrow> string" where
  "upload_description f v =
     document_name f @ '' ('' @ v @ '') uploaded to '' @ category_name (doc_category f)"

text \<open>
  \<open>loadData\<close>: both requests of the \<open>Promise.all\<close> must succeed; the one for
  the opportunity fails when it no longer exists.
\<close>

definition loadDocData :: "outcome \<Rightarrow> store \<Rightarrow> doc_page \<Rightarrow> doc_page" where
  "loadDocData r s p =
     (case (r, get_opportunity s (dp_id p)) of
        (Ok, Some opp) \<Rightarrow>
          p\<lparr>dp_opportunity := Some opp, documents := documents_of s (dp_id p), dp_loading := False\<rparr>
      | _ \<Rightarrow> p\<lparr>dp_toasts := dp_toasts p @ [ToastError ''Failed to load documents''],
               dp_loading := False\<rparr>)"

definition handleDocSubmit ::
  "int \<Rightarrow> outcome \<Rightarrow> outcome \<Rightarrow> store \<times> doc_page \<Rightarrow> store \<times> doc_page" where
  "handleDocSubmit t r_doc r_act sp =
     (let (s, p) = sp;
          f = dp_form p;
          v = nextVersion (documents p) (document_name f)
      in if r_doc = Failed
         then (s, p\<lparr>dp_toasts := dp_toasts p @ [ToastError ''Failed to add document'']\<rparr>)
         else
           let s1 = create_document (dp_id p) v t f s;
               p1 = p\<lparr>dp_toasts := dp_toasts p @ [ToastSuccess ''Document added successfully''],
                      dp_dialog_open := False, dp_form := initialDocumentForm\<rparr>
           in if r_act = Failed
              then (s1, p1\<lparr>dp_toasts := dp_toasts p1 @ [ToastError ''Failed to add document'']\<rparr>)
              else (create_activity (dp_id p) ''Document Upload'' (upload_description f v)
                      (uploaded_by f) t s1, p1))"

definition handleDocDelete ::
  "ident \<Rightarrow> bool \<Rightarrow> outcome \<Rightarrow> store \<times> doc_page \<Rightarrow> store \<times> doc_page" where
  "handleDocDelete docId confirmed r sp =
     (let (s, p) = sp
      in if \<not> confirmed then (s, p)
         else if r = Failed
         then (s, p\<lparr>dp_toasts := dp_toasts p @ [ToastError ''Failed to delete document'']\<rparr>)
         else (delete_document docId s,
               p\<lparr>dp_toasts := dp_toasts p @ [ToastSuccess ''Document deleted successfully'']\<rparr>))"

datatype doc_event =
    DocLoad outcome
  | DocOpen
  | DocEdit document_form
  | DocCancel
  | DocSubmit int outcome outcome
  | DocDelete ident bool outcome

fun doc_step :: "store \<times> doc_page \<Rightarrow> doc_event \<Rightarrow> store \<times> doc_page" where
  "doc_step (s, p) (DocLoad r) = (s, loadDocData r s p)"
| "doc_step (s, p) DocOpen = (s, p\<lparr>dp_dialog_open := True\<rparr>)"
| "doc_step (s, p) (DocEdit f) = (s, p\<lparr>dp_form := f\<rparr>)"
| "doc_step (s, p) DocCancel = (s, p\<lparr>dp_dialog_open := False, dp_form := initialDocumentForm\<rparr>)"
| "doc_step sp (DocSubmit t r1 r2) = handleDocSubmit t r1 r2 sp"
| "doc_step sp (DocDelete i c r) = handleDocDelete i c r sp"

definition doc_run :: "store \<times> doc_page \<Rightarrow> doc_event list \<Rightarrow> store \<times> doc_page" where
  "doc_run sp es = foldl doc_step sp es"

text \<open>
  \<open>groupDocumentsByCategory\<close>: a JavaScript object filled in document order,
  so its keys come in order of first occurrence; an association list.
\<close>

fun group_push :: "(category \<times> document list) list \<Rightarrow> document \<Rightarrow> (category \<times> document list) list" where
  "group_push [] doc = [(doc_category doc, [doc])]"
| "group_push ((c, ds) # gs) doc =
     (if c = doc_category doc then (c, ds @ [doc]) # gs else (c, ds) # group_push gs doc)"

definition groupDocumentsByCategory :: "document list \<Rightarrow> (category \<times> document list) list" where
  "groupDocumentsByCategory docs = foldl group_push [] docs"

text \<open>
  What the labelling should achieve: every document of an opportunity is
  labelled as \<open>handleSubmit\<close> would label it with all earlier documents of
  that opportunity in the snapshot. \<open>upload_guarded\<close> describes the runs of
  the page in which it holds: every submit is made from an up-to-date
  snapshot, and no delete takes effect.
\<close>

fun labelled_in_order :: "document list \<Rightarrow> document list \<Rightarrow> bool" where
  "labelled_in_order seen [] = True"
| "labelled_in_order seen (d # ds) =
     (version d = version_label (Suc (length (filter (\<lambda>e. document_name e = document_name d) seen)))
      \<and> labelled_in_order (seen @ [d]) ds)"

definition versions_ok :: "document list \<Rightarrow> bool" where
  "versions_ok docs = labelled_in_order [] docs"

definition store_versions_ok :: "store \<Rightarrow> bool" where
  "store_versions_ok s =
     list_all (\<lambda>oid. versions_ok (documents_of s oid)) (map doc_opportunity_id (st_documents s))"

fun upload_event_ok :: "store \<times> doc_page \<Rightarrow> doc_event \<Rightarrow> bool" where
  "upload_event_ok (s, p) (DocDelete i c r) = (\<not> c \<or> r = Failed)"
| "upload_event_ok (s, p) (DocSubmit t r1 r2) = (documents p = documents_of s (dp_id p))"
| "upload_event_ok sp e = True"

fun upload_guarded :: "store \<times> doc_page \<Rightarrow> doc_event list \<Rightarrow> bool" where
  "upload_guarded sp [] = True"
| "upload_guarded sp (e # es) = (upload_event_ok sp e \<and> upload_guarded (doc_step sp e) es)"

subsection \<open>Lemmas on labels and steps\<close>

lemma version_label_inj: "version_label m = version_label n \<longleftrightarrow> m = n"
  by (auto simp: version_label_def dest: string_of_nat_inj)

lemma labelled_in_order_append:
  "labelled_in_order seen (xs @ ys) \<longleftrightarrow> labelled_in_order seen xs \<and> labelled_in_order (seen @ xs) ys"
  by (induction xs arbitrary: seen) auto

lemma versions_ok_snoc:
  "versions_ok (xs @ [d]) \<longleftrightarrow> versions_ok xs \<and> version d = nextVersion xs (document_name d)"
  by (simp add: versions_ok_def labelled_in_order_append nextVersion_def)

lemma versions_ok_labels:
  assumes "versions_ok docs"
  shows "map version (filter (\<lambda>d. document_name d = n) docs) =
           map version_label [1..<Suc (length (filter (\<lambda>d. document_name d = n) docs))]"
  using assms
proof (induction docs rule: rev_induct)
  case Nil
  then show ?case by simp
next
  case (snoc d xs)
  then have ok: "versions_ok xs" and v: "version d = nextVersion xs (document_name d)"
    by (simp_all add: versions_ok_snoc)
  show ?case
    using snoc.IH [OF ok] v by (simp add: nextVersion_def)
qed

lemma versions_ok_distinct:
  assumes "versions_ok docs"
  shows "distinct (map version (filter (\<lambda>d. document_name d = n) docs))"
proof -
  have "inj_on version_label A" for A
    by (simp add: inj_on_def version_label_inj)
  then show ?thesis
    using versions_ok_labels [OF assms] by (simp add: distinct_map)
qed

lemma store_versions_ok_iff: "store_versions_ok s \<longleftrightarrow> (\<forall>oid. versions_ok (documents_of s oid))"
proof
  assume h: "store_versions_ok s"
  show "\<forall>oid. versions_ok (documents_of s oid)"
  proof
    fix oid
    show "versions_ok (documents_of s oid)"
    proof (cases "oid \<in> set (map doc_opportunity_id (st_documents s))")
      case True
      with h show ?thesis by (auto simp: store_versions_ok_def list_all_iff)
    next
      case False
      then have "documents_of s oid = []"
        by (auto simp: documents_of_def filter_empty_conv)
      then show ?thesis by (simp add: versions_ok_def)
    qed
  qed
qed (simp add: store_versions_ok_def list_all_iff)

lemma handleDocSubmit_documents:
  "documents_of (fst (handleDocSubmit t r1 r2 (s, p))) oid =
     documents_of s oid @
       (if r1 = Ok \<and> oid = dp_id p
        then [new_document (dp_id p) (nextVersion (documents p) (document_name (dp_form p)))
                (st_next_id s) t (dp_form p)]
        else [])"
  by (cases r1; cases r2) (simp_all add: handleDocSubmit_def Let_def)

lemma handleDocDelete_noop:
  "\<not> c \<or> r = Failed \<Longrightarrow> fst (handleDocDelete i c r (s, p)) = s"
  by (auto simp: handleDocDelete_def)

lemma doc_step_store:
  "fst (doc_step (s, p) (DocLoad r)) = s" "fst (doc_step (s, p) DocOpen) = s"
  "fst (doc_step (s, p) (DocEdit f)) = s" "fst (doc_step (s, p) DocCancel) = s"
  by simp_all

lemma submit_store_versions_ok:
  assumes "store_versions_ok s" and "documents p = documents_of s (dp_id p)"
  shows "store_versions_ok (fst (handleDocSubmit t r1 r2 (s, p)))"
  using assms
  by (auto simp: store_versions_ok_iff handleDocSubmit_documents versions_ok_snoc)

lemma doc_step_store_versions_ok:
  assumes "store_versions_ok s" and "upload_event_ok (s, p) e"
  shows "store_versions_ok (fst (doc_step (s, p) e))"
  using assms by (cases e) (simp_all add: submit_store_versions_ok handleDocDelete_noop)

lemma doc_run_Cons [simp]: "doc_run sp (e # es) = doc_run (doc_step sp e) es"
  by (simp add: doc_run_def)

lemma doc_run_Nil [simp]: "doc_run sp [] = sp"
  by (simp add: doc_run_def)

lemma upload_guarded_store_versions_ok:
  assumes "upload_guarded sp es" and "store_versions_ok (fst sp)"
  shows "store_versions_ok (fst (doc_run sp es))"
  using assms
proof (induction es arbitrary: sp)
  case Nil
  then show ?case by simp
next
  case (Cons e es)
  obtain s p where sp: "sp = (s, p)" by fastforce
  from Cons.prems sp have "store_versions_ok (fst (doc_step sp e))"
    by (simp add: doc_step_store_versions_ok)
  with Cons.prems Cons.IH show ?case by simp
qed

lemma group_push_map:
  "distinct cs \<Longrightarrow> group_push (map (\<lambda>c. (c, filter (\<lambda>x. doc_category x = c) xs)) cs) d =
     (if doc_category d \<in> set cs
      then map (\<lambda>c. (c, filter (\<lambda>x. doc_category x = c) (xs @ [d]))) cs
      else map (\<lambda>c. (c, filter (\<lambda>x. doc_category x = c) (xs @ [d]))) cs @ [(doc_category d, [d])])"
  by (induction cs) (auto intro!: map_cong)

lemma doc_step_no_reload:
  assumes "e \<noteq> DocLoad Ok"
  shows "dp_id (snd (doc_step (s, p) e)) = dp_id p \<and> documents (snd (doc_step (s, p) e)) = documents p \<and>
         set (documents_of (fst (doc_step (s, p) e)) (dp_id p)) \<subseteq>
           set (documents_of s (dp_id p)) \<union> {d. version d = nextVersion (documents p) (document_name d)}"
proof (cases e)
  case (DocLoad r)
  with assms show ?thesis by (cases r) (simp_all add: loadDocData_def split: option.split)
next
  case (DocSubmit t r1 r2)
  then show ?thesis
    by (cases r1; cases r2) (auto simp: handleDocSubmit_def handleDocSubmit_documents Let_def)
next
  case (DocDelete i c r)
  then show ?thesis
    by (auto simp: handleDocDelete_def documents_of_delete_document)
qed simp_all

lemma doc_run_no_reload:
  assumes "DocLoad Ok \<notin> set es"
  shows "dp_id (snd (doc_run (s, p) es)) = dp_id p \<and> documents (snd (doc_run (s, p) es)) = documents p \<and>
         set (documents_of (fst (doc_run (s, p) es)) (dp_id p)) \<subseteq>
           set (documents_of s (dp_id p)) \<union> {d. version d = nextVersion (documents p) (document_name d)}"
  using assms
proof (induction es arbitrary: s p)
  case Nil
  then show ?case by simp
next
  case (Cons e es)
  obtain s1 p1 where sp1: "doc_step (s, p) e = (s1, p1)" by fastforce
  have step: "dp_id p1 = dp_id p" "documents p1 = documents p"
    "set (documents_of s1 (dp_id p)) \<subseteq>
       set (documents_of s (dp_id p)) \<union> {d. version d = nextVersion (documents p) (document_name d)}"
    using doc_step_no_reload [of e s p] Cons.prems sp1 by auto
  have "dp_id (snd (doc_run (s1, p1) es)) = dp_id p1 \<and> documents (snd (doc_run (s1, p1) es)) = documents p1 \<and>
      set (documents_of (fst (doc_run (s1, p1) es)) (dp_id p1)) \<subseteq>
        set (documents_of s1 (dp_id p1)) \<union> {d. version d = nextVersion (documents p1) (document_name d)}"
    using Cons.prems by (intro Cons.IH) simp
  with step sp1 show ?case by auto
qed

lemma filter_id_remove1:
  "distinct (map doc_id ds) \<Longrightarrow> d \<in> set ds \<Longrightarrow> filter (\<lambda>e. doc_id e \<noteq> doc_id d) ds = remove1 d ds"
proof (induction ds)
  case Nil
  then show ?case by simp
next
  case (Cons a ds)
  show ?case
  proof (cases "a = d")
    case True
    with Cons.prems have "\<forall>e \<in> set ds. doc_id e \<noteq> doc_id d"
      by (auto simp: image_iff)
    with True show ?thesis by simp
  next
    case False
    with Cons.prems have "doc_id a \<noteq> doc_id d"
      by (auto simp: image_iff)
    with False Cons show ?thesis by simp
  qed
qed

lemma versions_ok_last:
  assumes "versions_ok docs" and "filter (\<lambda>d. document_name d = n) docs \<noteq> []"
  shows "version (last (filter (\<lambda>d. document_name d = n) docs)) =
           version_label (length (filter (\<lambda>d. document_name d = n) docs))"
proof -
  let ?L = "filter (\<lambda>d. document_name d = n) docs"
  obtain k where k: "length ?L = Suc k"
    using assms(2) by (cases ?L) auto
  have "map version ?L = map version_label [1..<Suc (Suc k)]"
    using versions_ok_labels [OF assms(1), of n] k by simp
  then have "last (map version ?L) = version_label (Suc k)"
    by simp
  then show ?thesis
    using assms(2) k by (simp add: last_map)
qed

subsection \<open>Properties of the document manager\<close>

text \<open>
  C10: A successful upload (both requests succeed) appends to the
  opportunity's documents one document labelled \<open>V(k+1)\<close>, \<open>k\<close> the number
  of documents of that name in the page's snapshot, appends an activity
  "Document Upload" naming the label, closes the dialog and resets the form;
  the snapshot itself is unchanged until the reload arrives.
\<close>

theorem handleDocSubmit_success:
  assumes "handleDocSubmit t Ok Ok (s, p) = (s', p')"
  shows "documents_of s' (dp_id p) =
           documents_of s (dp_id p) @
             [new_document (dp_id p)
                (version_label (Suc (length (filter (\<lambda>d. document_name d = document_name (dp_form p))
                   (documents p)))))
                (st_next_id s) t (dp_form p)] \<and>
         activities_of s' (dp_id p) =
           activities_of s (dp_id p) @
             [\<lparr>act_opportunity_id = dp_id p, activity_type = ''Document Upload'',
               description = upload_description (dp_form p) (nextVersion (documents p) (document_name (dp_form p))),
               act_user = uploaded_by (dp_form p), act_id = Suc (st_next_id s), act_created_at = t\<rparr>] \<and>
         \<not> dp_dialog_open p' \<and> dp_form p' = initialDocumentForm \<and> documents p' = documents p"
  using assms by (auto simp: handleDocSubmit_def nextVersion_def Let_def)

theorem handleDocSubmit_success_witness:
  "documents_of (fst (handleDocSubmit 100 Ok Ok (create_opportunity initialFormData empty_store,
      initDocPage 1\<lparr>dp_form := initialDocumentForm\<lparr>document_name := ''Tech''\<rparr>\<rparr>))) 1 =
   [new_document 1 (version_label 1) 2 100 (initialDocumentForm\<lparr>document_name := ''Tech''\<rparr>)]"
proof -
  let ?sp = "(create_opportunity initialFormData empty_store,
      initDocPage 1\<lparr>dp_form := initialDocumentForm\<lparr>document_name := ''Tech''\<rparr>\<rparr>)"
  obtain s' p' where eq: "handleDocSubmit 100 Ok Ok ?sp = (s', p')" by fastforce
  show ?thesis
    using handleDocSubmit_success [OF eq] eq
    by (simp add: initDocPage_def create_opportunity_def empty_store_def documents_of_def)
qed

text \<open>
  C11: Failed requests change nothing but the notifications: a failed upload
  leaves the store, the snapshot, the open dialog and the form as they were and
  shows "Failed to add document"; a failed or cancelled delete leaves the store
  as it was; a failed load keeps the snapshot and shows "Failed to load
  documents".
\<close>

theorem doc_failures_keep_state:
  "handleDocSubmit t Failed r (s, p) =
     (s, p\<lparr>dp_toasts := dp_toasts p @ [ToastError ''Failed to add document'']\<rparr>) \<and>
   (\<not> c \<or> r = Failed \<longrightarrow> fst (handleDocDelete i c r (s, p)) = s) \<and>
   documents (loadDocData Failed s p) = documents p \<and>
   dp_toasts (loadDocData Failed s p) = dp_toasts p @ [ToastError ''Failed to load documents'']"
  by (simp add: handleDocSubmit_def handleDocDelete_noop loadDocData_def)

theorem doc_failures_keep_state_witness:
  "fst (handleDocDelete 2 False Ok (empty_store, initDocPage 1)) = empty_store"
  using doc_failures_keep_state [where c = False and i = 2 and r = Ok and s = empty_store
      and p = "initDocPage 1"] by simp

text \<open>
  C12: When the document is stored but the activity request fails, the
  document stays stored, no activity is logged, and the page shows "Document
  added successfully" followed by "Failed to add document".
\<close>

theorem activity_failure_reports_upload_failure:
  assumes "handleDocSubmit t Ok Failed (s, p) = (s', p')"
  shows "length (documents_of s' (dp_id p)) = Suc (length (documents_of s (dp_id p))) \<and>
         activities_of s' (dp_id p) = activities_of s (dp_id p) \<and>
         dp_toasts p' = dp_toasts p @ [ToastSuccess ''Document added successfully'',
                                       ToastError ''Failed to add document'']"
  using assms by (auto simp: handleDocSubmit_def Let_def)

theorem activity_failure_reports_upload_failure_witness:
  "dp_toasts (snd (handleDocSubmit 5 Ok Failed (empty_store, initDocPage 1))) =
     [ToastSuccess ''Document added successfully'', ToastError ''Failed to add document'']"
proof -
  obtain s' p' where eq: "handleDocSubmit 5 Ok Failed (empty_store, initDocPage 1) = (s', p')"
    by fastforce
  show ?thesis
    using activity_failure_reports_upload_failure [OF eq] eq by (simp add: initDocPage_def)
qed

text \<open>
  C13: In every run of the page in which each upload is made from an
  up-to-date snapshot and no delete takes effect, every document of every
  opportunity keeps the label the spec gives it: \<open>V(1 + n)\<close>, \<open>n\<close> the number of
  earlier documents of that opportunity with the same name; in particular no
  two documents of one name in one opportunity share a label.
\<close>

theorem upload_guarded_versions_ok:
  assumes "upload_guarded (s, p) es" and "store_versions_ok s"
  shows "versions_ok (documents_of (fst (doc_run (s, p) es)) oid) \<and>
         distinct (map version (filter (\<lambda>d. document_name d = n) (documents_of (fst (doc_run (s, p) es)) oid)))"
proof -
  have "versions_ok (documents_of (fst (doc_run (s, p) es)) oid)"
    using upload_guarded_store_versions_ok [of "(s, p)" es] assms by (simp add: store_versions_ok_iff)
  then show ?thesis
    using versions_ok_distinct by blast
qed

theorem upload_guarded_versions_ok_witness:
  "versions_ok (documents_of (fst (doc_run (create_opportunity initialFormData empty_store,
      loadDocData Ok (create_opportunity initialFormData empty_store) (initDocPage 1))
     [DocOpen, DocEdit (initialDocumentForm\<lparr>document_name := ''Tech''\<rparr>), DocSubmit 100 Ok Ok,
      DocLoad Ok, DocOpen, DocEdit (initialDocumentForm\<lparr>document_name := ''Tech''\<rparr>),
      DocSubmit 200 Ok Ok, DocLoad Ok])) 1) \<and>
   distinct (map version (filter (\<lambda>d. document_name d = ''Tech'') (documents_of (fst (doc_run
     (create_opportunity initialFormData empty_store,
      loadDocData Ok (create_opportunity initialFormData empty_store) (initDocPage 1))
     [DocOpen, DocEdit (initialDocumentForm\<lparr>document_name := ''Tech''\<rparr>), DocSubmit 100 Ok Ok,
      DocLoad Ok, DocOpen, DocEdit (initialDocumentForm\<lparr>document_name := ''Tech''\<rparr>),
      DocSubmit 200 Ok Ok, DocLoad Ok])) 1)))"
  by (rule upload_guarded_versions_ok) code_simp+

text \<open>
  C14: The label of an upload is counted in the page's snapshot, not in the
  store: in any run of the page without a successful reload (the reload
  after an upload is not awaited, and it may fail), the snapshot stays as it
  was, and every document the run adds to the opportunity is labelled from
  that snapshot, so all documents uploaded under one name in the run carry
  the same label.
\<close>

theorem stale_snapshot_labels:
  assumes "DocLoad Ok \<notin> set es"
  shows "documents (snd (doc_run (s, p) es)) = documents p \<and>
         (\<forall>d \<in> set (documents_of (fst (doc_run (s, p) es)) (dp_id p)).
            d \<notin> set (documents_of s (dp_id p)) \<longrightarrow>
            version d = nextVersion (documents p) (document_name d))"
  using doc_run_no_reload [OF assms, of s p] by auto

theorem stale_snapshot_labels_witness:
  "list_all (\<lambda>d. d \<notin> set (documents_of (create_opportunity initialFormData empty_store) 1) \<longrightarrow>
                 version d = nextVersion [] (document_name d))
     (documents_of (fst (doc_run (create_opportunity initialFormData empty_store, initDocPage 1)
        [DocEdit (initialDocumentForm\<lparr>document_name := ''Tech''\<rparr>), DocSubmit 100 Ok Ok,
         DocOpen, DocEdit (initialDocumentForm\<lparr>document_name := ''Tech''\<rparr>), DocSubmit 200 Ok Ok])) 1) \<and>
   map version (documents_of (fst (doc_run (create_opportunity initialFormData empty_store, initDocPage 1)
        [DocEdit (initialDocumentForm\<lparr>document_name := ''Tech''\<rparr>), DocSubmit 100 Ok Ok,
         DocOpen, DocEdit (initialDocumentForm\<lparr>document_name := ''Tech''\<rparr>), DocSubmit 200 Ok Ok])) 1) =
     [''V1'', ''V1'']"
proof
  have ids: "dp_id (initDocPage 1) = 1" "documents (initDocPage 1) = []"
    by (simp_all add: initDocPage_def)
  have "DocLoad Ok \<notin> set [DocEdit (initialDocumentForm\<lparr>document_name := ''Tech''\<rparr>), DocSubmit 100 Ok Ok,
         DocOpen, DocEdit (initialDocumentForm\<lparr>document_name := ''Tech''\<rparr>), DocSubmit 200 Ok Ok]"
    by simp
  from conjunct2 [OF stale_snapshot_labels [OF this, of "create_opportunity initialFormData empty_store"
      "initDocPage 1"]]
  show "list_all (\<lambda>d. d \<notin> set (documents_of (create_opportunity initialFormData empty_store) 1) \<longrightarrow>
                 version d = nextVersion [] (document_name d))
     (documents_of (fst (doc_run (create_opportunity initialFormData empty_store, initDocPage 1)
        [DocEdit (initialDocumentForm\<lparr>document_name := ''Tech''\<rparr>), DocSubmit 100 Ok Ok,
         DocOpen, DocEdit (initialDocumentForm\<lparr>document_name := ''Tech''\<rparr>), DocSubmit 200 Ok Ok])) 1)"
    unfolding list_all_iff ids .
next
  show "map version (documents_of (fst (doc_run (create_opportunity initialFormData empty_store, initDocPage 1)
        [DocEdit (initialDocumentForm\<lparr>document_name := ''Tech''\<rparr>), DocSubmit 100 Ok Ok,
         DocOpen, DocEdit (initialDocumentForm\<lparr>document_name := ''Tech''\<rparr>), DocSubmit 200 Ok Ok])) 1) =
     [''V1'', ''V1'']"
    by code_simp
qed

text \<open>
  C15: Labels count the surviving documents of a name, not a high-water
  mark: deleting a document that is not the newest of its name, reloading
  and uploading that name again gives the new document the label the newest
  surviving one already carries.
\<close>

theorem delete_reuses_version:
  assumes wf: "store_wf s" and ok: "versions_ok (documents_of s (dp_id p))"
    and opp: "get_opportunity s (dp_id p) \<noteq> None"
    and d: "d \<in> set (documents_of s (dp_id p))"
    and notlast: "d \<noteq> last (filter (\<lambda>e. document_name e = document_name d) (documents_of s (dp_id p)))"
    and f: "document_name f = document_name d"
  shows "map version (filter (\<lambda>e. document_name e = document_name d)
           (documents_of (fst (doc_run (s, p) [DocDelete (doc_id d) True Ok, DocLoad Ok, DocEdit f,
              DocSubmit t Ok r])) (dp_id p))) =
         map version (remove1 d (filter (\<lambda>e. document_name e = document_name d) (documents_of s (dp_id p)))) @
           [version (last (filter (\<lambda>e. document_name e = document_name d) (documents_of s (dp_id p))))] \<and>
         version (last (filter (\<lambda>e. document_name e = document_name d) (documents_of s (dp_id p)))) \<in>
           set (map version (remove1 d (filter (\<lambda>e. document_name e = document_name d) (documents_of s (dp_id p)))))"
proof -
  let ?i = "dp_id p" and ?n = "document_name d"
  let ?D = "documents_of s ?i"
  let ?L = "filter (\<lambda>e. document_name e = ?n) ?D"
  define s1 where "s1 = delete_document (doc_id d) s"
  define p2 where "p2 = (loadDocData Ok s1 (snd (handleDocDelete (doc_id d) True Ok (s, p))))\<lparr>dp_form := f\<rparr>"
  have D1: "documents_of s1 ?i = remove1 d ?D"
    using filter_id_remove1 [OF store_wf_doc_ids [OF wf] d]
    by (simp add: s1_def documents_of_delete_document)
  have p2: "dp_id p2 = ?i" "documents p2 = remove1 d ?D" "dp_form p2 = f"
    using opp D1 by (auto simp: p2_def s1_def loadDocData_def handleDocDelete_def)
  have run: "doc_run (s, p) [DocDelete (doc_id d) True Ok, DocLoad Ok, DocEdit f, DocSubmit t Ok r] =
      handleDocSubmit t Ok r (s1, p2)"
    by (simp add: p2_def s1_def handleDocDelete_def)
  have dL: "d \<in> set ?L" and ne: "?L \<noteq> []"
    using d by (auto simp: filter_empty_conv)
  have fL: "filter (\<lambda>e. document_name e = document_name f) (remove1 d ?D) = remove1 d ?L"
    using f by (simp add: filter_remove1_in)
  have len: "length (remove1 d ?L) + 1 = length ?L"
    using dL length_pos_if_in_set [OF dL] by (simp add: length_remove1)
  have label: "nextVersion (remove1 d ?D) (document_name f) = version (last ?L)"
    using versions_ok_last [OF ok ne] by (simp only: nextVersion_def fL len)
  have last_in: "last ?L \<in> set (remove1 d ?L)"
    using notlast ne by (metis in_set_remove1 last_in_set)
  have fin: "documents_of (fst (doc_run (s, p) [DocDelete (doc_id d) True Ok, DocLoad Ok, DocEdit f,
      DocSubmit t Ok r])) ?i = remove1 d ?D @ [new_document ?i (version (last ?L)) (st_next_id s1) t f]"
    unfolding run using p2 D1 label by (simp add: handleDocSubmit_documents)
  have "filter (\<lambda>e. document_name e = ?n) (remove1 d ?D @ [new_document ?i (version (last ?L)) (st_next_id s1) t f])
      = remove1 d ?L @ [new_document ?i (version (last ?L)) (st_next_id s1) t f]"
    using f by (simp add: filter_remove1_in)
  with fin last_in show ?thesis
    by simp
qed

theorem delete_reuses_version_witness:
  "version (last (filter (\<lambda>e. document_name e = ''Tech'') (documents_of (create_document 1 ''V2'' 200 (initialDocumentForm\<lparr>document_name := ''Tech''\<rparr>) (create_document 1 ''V1'' 100 (initialDocumentForm\<lparr>document_name := ''Tech''\<rparr>) (create_opportunity initialFormData empty_store))) 1))) \<in>
     set (map version (remove1 (new_document 1 ''V1'' 2 100 (initialDocumentForm\<lparr>document_name := ''Tech''\<rparr>)) (filter (\<lambda>e. document_name e = ''Tech'') (documents_of (create_document 1 ''V2'' 200 (initialDocumentForm\<lparr>document_name := ''Tech''\<rparr>) (create_document 1 ''V1'' 100 (initialDocumentForm\<lparr>document_name := ''Tech''\<rparr>) (create_opportunity initialFormData empty_store))) 1)))) \<and>
   map version (filter (\<lambda>e. document_name e = ''Tech'')
     (documents_of (fst (doc_run (create_document 1 ''V2'' 200 (initialDocumentForm\<lparr>document_name := ''Tech''\<rparr>) (create_document 1 ''V1'' 100 (initialDocumentForm\<lparr>document_name := ''Tech''\<rparr>) (create_opportunity initialFormData empty_store)), initDocPage 1) [DocDelete 2 True Ok, DocLoad Ok, DocEdit (initialDocumentForm\<lparr>document_name := ''Tech''\<rparr>),
        DocSubmit 300 Ok Ok])) 1)) = [''V2'', ''V2'']"
proof
  have h: "store_wf (create_document 1 ''V2'' 200 (initialDocumentForm\<lparr>document_name := ''Tech''\<rparr>) (create_document 1 ''V1'' 100 (initialDocumentForm\<lparr>document_name := ''Tech''\<rparr>) (create_opportunity initialFormData empty_store)))" "versions_ok (documents_of (create_document 1 ''V2'' 200 (initialDocumentForm\<lparr>document_name := ''Tech''\<rparr>) (create_document 1 ''V1'' 100 (initialDocumentForm\<lparr>document_name := ''Tech''\<rparr>) (create_opportunity initialFormData empty_store))) (dp_id (initDocPage 1)))"
    "get_opportunity (create_document 1 ''V2'' 200 (initialDocumentForm\<lparr>document_name := ''Tech''\<rparr>) (create_document 1 ''V1'' 100 (initialDocumentForm\<lparr>document_name := ''Tech''\<rparr>) (create_opportunity initialFormData empty_store))) (dp_id (initDocPage 1)) \<noteq> None"
    "new_document 1 ''V1'' 2 100 (initialDocumentForm\<lparr>document_name := ''Tech''\<rparr>) \<in> set (documents_of (create_document 1 ''V2'' 200 (initialDocumentForm\<lparr>document_name := ''Tech''\<rparr>) (create_document 1 ''V1'' 100 (initialDocumentForm\<lparr>document_name := ''Tech''\<rparr>) (create_opportunity initialFormData empty_store))) (dp_id (initDocPage 1)))"
    "new_document 1 ''V1'' 2 100 (initialDocumentForm\<lparr>document_name := ''Tech''\<rparr>) \<noteq> last (filter (\<lambda>e. document_name e = document_name (new_document 1 ''V1'' 2 100 (initialDocumentForm\<lparr>document_name := ''Tech''\<rparr>))) (documents_of (create_document 1 ''V2'' 200 (initialDocumentForm\<lparr>document_name := ''Tech''\<rparr>) (create_document 1 ''V1'' 100 (initialDocumentForm\<lparr>document_name := ''Tech''\<rparr>) (create_opportunity initialFormData empty_store))) (dp_id (initDocPage 1))))"
    "document_name (initialDocumentForm\<lparr>document_name := ''Tech''\<rparr>) = document_name (new_document 1 ''V1'' 2 100 (initialDocumentForm\<lparr>document_name := ''Tech''\<rparr>))"
    by code_simp+
  have "doc_id (new_document 1 ''V1'' 2 100 (initialDocumentForm\<lparr>document_name := ''Tech''\<rparr>)) = 2" "document_name (new_document 1 ''V1'' 2 100 (initialDocumentForm\<lparr>document_name := ''Tech''\<rparr>)) = ''Tech''" "dp_id (initDocPage 1) = 1"
    by (simp_all add: initDocPage_def)
  with conjunct2 [OF delete_reuses_version [OF h, of 300 Ok]]
  show "version (last (filter (\<lambda>e. document_name e = ''Tech'') (documents_of (create_document 1 ''V2'' 200 (initialDocumentForm\<lparr>document_name := ''Tech''\<rparr>) (create_document 1 ''V1'' 100 (initialDocumentForm\<lparr>document_name := ''Tech''\<rparr>) (create_opportunity initialFormData empty_store))) 1))) \<in>
     set (map version (remove1 (new_document 1 ''V1'' 2 100 (initialDocumentForm\<lparr>document_name := ''Tech''\<rparr>)) (filter (\<lambda>e. document_name e = ''Tech'') (documents_of (create_document 1 ''V2'' 200 (initialDocumentForm\<lparr>document_name := ''Tech''\<rparr>) (create_document 1 ''V1'' 100 (initialDocumentForm\<lparr>document_name := ''Tech''\<rparr>) (create_opportunity initialFormData empty_store))) 1))))"
    by simp
next
  show "map version (filter (\<lambda>e. document_name e = ''Tech'')
     (documents_of (fst (doc_run (create_document 1 ''V2'' 200 (initialDocumentForm\<lparr>document_name := ''Tech''\<rparr>) (create_document 1 ''V1'' 100 (initialDocumentForm\<lparr>document_name := ''Tech''\<rparr>) (create_opportunity initialFormData empty_store)), initDocPage 1) [DocDelete 2 True Ok, DocLoad Ok, DocEdit (initialDocumentForm\<lparr>document_name := ''Tech''\<rparr>),
        DocSubmit 300 Ok Ok])) 1)) = [''V2'', ''V2'']"
    by code_simp
qed

lemma groupDocumentsByCategory_eq:
  "groupDocumentsByCategory docs =
     map (\<lambda>c. (c, filter (\<lambda>d. doc_category d = c) docs)) (rev (remdups (rev (map doc_category docs))))"
proof (induction docs rule: rev_induct)
  case Nil
  then show ?case by (simp add: groupDocumentsByCategory_def)
next
  case (snoc y xs)
  let ?cs = "rev (remdups (rev (map doc_category xs)))"
  have dist: "distinct ?cs" by simp
  have step: "groupDocumentsByCategory (xs @ [y]) =
      group_push (map (\<lambda>c. (c, filter (\<lambda>x. doc_category x = c) xs)) ?cs) y"
    using snoc.IH by (simp add: groupDocumentsByCategory_def)
  show ?case
  proof (cases "doc_category y \<in> set ?cs")
    case True
    then show ?thesis
      using step group_push_map [OF dist, of xs y] by simp
  next
    case False
    then have "\<forall>x \<in> set xs. doc_category x \<noteq> doc_category y"
      by (metis image_eqI set_map set_remdups set_rev)
    then have none: "filter (\<lambda>x. doc_category x = doc_category y) xs = []"
      by (simp add: filter_empty_conv)
    show ?thesis
      using False step group_push_map [OF dist, of xs y] none by simp
  qed
qed

end
