(* ===== verification/Statistics.thy ===== *)
theory Statistics
  imports Urgency
begin

text \<open>
  The statistics engine behind \<open>GET /api/statistics\<close>. Its code is not in the
  repository; \<open>summarize\<close> follows the spec (section 4.4) word by word:
  total count, sparse status counts (statuses in order of first occurrence,
  absent ones omitted), the win rate over all opportunities, the rounded mean of
  the stored compliance percentages, and the count of unresolved opportunities
  whose deadline lies in the next 48 hours. The pages read the summary with
  \<open>statistics?.field || 0\<close>: a failed load (\<open>None\<close>) reads as zero
  (\<open>stat_or_zero\<close>).
\<close>

record statistics =
  total_opportunities :: nat
  status_counts :: "(opp_status \<times> nat) list"
  win_rate :: int
  average_compliance :: int
  urgent_deadlines :: nat

definition count_status :: "opp_status \<Rightarrow> opportunity list \<Rightarrow> nat" where
  "count_status st opps = length (filter (\<lambda>opp. status opp = st) opps)"

definition statusCounts :: "opportunity list \<Rightarrow> (opp_status \<times> nat) list" where
  "statusCounts opps =
     map (\<lambda>st. (st, count_status st opps)) (rev (remdups (rev (map status opps))))"

definition spec_urgent :: "int \<Rightarrow> opportunity \<Rightarrow> bool" where
  "spec_urgent now opp =
     (status opp \<notin> {Won, Lost, Submitted} \<and>
      (case submission_deadline opp of
         None \<Rightarrow> False
       | Some t \<Rightarrow> 0 < t - now \<and> t - now \<le> 48 * ms_per_hour))"

definition summarize :: "int \<Rightarrow> opportunity list \<Rightarrow> statistics" where
  "summarize now opps =
     (let total = length opps in
      \<lparr>total_opportunities = total,
       status_counts = statusCounts opps,
       win_rate = (if total > 0 then ratio_percent (count_status Won opps) total else 0),
       average_compliance =
         (if total = 0 then 0
          else js_round (of_int (sum_list (map compliance_percentage opps)) / of_nat total)),
       urgent_deadlines = length (filter (spec_urgent now) opps)\<rparr>)"

definition stat_or_zero :: "statistics option \<Rightarrow> (statistics \<Rightarrow> int) \<Rightarrow> int" where
  "stat_or_zero st f = (case st of None \<Rightarrow> 0 | Some s \<Rightarrow> f s)"

text \<open>The Dashboard's chart data \<open>statusData\<close>: one bar per key of \<open>status_counts\<close>.\<close>

definition dashboardStatusData :: "statistics option \<Rightarrow> (string \<times> nat) list" where
  "dashboardStatusData st =
     (case st of None \<Rightarrow> [] | Some s \<Rightarrow> map (\<lambda>(k, n). (status_name k, n)) (status_counts s))"

subsection \<open>Lemmas\<close>

lemma count_status_le: "count_status st opps \<le> length opps"
  by (simp add: count_status_def)

lemma sum_length_filter_eq:
  assumes "finite S" and "set (map f xs) \<subseteq> S"
  shows "(\<Sum>v \<in> S. length (filter (\<lambda>x. f x = v) xs)) = length xs"
  using assms(2)
proof (induction xs)
  case Nil
  then show ?case by simp
next
  case (Cons x xs)
  have "(\<Sum>v \<in> S. length (filter (\<lambda>y. f y = v) (x # xs)))
      = (\<Sum>v \<in> S. (if f x = v then 1 else 0) + length (filter (\<lambda>y. f y = v) xs))"
    by (intro sum.cong) auto
  also have "\<dots> = (\<Sum>v \<in> S. if f x = v then 1 else 0) + length xs"
    using Cons by (simp add: sum.distrib)
  also have "\<dots> = length (x # xs)"
    using Cons.prems assms(1) by (simp add: sum.delta)
  finally show ?case .
qed

lemma sum_count_status:
  "sum_list (map (\<lambda>st. count_status st opps) (rev (remdups (rev (map status opps))))) = length opps"
proof -
  have "sum_list (map (\<lambda>st. count_status st opps) (rev (remdups (rev (map status opps)))))
      = (\<Sum>st \<in> set (map status opps). count_status st opps)"
    by (simp add: sum_list_distinct_conv_sum_set)
  also have "\<dots> = length opps"
    unfolding count_status_def by (rule sum_length_filter_eq) simp_all
  finally show ?thesis .
qed

lemma summarize_sel [simp]:
  "total_opportunities (summarize now opps) = length opps"
  "status_counts (summarize now opps) = statusCounts opps"
  "win_rate (summarize now opps) =
     (if opps = [] then 0 else ratio_percent (count_status Won opps) (length opps))"
  "average_compliance (summarize now opps) =
     (if opps = [] then 0
      else js_round (of_int (sum_list (map compliance_percentage opps)) / of_nat (length opps)))"
  "urgent_deadlines (summarize now opps) = length (filter (spec_urgent now) opps)"
  by (simp_all add: summarize_def Let_def)

lemma spec_urgent_dashboard: "spec_urgent now opp = dashboardUrgent now opp"
  by (cases "submission_deadline opp")
     (auto simp: spec_urgent_def dashboardUrgent_ms is_resolved_def)

lemma sum_list_bounded:
  assumes "\<forall>x \<in> set xs. f x \<le> (c :: int)"
  shows "sum_list (map f xs) \<le> c * int (length xs)"
  using assms by (induction xs) (auto simp: algebra_simps)

lemma sum_list_nonneg_int:
  assumes "\<forall>x \<in> set xs. 0 \<le> (f x :: int)"
  shows "0 \<le> sum_list (map f xs)"
  using assms by (induction xs) auto

subsection \<open>Properties of the summary\<close>

text \<open>
  C16: When every stored compliance percentage is between 0 and 100, so is
  the average compliance.
\<close>

theorem average_compliance_bounds:
  assumes "\<forall>opp \<in> set opps. 0 \<le> compliance_percentage opp \<and> compliance_percentage opp \<le> 100"
  shows "0 \<le> average_compliance (summarize now opps) \<and> average_compliance (summarize now opps) \<le> 100"
proof (cases "opps = []")
  case True
  then show ?thesis by simp
next
  case False
  let ?S = "sum_list (map compliance_percentage opps)" and ?n = "length opps"
  have lo: "0 \<le> ?S" using assms by (intro sum_list_nonneg_int) simp
  have hi: "?S \<le> 100 * int ?n" using assms by (intro sum_list_bounded) simp
  have n: "(0 :: rat) < of_nat ?n" using False by simp
  have "(0 :: rat) \<le> of_int ?S / of_nat ?n" using lo by simp
  then have r0: "0 \<le> js_round (of_int ?S / of_nat ?n)"
    using js_round_mono [of 0] by (simp add: js_round_def)
  have "(of_int ?S / of_nat ?n :: rat) \<le> 100"
    using hi n by (simp add: divide_le_eq)
  then have r1: "js_round (of_int ?S / of_nat ?n) \<le> 100"
    using js_round_mono [of _ 100] by fastforce
  show ?thesis
    using False r0 r1 by simp
qed

theorem average_compliance_bounds_witness:
  "0 \<le> average_compliance (summarize 0 [new_opportunity 1 (initialFormData\<lparr>compliance_percentage := 80\<rparr>)]) \<and>
   average_compliance (summarize 0 [new_opportunity 1 (initialFormData\<lparr>compliance_percentage := 80\<rparr>)]) \<le> 100"
  by (rule average_compliance_bounds) simp

end
