(* ===== verification/Reports.thy ===== *)
theory Reports
  imports Statistics
begin

text \<open>
  The report generator of \<open>Reports.jsx\<close>. \<open>generatePDFReport\<close> draws on a
  jsPDF document; the model is the list of drawing calls it makes, in order,
  with the vertical position \<open>yPos\<close> threaded through the sections exactly as
  the code advances it, and a page break (\<open>doc.addPage()\<close>, \<open>yPos = 20\<close>)
  where the code checks \<open>yPos > 270\<close> (rows, recommendations) or
  \<open>yPos > 250\<close> (before the recommendations). \<open>exportToExcel\<close> builds two
  sheets of row objects (the arguments of \<open>json_to_sheet\<close>). Three browser
  services are parameters: the locale date format of \<open>toLocaleDateString\<close>
  (\<open>fmt\<close>) and of \<open>toLocaleString\<close> (\<open>fmt_time\<close>), and jsPDF's
  \<open>splitTextToSize(text, 170)\<close> (\<open>split\<close>), which depends on font metrics;
  \<open>today\<close> and \<open>iso_date\<close> are the current date as the header and the file name
  print it.
\<close>

datatype pdf_op =
    SetFontSize nat
  | SetFont string string
  | Text string int int bool
  | TextLines "string list" int int
  | AddPage
  | SavePdf string

definition recommendations :: "string list" where
  "recommendations =
     [''Focus on opportunities with urgent deadlines to ensure timely submissions'',
      ''Review non-compliant items to improve overall compliance rate'',
      ''Allocate resources to high-priority opportunities in drafting stage'',
      ''Monitor portal access for timely RFP updates'']"

definition heading :: "nat \<Rightarrow> string \<Rightarrow> int \<Rightarrow> nat \<Rightarrow> pdf_op list" where
  "heading sz title y body_sz =
     [SetFontSize sz, SetFont ''helvetica'' ''bold'', Text title 20 y False,
      SetFontSize body_sz, SetFont ''helvetica'' ''normal'']"

definition pdf_header :: "string \<Rightarrow> pdf_op list" where
  "pdf_header today =
     [SetFontSize 20, SetFont ''helvetica'' ''bold'', Text ''ABPTS Weekly Report'' 105 20 True,
      SetFontSize 12, SetFont ''helvetica'' ''normal'',
      Text (''Generated: '' @ today) 105 30 True]"

definition pdf_summary :: "statistics option \<Rightarrow> pdf_op list" where
  "pdf_summary st =
     heading 14 ''Executive Summary'' 45 11 @
     [Text (''Total Opportunities: '' @ string_of_int (stat_or_zero st (\<lambda>s. int (total_opportunities s)))) 20 55 False,
      Text (''Win Rate: '' @ string_of_int (stat_or_zero st win_rate) @ ''%'') 20 63 False,
      Text (''Average Compliance: '' @ string_of_int (stat_or_zero st average_compliance) @ ''%'') 20 71 False,
      Text (''Urgent Deadlines: '' @ string_of_int (stat_or_zero st (\<lambda>s. int (urgent_deadlines s)))) 20 79 False]"

fun pdf_status_lines :: "int \<Rightarrow> (opp_status \<times> nat) list \<Rightarrow> pdf_op list \<times> int" where
  "pdf_status_lines y [] = ([], y)"
| "pdf_status_lines y ((st, n) # rest) =
     (let (ops, y') = pdf_status_lines (y + 8) rest
      in (Text (status_name st @ '': '' @ string_of_nat n) 25 y False # ops, y'))"

definition page_break :: "int \<Rightarrow> int \<Rightarrow> pdf_op list \<times> int" where
  "page_break limit y = (if y > limit then ([AddPage], 20) else ([], y))"

fun pdf_active_rows :: "(js_time \<Rightarrow> string) \<Rightarrow> int \<Rightarrow> opportunity list \<Rightarrow> pdf_op list \<times> int" where
  "pdf_active_rows fmt y [] = ([], y)"
| "pdf_active_rows fmt y (opp # rest) =
     (let (brk, y0) = page_break 270 y;
          row = [Text (bullet @ '' '' @ client opp @ '' - '' @ project_type opp) 25 y0 False,
                 Text (''  Status: '' @ status_name (status opp) @ '' | Deadline: ''
                        @ fmt (submission_deadline opp)) 27 (y0 + 6) False];
          (ops, y') = pdf_active_rows fmt (y0 + 14) rest
      in (brk @ row @ ops, y'))"

fun pdf_recommendations :: "(string \<Rightarrow> string list) \<Rightarrow> int \<Rightarrow> string list \<Rightarrow> pdf_op list \<times> int" where
  "pdf_recommendations split y [] = ([], y)"
| "pdf_recommendations split y (r # rs) =
     (let (brk, y0) = page_break 270 y;
          lines = split (bullet @ '' '' @ r);
          (ops, y') = pdf_recommendations split (y0 + int (length lines) * 6 + 4) rs
      in (brk @ [TextLines lines 25 y0] @ ops, y'))"

definition pdfActiveOpps :: "opportunity list \<Rightarrow> opportunity list" where
  "pdfActiveOpps opps = take 10 (filter (\<lambda>opp. \<not> (status opp = Won \<or> status opp = Lost)) opps)"

definition generatePDFReport ::
  "string \<Rightarrow> string \<Rightarrow> (js_time \<Rightarrow> string) \<Rightarrow> (string \<Rightarrow> string list) \<Rightarrow>
   statistics option \<Rightarrow> opportunity list \<Rightarrow> pdf_op list" where
  "generatePDFReport today iso_date fmt split st opps =
     (let counts = (case st of None \<Rightarrow> [] | Some s \<Rightarrow> status_counts s);
          (sops, y2) = pdf_status_lines 104 counts;
          y3 = y2 + 10;
          (aops, y4) = pdf_active_rows fmt (y3 + 10) (pdfActiveOpps opps);
          (rbrk, y6) = page_break 250 (y4 + 10);
          (rops, y7) = pdf_recommendations split (y6 + 10) recommendations
      in pdf_header today @ pdf_summary st @
         heading 14 ''Opportunities by Status'' 94 11 @ sops @
         heading 14 ''Active Opportunities'' y3 10 @ aops @
         rbrk @ heading 14 ''Recommendations'' y6 11 @ rops @
         [SavePdf (''ABPTS_Report_'' @ iso_date @ ''.pdf'')])"

subsection \<open>The spreadsheet export\<close>

datatype cell = CStr string | CNum int

definition oppRow :: "(js_time \<Rightarrow> string) \<Rightarrow> opportunity \<Rightarrow> (string \<times> cell) list" where
  "oppRow fmt_time opp =
     [(''Client'', CStr (client opp)),
      (''Project Type'', CStr (project_type opp)),
      (''RFP Release Date'', CStr (rfp_release_date opp)),
      (''Submission Deadline'', CStr (fmt_time (submission_deadline opp))),
      (''Proposal Owner'', CStr (proposal_owner opp)),
      (''Status'', CStr (status_name (status opp))),
      (''Compliance %'', CNum (compliance_percentage opp)),
      (''Priority'', CStr (priority_name (priority_level opp))),
      (''Industry'', CStr (js_or_string (industry opp) ''N/A'')),
      (''Budget'', CStr (js_or_string (budget opp) ''N/A''))]"

definition statsRows :: "statistics option \<Rightarrow> (string \<times> cell) list list" where
  "statsRows st =
     [[(''Metric'', CStr ''Total Opportunities''),
       (''Value'', CNum (stat_or_zero st (\<lambda>s. int (total_opportunities s))))],
      [(''Metric'', CStr ''Win Rate''), (''Value'', CStr (string_of_int (stat_or_zero st win_rate) @ ''%''))],
      [(''Metric'', CStr ''Average Compliance''),
       (''Value'', CStr (string_of_int (stat_or_zero st average_compliance) @ ''%''))],
      [(''Metric'', CStr ''Urgent Deadlines''),
       (''Value'', CNum (stat_or_zero st (\<lambda>s. int (urgent_deadlines s))))]] @
     map (\<lambda>(st', n). [(''Metric'', CStr (status_name st' @ '' Count'')), (''Value'', CNum (int n))])
       (case st of None \<Rightarrow> [] | Some s \<Rightarrow> status_counts s)"

definition exportToExcel ::
  "string \<Rightarrow> (js_time \<Rightarrow> string) \<Rightarrow> statistics option \<Rightarrow> opportunity list \<Rightarrow>
   (string \<times> (string \<times> cell) list list) list \<times> string" where
  "exportToExcel iso_date fmt_time st opps =
     ([(''Opportunities'', map (oppRow fmt_time) opps), (''Statistics'', statsRows st)],
      ''ABPTS_Data_'' @ iso_date @ ''.xlsx'')"

subsection \<open>Reading a drawing back\<close>

text \<open>
  The text a report shows and the vertical positions it draws at, read off
  the drawing calls; the spreadsheet's numeric cells.
\<close>

fun op_text :: "pdf_op \<Rightarrow> string list" where
  "op_text (Text s x y c) = [s]"
| "op_text _ = []"

text \<open>
  jsPDF draws the lines of an array given to \<open>doc.text\<close> one below the
  other, \<open>lh\<close> millimetres apart (the font size times jsPDF's line-height
  factor, about 4.46 mm for the 11 pt recommendations with the default
  factor 1.15); positions are in millimetres from the top of the page.
\<close>

fun op_ys :: "rat \<Rightarrow> pdf_op \<Rightarrow> rat list" where
  "op_ys lh (Text s x y c) = [of_int y]"
| "op_ys lh (TextLines ls x y) = map (\<lambda>k. of_int y + of_nat k * lh) [0..<length ls]"
| "op_ys lh _ = []"

primrec pdf_texts :: "pdf_op list \<Rightarrow> string list" where
  "pdf_texts [] = []"
| "pdf_texts (op # ops) = op_text op @ pdf_texts ops"

primrec pdf_ys :: "rat \<Rightarrow> pdf_op list \<Rightarrow> rat list" where
  "pdf_ys lh [] = []"
| "pdf_ys lh (op # ops) = op_ys lh op @ pdf_ys lh ops"

fun cell_num :: "cell \<Rightarrow> int" where
  "cell_num (CNum n) = n"
| "cell_num (CStr s) = 0"

subsection \<open>Layout lemmas\<close>

lemma pdf_texts_append [simp]: "pdf_texts (xs @ ys) = pdf_texts xs @ pdf_texts ys"
  by (induction xs) auto

lemma pdf_ys_append [simp]: "pdf_ys lh (xs @ ys) = pdf_ys lh xs @ pdf_ys lh ys"
  by (induction xs) auto

lemma page_break_cases:
  "page_break limit y = ([AddPage], 20) \<and> limit < y \<or> page_break limit y = ([], y) \<and> y \<le> limit"
  by (simp add: page_break_def)

lemma page_break_drawn [simp]:
  "pdf_texts (fst (page_break limit y)) = []" "pdf_ys lh (fst (page_break limit y)) = []"
  by (simp_all add: page_break_def)

lemma pdf_status_lines_texts:
  "pdf_texts (fst (pdf_status_lines y xs)) =
     map (\<lambda>(st, n). status_name st @ '': '' @ string_of_nat n) xs"
  by (induction y xs rule: pdf_status_lines.induct) (auto split: prod.split)

lemma pdf_status_lines_ys:
  "snd (pdf_status_lines y xs) = y + 8 * int (length xs) \<and>
   set (pdf_ys lh (fst (pdf_status_lines y xs))) \<subseteq> {of_int y ..< of_int y + 8 * of_nat (length xs)}"
  by (induction y xs rule: pdf_status_lines.induct) (auto split: prod.split)

lemma pdf_active_rows_texts:
  "pdf_texts (fst (pdf_active_rows fmt y xs)) =
     concat (map (\<lambda>opp. [bullet @ '' '' @ client opp @ '' - '' @ project_type opp,
                        ''  Status: '' @ status_name (status opp) @ '' | Deadline: ''
                        @ fmt (submission_deadline opp)]) xs)"
  by (induction fmt y xs rule: pdf_active_rows.induct)
     (auto simp: Let_def page_break_def split: prod.split)

text \<open>
  Every row starts on the page if \<open>yPos \<le> 270\<close> and on a new page at 20
  otherwise, so a listing entered at most 284 (one row past the last check)
  draws between 20 and 276 and leaves \<open>yPos\<close> at most 284 again.
\<close>

lemma pdf_active_rows_ys:
  "20 \<le> y \<Longrightarrow> y \<le> 284 \<Longrightarrow>
   set (pdf_ys lh (fst (pdf_active_rows fmt y xs))) \<subseteq> {20..276} \<and>
   20 \<le> snd (pdf_active_rows fmt y xs) \<and> snd (pdf_active_rows fmt y xs) \<le> 284"
proof (induction xs arbitrary: y)
  case Nil
  then show ?case by simp
next
  case (Cons opp rest)
  obtain brk y0 where pb: "page_break 270 y = (brk, y0)" by fastforce
  then have y0: "20 \<le> y0" "y0 \<le> 270" "pdf_ys lh brk = []"
    using Cons.prems by (auto simp: page_break_def split: if_splits)
  then have "set (pdf_ys lh (fst (pdf_active_rows fmt (y0 + 14) rest))) \<subseteq> {20..276} \<and>
      20 \<le> snd (pdf_active_rows fmt (y0 + 14) rest) \<and> snd (pdf_active_rows fmt (y0 + 14) rest) \<le> 284"
    by (intro Cons.IH) simp_all
  with y0 pb show ?case by (simp add: split_beta)
qed

lemma pdf_recommendations_texts [simp]:
  "pdf_texts (fst (pdf_recommendations split y rs)) = []"
  by (induction split y rs rule: pdf_recommendations.induct)
     (auto simp: Let_def page_break_def split: prod.split)

text \<open>
  A wrapped block of \<open>n\<close> lines starting at \<open>y0\<close> reaches
  \<open>y0 + (n - 1) lh\<close>; the recommendations loop starts a block at most at
  270, so the block stays above 276 when \<open>(n - 1) lh \<le> 6\<close>, written
  \<open>n lh \<le> 6 + lh\<close>.
\<close>

lemma wrapped_lines_ys:
  assumes "0 \<le> lh" and "of_nat n * lh \<le> 6 + lh" and "20 \<le> y0" and "y0 \<le> 270"
  shows "set (map (\<lambda>k. of_int y0 + of_nat k * lh) [0..<n]) \<subseteq> {20..(276::rat)}"
proof
  fix x assume "x \<in> set (map (\<lambda>k. of_int y0 + of_nat k * lh) [0..<n])"
  then obtain k where k: "k < n" and x: "x = of_int y0 + of_nat k * lh" by auto
  have "of_nat (Suc k) * lh \<le> of_nat n * lh"
    using k assms(1) by (intro mult_right_mono) simp_all
  then have "of_nat k * lh \<le> 6"
    using assms(2) by (simp add: algebra_simps)
  moreover have "0 \<le> of_nat k * lh"
    using assms(1) by simp
  ultimately show "x \<in> {20..276}"
    using assms(3,4) by (simp add: x)
qed

lemma pdf_recommendations_ys:
  assumes "20 \<le> y" and "0 \<le> lh"
    and "\<forall>r \<in> set rs. of_nat (length (split (bullet @ '' '' @ r))) * lh \<le> 6 + lh"
  shows "set (pdf_ys lh (fst (pdf_recommendations split y rs))) \<subseteq> {20..276}"
  using assms(1,3)
proof (induction rs arbitrary: y)
  case Nil
  then show ?case by simp
next
  case (Cons r rs)
  obtain brk y0 where pb: "page_break 270 y = (brk, y0)" by fastforce
  then have y0: "20 \<le> y0" "y0 \<le> 270" "pdf_ys lh brk = []"
    using Cons.prems by (auto simp: page_break_def split: if_splits)
  have lines: "set (map (\<lambda>k. of_int y0 + of_nat k * lh) [0..<length (split (bullet @ '' '' @ r))])
      \<subseteq> {20..276}"
    using Cons.prems(2) y0 assms(2) by (intro wrapped_lines_ys) simp_all
  have "set (pdf_ys lh (fst (pdf_recommendations split
      (y0 + int (length (split (bullet @ '' '' @ r))) * 6 + 4) rs))) \<subseteq> {20..276}"
    using Cons.prems(2) y0 by (intro Cons.IH) simp_all
  with lines y0 pb show ?case by (simp add: split_beta Let_def)
qed

lemma generatePDFReport_ys:
  assumes "length (case st of None \<Rightarrow> [] | Some s \<Rightarrow> status_counts s) \<le> 20" and "0 \<le> lh"
    and "\<forall>r \<in> set recommendations. of_nat (length (split (bullet @ '' '' @ r))) * lh \<le> 6 + lh"
  shows "set (pdf_ys lh (generatePDFReport today iso_date fmt split st opps)) \<subseteq> {20..276}"
proof -
  define counts where "counts = (case st of None \<Rightarrow> [] | Some s \<Rightarrow> status_counts s)"
  define y3 where "y3 = snd (pdf_status_lines 104 counts) + 10"
  define rows where "rows = pdf_active_rows fmt (y3 + 10) (pdfActiveOpps opps)"
  define y6 where "y6 = snd (page_break 250 (snd rows + 10))"
  have st: "y3 = 114 + 8 * int (length counts)"
    "set (pdf_ys lh (fst (pdf_status_lines 104 counts))) \<subseteq> {104 ..< 104 + 8 * of_nat (length counts)}"
    using pdf_status_lines_ys [of 104 counts lh] by (simp_all add: y3_def)
  have y3: "y3 \<le> 274"
    using assms(1) by (simp add: st(1) counts_def)
  have r: "set (pdf_ys lh (fst rows)) \<subseteq> {20..276}" "20 \<le> snd rows"
    using pdf_active_rows_ys [of "y3 + 10" lh fmt "pdfActiveOpps opps"] y3
    by (simp_all add: rows_def st(1))
  have y6: "20 \<le> y6" "y6 \<le> 250"
    using r(2) by (auto simp: y6_def page_break_def)
  have rec: "set (pdf_ys lh (fst (pdf_recommendations split (y6 + 10) recommendations))) \<subseteq> {20..276}"
    using y6 assms(2,3) by (intro pdf_recommendations_ys) simp_all
  have "set (pdf_ys lh (generatePDFReport today iso_date fmt split st opps)) =
      {20, 30, 45, 55, 63, 71, 79, 94, of_int y3, of_int y6} \<union>
      set (pdf_ys lh (fst (pdf_status_lines 104 counts))) \<union>
      set (pdf_ys lh (fst rows)) \<union> set (pdf_ys lh (fst (pdf_recommendations split (y6 + 10) recommendations)))"
    by (auto simp: generatePDFReport_def Let_def split_beta heading_def pdf_header_def
        pdf_summary_def counts_def y3_def rows_def y6_def)
  moreover have "{104 ..< 104 + 8 * of_nat (length counts)} \<subseteq> {20..(276::rat)}"
  proof -
    have "8 * of_nat (length counts) \<le> (160::rat)"
      using assms(1) by (simp add: counts_def)
    then show ?thesis by auto
  qed
  moreover have "of_int y3 \<in> {20..(276::rat)}" "of_int y6 \<in> {20..(276::rat)}"
    using y3 y6 by (simp_all add: st(1))
  ultimately show ?thesis
    using st(2) r(1) rec by auto
qed

lemma UNIV_opp_status: "(UNIV :: opp_status set) = {Drafting, Review, Approved, Submitted, Won, Lost}"
  using opp_status.exhaust by auto

lemma statusCounts_length: "length (statusCounts opps) \<le> 6"
proof -
  have "length (statusCounts opps) = card (set (map status opps))"
    by (simp add: statusCounts_def distinct_card [symmetric])
  also have "\<dots> \<le> card (UNIV :: opp_status set)"
    by (rule card_mono [OF _ subset_UNIV]) (simp add: UNIV_opp_status)
  finally show ?thesis
    by (simp add: UNIV_opp_status)
qed

lemma int_sum_list_map: "int (sum_list (map f xs)) = sum_list (map (\<lambda>x. int (f x)) xs)"
  by (induction xs) auto

subsection \<open>Properties of the report\<close>

text \<open>
  C20: A report drawn from the statistics the backend computes stays on
  the page: whatever the opportunities and the date format, every line of
  text, each line of a wrapped recommendation included, is drawn between
  20 mm and 276 mm from the top of an A4 page (297 mm), provided each wrapped
  recommendation fits in the 6 mm the loop leaves below its first line
  (\<open>(n - 1) lh \<le> 6\<close> for \<open>n\<close> lines \<open>lh\<close> apart: at most two lines at
  jsPDF's default line height). The status breakdown has no page-break check
  of its own; it stays on the first page because there are at most six
  statuses.
\<close>

theorem generatePDFReport_on_page:
  assumes "0 \<le> lh"
    and "\<forall>r \<in> set recommendations. of_nat (length (split (bullet @ '' '' @ r))) * lh \<le> 6 + lh"
  shows "set (pdf_ys lh (generatePDFReport today iso_date fmt split (Some (summarize now all)) opps))
           \<subseteq> {20..276}"
  using statusCounts_length [of all] assms by (intro generatePDFReport_ys) simp_all

theorem generatePDFReport_on_page_witness:
  "set (pdf_ys (4463 / 1000) (generatePDFReport ''1/1/2026'' ''2026-01-01'' (\<lambda>_. ''d'') (\<lambda>s. [s])
     (Some (summarize 0 [])) [])) \<subseteq> {20..276}"
  by (rule generatePDFReport_on_page) (simp_all add: recommendations_def)

text \<open>
  C21: Pagination neither drops nor reorders text: the single-line texts of
  the report are the title, the date, the four summary figures (0 where there
  are no statistics), one line per status count in the order of the counts,
  two lines for each of the first ten opportunities not Won or Lost in the
  order of the collection, and the three section headings; the
  recommendations are the only wrapped texts.
\<close>

theorem generatePDFReport_texts:
  "pdf_texts (generatePDFReport today iso_date fmt split st opps) =
     [''ABPTS Weekly Report'', ''Generated: '' @ today, ''Executive Summary'',
      ''Total Opportunities: '' @ string_of_int (stat_or_zero st (\<lambda>s. int (total_opportunities s))),
      ''Win Rate: '' @ string_of_int (stat_or_zero st win_rate) @ ''%'',
      ''Average Compliance: '' @ string_of_int (stat_or_zero st average_compliance) @ ''%'',
      ''Urgent Deadlines: '' @ string_of_int (stat_or_zero st (\<lambda>s. int (urgent_deadlines s))),
      ''Opportunities by Status''] @
     map (\<lambda>(st, n). status_name st @ '': '' @ string_of_nat n)
       (case st of None \<Rightarrow> [] | Some s \<Rightarrow> status_counts s) @
     [''Active Opportunities''] @
     concat (map (\<lambda>opp. [bullet @ '' '' @ client opp @ '' - '' @ project_type opp,
                        ''  Status: '' @ status_name (status opp) @ '' | Deadline: ''
                        @ fmt (submission_deadline opp)])
       (take 10 (filter (\<lambda>opp. \<not> (status opp = Won \<or> status opp = Lost)) opps))) @
     [''Recommendations'']"
  by (simp add: generatePDFReport_def Let_def split_beta heading_def pdf_header_def
      pdf_summary_def pdf_status_lines_texts pdf_active_rows_texts pdfActiveOpps_def)

text \<open>
  C22: The Statistics sheet has the four summary rows and one row per status
  present, and the status rows' values add up to the Total Opportunities
  value.
\<close>

theorem statsRows_counts_total:
  "length (statsRows (Some (summarize now opps))) = 4 + card (set (map status opps)) \<and>
   sum_list (map (\<lambda>row. cell_num (snd (row ! 1))) (drop 4 (statsRows (Some (summarize now opps))))) =
     cell_num (snd (hd (statsRows (Some (summarize now opps))) ! 1))"
proof -
  have "sum_list (map (\<lambda>st. int (count_status st opps)) (rev (remdups (rev (map status opps)))))
      = int (length opps)"
    using sum_count_status [of opps] by (simp add: int_sum_list_map [symmetric])
  then show ?thesis
    by (simp add: statsRows_def stat_or_zero_def statusCounts_def comp_def split_beta
        length_remdups_card_conv)
qed

end
