(* ===== verification/Tracker.thy ===== *)
theory Tracker
  imports Store Urgency "HOL-Library.Sublist"
begin

text \<open>
  The opportunity tracker of \<open>BidTracker.jsx\<close>: the list with its search and
  status filter, and the dialog that creates or edits an opportunity. The page
  state is the record of its \<open>useState\<close> hooks; the handlers act on the pair
  (record store, page state) like those of \<open>Documents\<close>. The effect that
  recomputes \<open>filteredOpportunities\<close> whenever the list, the search term or
  the status filter changes is run after every step (when none of them
  changed it recomputes the value it already has). The reload a handler
  starts without awaiting it is the event \<open>TrLoad\<close>. \<open>toLowerCase\<close> is
  modelled on ASCII letters.
\<close>

subsection \<open>Search\<close>

fun js_includes :: "string \<Rightarrow> string \<Rightarrow> bool" where
  "js_includes [] needle = (needle = [])"
| "js_includes (c # cs) needle = (take (length needle) (c # cs) = needle \<or> js_includes cs needle)"

definition search_match :: "string \<Rightarrow> opportunity \<Rightarrow> bool" where
  "search_match searchTerm opp =
     (js_includes (js_lower (client opp)) (js_lower searchTerm) \<or>
      js_includes (js_lower (project_type opp)) (js_lower searchTerm) \<or>
      js_includes (js_lower (proposal_owner opp)) (js_lower searchTerm))"

definition filterOpportunities ::
  "opportunity list \<Rightarrow> string \<Rightarrow> opp_status option \<Rightarrow> opportunity list" where
  "filterOpportunities opportunities searchTerm statusFilter =
     (let filtered = (if searchTerm \<noteq> [] then filter (search_match searchTerm) opportunities
                      else opportunities)
      in case statusFilter of None \<Rightarrow> filtered | Some st \<Rightarrow> filter (\<lambda>opp. status opp = st) filtered)"

subsection \<open>The page\<close>

text \<open>\<open>statusFilter\<close> is \<open>None\<close> for the value \<open>'all'\<close>.\<close>

record tracker_page =
  tp_opportunities :: "opportunity list"
  filteredOpportunities :: "opportunity list"
  tp_loading :: bool
  searchTerm :: string
  statusFilter :: "opp_status option"
  isDialogOpen :: bool
  editingId :: "ident option"
  formData :: opp_fields
  tp_toasts :: "toast list"

definition initTrackerPage :: tracker_page where
  "initTrackerPage =
     \<lparr>tp_opportunities = [], filteredOpportunities = [], tp_loading = True, searchTerm = [],
      statusFilter = None, isDialogOpen = False, editingId = None, formData = initialFormData,
      tp_toasts = []\<rparr>"

definition loadOpportunities :: "outcome \<Rightarrow> store \<Rightarrow> tracker_page \<Rightarrow> tracker_page" where
  "loadOpportunities r s p =
     (case r of
        Ok \<Rightarrow> p\<lparr>tp_opportunities := st_opportunities s, tp_loading := False\<rparr>
      | Failed \<Rightarrow> p\<lparr>tp_toasts := tp_toasts p @ [ToastError ''Failed to load opportunities''],
                   tp_loading := False\<rparr>)"

definition resetForm :: "tracker_page \<Rightarrow> tracker_page" where
  "resetForm p = p\<lparr>editingId := None, formData := initialFormData\<rparr>"

definition handleOppSubmit :: "outcome \<Rightarrow> store \<times> tracker_page \<Rightarrow> store \<times> tracker_page" where
  "handleOppSubmit r sp =
     (let (s, p) = sp in
      case r of
        Failed \<Rightarrow> (s, p\<lparr>tp_toasts := tp_toasts p @ [ToastError ''Failed to save opportunity'']\<rparr>)
      | Ok \<Rightarrow>
          (case editingId p of
             Some i \<Rightarrow> (update_opportunity i (formData p) s,
                        resetForm (p\<lparr>tp_toasts := tp_toasts p @ [ToastSuccess ''Opportunity updated successfully''],
                                     isDialogOpen := False\<rparr>))
           | None \<Rightarrow> (create_opportunity (formData p) s,
                      resetForm (p\<lparr>tp_toasts := tp_toasts p @ [ToastSuccess ''Opportunity created successfully''],
                                   isDialogOpen := False\<rparr>))))"

definition handleOppEdit :: "opportunity \<Rightarrow> tracker_page \<Rightarrow> tracker_page" where
  "handleOppEdit opp p =
     p\<lparr>editingId := Some (opp_id opp),
       formData := (opp_fields.truncate opp)\<lparr>budget := Some (js_or_string (budget opp) []),
                                             industry := Some (js_or_string (industry opp) [])\<rparr>,
       isDialogOpen := True\<rparr>"

definition handleOppDelete :: "ident \<Rightarrow> bool \<Rightarrow> outcome \<Rightarrow> store \<times> tracker_page \<Rightarrow> store \<times> tracker_page" where
  "handleOppDelete i confirmed r sp =
     (let (s, p) = sp in
      if \<not> confirmed then (s, p)
      else case r of
        Ok \<Rightarrow> (delete_opportunity i s,
               p\<lparr>tp_toasts := tp_toasts p @ [ToastSuccess ''Opportunity deleted successfully'']\<rparr>)
      | Failed \<Rightarrow> (s, p\<lparr>tp_toasts := tp_toasts p @ [ToastError ''Failed to delete opportunity'']\<rparr>))"

definition filterEffect :: "tracker_page \<Rightarrow> tracker_page" where
  "filterEffect p =
     p\<lparr>filteredOpportunities := filterOpportunities (tp_opportunities p) (searchTerm p) (statusFilter p)\<rparr>"

datatype tracker_event =
    TrLoad outcome
  | TrAdd
  | TrDialogChange bool
  | TrCancel
  | TrForm opp_fields
  | TrSubmit outcome
  | TrEdit opportunity
  | TrDelete ident bool outcome
  | TrSearch string
  | TrStatusFilter "opp_status option"

fun tracker_handle :: "store \<times> tracker_page \<Rightarrow> tracker_event \<Rightarrow> store \<times> tracker_page" where
  "tracker_handle (s, p) (TrLoad r) = (s, loadOpportunities r s p)"
| "tracker_handle (s, p) TrAdd = (s, p\<lparr>isDialogOpen := True\<rparr>)"
| "tracker_handle (s, p) (TrDialogChange b) =
     (s, if b then p\<lparr>isDialogOpen := True\<rparr> else resetForm (p\<lparr>isDialogOpen := False\<rparr>))"
| "tracker_handle (s, p) TrCancel = (s, resetForm (p\<lparr>isDialogOpen := False\<rparr>))"
| "tracker_handle (s, p) (TrForm f) = (s, p\<lparr>formData := f\<rparr>)"
| "tracker_handle sp (TrSubmit r) = handleOppSubmit r sp"
| "tracker_handle (s, p) (TrEdit opp) = (s, handleOppEdit opp p)"
| "tracker_handle sp (TrDelete i c r) = handleOppDelete i c r sp"
| "tracker_handle (s, p) (TrSearch t) = (s, p\<lparr>searchTerm := t\<rparr>)"
| "tracker_handle (s, p) (TrStatusFilter f) = (s, p\<lparr>statusFilter := f\<rparr>)"

definition tracker_step :: "store \<times> tracker_page \<Rightarrow> tracker_event \<Rightarrow> store \<times> tracker_page" where
  "tracker_step sp e = (let (s, p) = tracker_handle sp e in (s, filterEffect p))"

definition tracker_run :: "store \<times> tracker_page \<Rightarrow> tracker_event list \<Rightarrow> store \<times> tracker_page" where
  "tracker_run sp es = foldl tracker_step sp es"

text \<open>
  The events the page can deliver: the form's inputs and its submit button
  exist only inside the open dialog, and Edit is a button of a listed row.
\<close>

fun tracker_event_ok :: "tracker_page \<Rightarrow> tracker_event \<Rightarrow> bool" where
  "tracker_event_ok p (TrForm f) = isDialogOpen p"
| "tracker_event_ok p (TrSubmit r) = isDialogOpen p"
| "tracker_event_ok p (TrEdit opp) = (opp \<in> set (filteredOpportunities p))"
| "tracker_event_ok p e = True"

fun tracker_ui_run :: "store \<times> tracker_page \<Rightarrow> tracker_event list \<Rightarrow> bool" where
  "tracker_ui_run sp [] = True"
| "tracker_ui_run sp (e # es) = (tracker_event_ok (snd sp) e \<and> tracker_ui_run (tracker_step sp e) es)"

text \<open>Whenever the dialog is closed the form is blank: a create form with no id.\<close>

definition blank_when_closed :: "tracker_page \<Rightarrow> bool" where
  "blank_when_closed p = (\<not> isDialogOpen p \<longrightarrow> editingId p = None \<and> formData p = initialFormData)"

subsection \<open>Lemmas\<close>

lemma take_length_eq_prefix: "take (length n) h = n \<longleftrightarrow> prefix n h"
proof (induction n arbitrary: h)
  case Nil
  then show ?case by simp
next
  case (Cons a n)
  then show ?case by (cases h) auto
qed

lemma js_includes_sublist: "js_includes h n \<longleftrightarrow> sublist n h"
proof (induction h)
  case Nil
  then show ?case by simp
next
  case (Cons c cs)
  then show ?case
    by (simp add: sublist_Cons_right take_length_eq_prefix del: take_Cons')
qed

lemma tracker_run_Cons [simp]: "tracker_run sp (e # es) = tracker_run (tracker_step sp e) es"
  by (simp add: tracker_run_def)

lemma tracker_run_Nil [simp]: "tracker_run sp [] = sp"
  by (simp add: tracker_run_def)

lemma tracker_step_blank:
  assumes "blank_when_closed p" "tracker_event_ok p e"
  shows "blank_when_closed (snd (tracker_step (s, p) e))"
  using assms
  by (cases e) (auto simp: tracker_step_def blank_when_closed_def filterEffect_def resetForm_def
      handleOppSubmit_def handleOppDelete_def handleOppEdit_def loadOpportunities_def
      split: outcome.splits option.splits)

lemma tracker_guarded_blank:
  "blank_when_closed (snd sp) \<Longrightarrow> tracker_ui_run sp es \<Longrightarrow> blank_when_closed (snd (tracker_run sp es))"
proof (induction es arbitrary: sp)
  case Nil
  then show ?case by simp
next
  case (Cons e es)
  obtain s p where sp: "sp = (s, p)" by fastforce
  then show ?case
    using Cons tracker_step_blank [of p e s] by simp
qed

lemma new_opportunity_truncate:
  "new_opportunity (opp_id opp) ((opp_fields.truncate opp)\<lparr>budget := b, industry := i\<rparr>) =
     opp\<lparr>budget := b, industry := i\<rparr>"
  by (cases opp) (simp add: new_opportunity_def opp_fields.defs opportunity.defs)

subsection \<open>Properties of the tracker\<close>

text \<open>
  C23: The list shows exactly the opportunities, in their order, whose client,
  project type or proposal owner contains the search term ignoring case (all
  of them for an empty term) and whose status is the selected one (any for
  \<open>all\<close>): \<open>includes\<close> is substring containment.
\<close>

theorem filterOpportunities_spec:
  "filterOpportunities opps t sf =
     filter (\<lambda>opp. (sublist (js_lower t) (js_lower (client opp)) \<or>
                    sublist (js_lower t) (js_lower (project_type opp)) \<or>
                    sublist (js_lower t) (js_lower (proposal_owner opp))) \<and>
                   (case sf of None \<Rightarrow> True | Some st \<Rightarrow> status opp = st)) opps"
  by (cases sf; cases "t = []") (simp_all add: filterOpportunities_def search_match_def [abs_def]
      js_includes_sublist filter_filter js_lower_def)

theorem filterOpportunities_spec_witness:
  "filterOpportunities [new_opportunity 1 (initialFormData\<lparr>client := ''Acme''\<rparr>)] [] (Some Drafting) =
     [new_opportunity 1 (initialFormData\<lparr>client := ''Acme''\<rparr>)]"
  using filterOpportunities_spec [of "[new_opportunity 1 (initialFormData\<lparr>client := ''Acme''\<rparr>)]" "[]" "Some Drafting"]
  by (simp add: js_lower_def)

text \<open>
  C24: In every run of the page from its initial state, whenever the dialog
  is closed the form is blank and no opportunity is being edited, so Add
  Opportunity always opens a create form: closing the dialog by Cancel, by
  dismissing it or by a successful save resets it.
\<close>

theorem tracker_closed_blank:
  assumes "tracker_ui_run (s, initTrackerPage) es"
    and "\<not> isDialogOpen (snd (tracker_run (s, initTrackerPage) es))"
  shows "editingId (snd (tracker_run (s, initTrackerPage) es)) = None \<and>
         formData (snd (tracker_run (s, initTrackerPage) es)) = initialFormData"
  using tracker_guarded_blank [of "(s, initTrackerPage)" es] assms
  by (simp add: blank_when_closed_def initTrackerPage_def)

theorem tracker_closed_blank_witness:
  "editingId (snd (tracker_run (empty_store, initTrackerPage)
     [TrAdd, TrForm (initialFormData\<lparr>client := ''Acme''\<rparr>), TrCancel])) = None"
  using tracker_closed_blank [of empty_store "[TrAdd, TrForm (initialFormData\<lparr>client := ''Acme''\<rparr>), TrCancel]"]
  by code_simp

text \<open>
  C25: Editing an opportunity and saving without changes writes back the same
  record, except that an unset budget or industry becomes the empty string
  (\<open>opp.budget || ''\<close>); every other opportunity is untouched.
\<close>

theorem edit_save_roundtrip:
  "st_opportunities (fst (tracker_run (s, p) [TrEdit opp, TrSubmit Ok])) =
     map (\<lambda>o'. if opp_id o' = opp_id opp
               then opp\<lparr>budget := Some (js_or_string (budget opp) []),
                        industry := Some (js_or_string (industry opp) [])\<rparr>
               else o') (st_opportunities s)"
  by (simp add: tracker_step_def handleOppEdit_def handleOppSubmit_def filterEffect_def
      update_opportunity_def new_opportunity_truncate)

theorem edit_save_roundtrip_witness:
  "st_opportunities (fst (tracker_run (create_opportunity initialFormData empty_store, initTrackerPage)
     [TrEdit (new_opportunity 1 initialFormData), TrSubmit Ok])) = [new_opportunity 1 initialFormData]"
  using edit_save_roundtrip [of "create_opportunity initialFormData empty_store" initTrackerPage
      "new_opportunity 1 initialFormData"]
  by (simp add: create_opportunity_def empty_store_def)

text \<open>
  C26: Deleting an opportunity changes the store only when confirmed and
  successful, and then removes the opportunity alone: its compliance items,
  documents and activities stay in the store (no cascade).
\<close>

theorem delete_no_cascade:
  "fst (handleOppDelete i c r (s, p)) = (if c \<and> r = Ok then delete_opportunity i s else s) \<and>
   get_opportunity (delete_opportunity i s) i = None \<and>
   compliance_of (delete_opportunity i s) i = compliance_of s i \<and>
   documents_of (delete_opportunity i s) i = documents_of s i \<and>
   activities_of (delete_opportunity i s) i = activities_of s i"
  by (cases r) (auto simp: handleOppDelete_def delete_opportunity_def get_opportunity_def
      compliance_of_def documents_of_def activities_of_def find_None_iff)

theorem delete_no_cascade_witness:
  "fst (handleOppDelete 1 False Ok (empty_store, initTrackerPage)) = empty_store"
  using delete_no_cascade [of 1 False Ok empty_store initTrackerPage] by simp

end
