(* ===== verification/CompliancePage.thy ===== *)
theory CompliancePage
  imports Compliance Store
begin

text \<open>
  The page of \<open>ComplianceChecker.jsx\<close> for one opportunity (the route
  parameter \<open>id\<close>): its state is the record of its \<open>useState\<close> hooks, its
  handlers act on the pair (record store, page state). \<open>loadData\<close> fetches
  the opportunity and its requirements with \<open>Promise.all\<close>: if either request
  fails (the network, or the opportunity no longer exists) neither is set.
  Each call of \<open>loadData\<close> (the mount effect, and the one a successful
  submit or delete starts without awaiting it) is a request in flight,
  recorded in \<open>cp_requests\<close> as the store it reads (the server answers it
  with the store as it was when the request was made); the event
  \<open>CpLoad k r\<close> delivers the answer to the \<open>k\<close>-th request in flight, so
  answers may arrive in any order, as with the browser's concurrent
  requests. The reachable states are an inductive predicate over the
  events the page can deliver, from the state after the mount effect.
\<close>

record compliance_page =
  cp_id :: ident
  cp_opportunity :: "opportunity option"
  complianceItems :: "compliance_item list"
  cp_loading :: bool
  cp_dialog_open :: bool
  cp_form :: compliance_form
  cp_toasts :: "toast list"
  cp_requests :: "store list"

definition initCompliancePage :: "ident \<Rightarrow> compliance_page" where
  "initCompliancePage i =
     \<lparr>cp_id = i, cp_opportunity = None, complianceItems = [], cp_loading = True,
      cp_dialog_open = False, cp_form = initialComplianceForm, cp_toasts = [],
      cp_requests = []\<rparr>"

text \<open>The first render, then the \<open>useEffect\<close> that calls \<open>loadData\<close> on mount.\<close>

definition mountCompliancePage :: "ident \<Rightarrow> store \<Rightarrow> compliance_page" where
  "mountCompliancePage i s = (initCompliancePage i)\<lparr>cp_requests := [s]\<rparr>"

definition loadComplianceData :: "outcome \<Rightarrow> store \<Rightarrow> compliance_page \<Rightarrow> compliance_page" where
  "loadComplianceData r s p =
     (case (r, get_opportunity s (cp_id p)) of
        (Ok, Some opp) \<Rightarrow>
          p\<lparr>cp_opportunity := Some opp, complianceItems := compliance_of s (cp_id p),
            cp_loading := False\<rparr>
      | _ \<Rightarrow> p\<lparr>cp_toasts := cp_toasts p @ [ToastError ''Failed to load compliance data''],
               cp_loading := False\<rparr>)"

text \<open>The answer to the \<open>k\<close>-th \<open>loadData\<close> call in flight arrives.\<close>

definition deliverComplianceLoad :: "nat \<Rightarrow> outcome \<Rightarrow> compliance_page \<Rightarrow> compliance_page" where
  "deliverComplianceLoad k r p =
     (if k < length (cp_requests p)
      then loadComplianceData r (cp_requests p ! k)
             (p\<lparr>cp_requests := take k (cp_requests p) @ drop (Suc k) (cp_requests p)\<rparr>)
      else p)"

definition resetComplianceForm :: "compliance_page \<Rightarrow> compliance_page" where
  "resetComplianceForm p = p\<lparr>cp_form := initialComplianceForm\<rparr>"

definition handleComplianceSubmit ::
  "outcome \<Rightarrow> store \<times> compliance_page \<Rightarrow> store \<times> compliance_page" where
  "handleComplianceSubmit r sp =
     (let (s, p) = sp in
      case r of
        Failed \<Rightarrow> (s, p\<lparr>cp_toasts := cp_toasts p @ [ToastError ''Failed to add compliance item'']\<rparr>)
      | Ok \<Rightarrow> (let s' = create_compliance (cp_id p) (cp_form p) s in
               (s', resetComplianceForm
                 (p\<lparr>cp_toasts := cp_toasts p @ [ToastSuccess ''Compliance item added successfully''],
                    cp_dialog_open := False\<rparr>)
                 \<lparr>cp_requests := cp_requests p @ [s']\<rparr>)))"

definition handleComplianceDelete ::
  "ident \<Rightarrow> bool \<Rightarrow> outcome \<Rightarrow> store \<times> compliance_page \<Rightarrow> store \<times> compliance_page" where
  "handleComplianceDelete itemId confirmed r sp =
     (let (s, p) = sp in
      if \<not> confirmed then (s, p)
      else case r of
        Ok \<Rightarrow> (let s' = delete_compliance itemId s in
               (s', p\<lparr>cp_toasts := cp_toasts p @ [ToastSuccess ''Compliance item deleted successfully''],
                      cp_requests := cp_requests p @ [s']\<rparr>))
      | Failed \<Rightarrow> (s, p\<lparr>cp_toasts := cp_toasts p @ [ToastError ''Failed to delete compliance item'']\<rparr>))"

datatype cp_event =
    CpLoad nat outcome
  | CpDialogChange bool
  | CpCancel
  | CpForm compliance_form
  | CpSubmit outcome
  | CpDelete ident bool outcome

fun cp_step :: "store \<times> compliance_page \<Rightarrow> cp_event \<Rightarrow> store \<times> compliance_page" where
  "cp_step (s, p) (CpLoad k r) = (s, deliverComplianceLoad k r p)"
| "cp_step (s, p) (CpDialogChange b) =
     (s, if b then p\<lparr>cp_dialog_open := True\<rparr> else resetComplianceForm (p\<lparr>cp_dialog_open := False\<rparr>))"
| "cp_step (s, p) CpCancel = (s, resetComplianceForm (p\<lparr>cp_dialog_open := False\<rparr>))"
| "cp_step (s, p) (CpForm f) = (s, p\<lparr>cp_form := f\<rparr>)"
| "cp_step sp (CpSubmit r) = handleComplianceSubmit r sp"
| "cp_step sp (CpDelete i c r) = handleComplianceDelete i c r sp"

text \<open>The rate the page shows (\<open>complianceRate\<close>, recomputed at each render).\<close>

definition cp_rate :: "compliance_page \<Rightarrow> int" where
  "cp_rate p = calculateComplianceRate (complianceItems p)"

text \<open>
  The events the page can deliver: the form and its submit button exist only
  in the open dialog, a delete button belongs to a listed requirement, and
  only a request in flight can be answered.
\<close>

fun cp_event_ok :: "compliance_page \<Rightarrow> cp_event \<Rightarrow> bool" where
  "cp_event_ok p (CpLoad k r) = (k < length (cp_requests p))"
| "cp_event_ok p (CpForm f) = cp_dialog_open p"
| "cp_event_ok p (CpSubmit r) = cp_dialog_open p"
| "cp_event_ok p (CpDelete i c r) = (i \<in> item_id ` set (complianceItems p))"
| "cp_event_ok p e = True"

inductive cp_reachable :: "ident \<Rightarrow> store \<times> compliance_page \<Rightarrow> bool" for i :: ident where
  start: "cp_reachable i (s, mountCompliancePage i s)"
| step: "cp_reachable i sp \<Longrightarrow> cp_event_ok (snd sp) e \<Longrightarrow> cp_reachable i (cp_step sp e)"

text \<open>
  What the page promises: it shows only requirements of its own opportunity,
  so the rate it shows is a rate of that opportunity's requirements.
\<close>

definition cp_shows_own :: "compliance_page \<Rightarrow> bool" where
  "cp_shows_own p = (\<forall>c \<in> set (complianceItems p). ci_opportunity_id c = cp_id p)"

subsection \<open>Lemmas\<close>

lemma cp_step_id [simp]: "cp_id (snd (cp_step sp e)) = cp_id (snd sp)"
  by (cases sp; cases e)
     (auto simp: deliverComplianceLoad_def loadComplianceData_def resetComplianceForm_def handleComplianceSubmit_def
       handleComplianceDelete_def Let_def split: outcome.splits option.splits)

lemma cp_step_shows_own:
  "cp_shows_own (snd sp) \<Longrightarrow> cp_shows_own (snd (cp_step sp e))"
  by (cases sp; cases e)
     (auto simp: cp_shows_own_def deliverComplianceLoad_def loadComplianceData_def resetComplianceForm_def
       handleComplianceSubmit_def handleComplianceDelete_def compliance_of_def Let_def
       split: outcome.splits option.splits)

lemma cp_reachable_inv:
  "cp_reachable i sp \<Longrightarrow> cp_id (snd sp) = i \<and> cp_shows_own (snd sp)"
proof (induction rule: cp_reachable.induct)
  case (start s)
  then show ?case by (simp add: mountCompliancePage_def initCompliancePage_def cp_shows_own_def)
next
  case (step sp e)
  then show ?case by (simp add: cp_step_shows_own)
qed

lemma loadComplianceData_keeps [simp]:
  "cp_id (loadComplianceData r s p) = cp_id p"
  "cp_requests (loadComplianceData r s p) = cp_requests p"
  "cp_dialog_open (loadComplianceData r s p) = cp_dialog_open p"
  by (simp_all add: loadComplianceData_def split: prod.split outcome.split option.split)

lemma loadComplianceData_items:
  "get_opportunity s (cp_id p) \<noteq> None \<Longrightarrow>
     complianceItems (loadComplianceData Ok s p) = compliance_of s (cp_id p) \<and>
     cp_toasts (loadComplianceData Ok s p) = cp_toasts p"
  by (auto simp: loadComplianceData_def)

lemma deliverComplianceLoad_first [simp]:
  "cp_requests p = x # xs \<Longrightarrow>
     deliverComplianceLoad 0 r p = loadComplianceData r x (p\<lparr>cp_requests := xs\<rparr>)"
  by (simp add: deliverComplianceLoad_def)

text \<open>A run of events, in order.\<close>

definition cp_run :: "store \<times> compliance_page \<Rightarrow> cp_event list \<Rightarrow> store \<times> compliance_page" where
  "cp_run sp es = foldl cp_step sp es"

text \<open>The answers to all requests in flight arrive in the order they were made.\<close>

lemma cp_run_in_order:
  assumes "cp_reachable i (s, p)" and "cp_requests p = rs" and "rs \<noteq> []"
    and "get_opportunity (last rs) i \<noteq> None"
  shows "cp_reachable i (cp_run (s, p) (replicate (length rs) (CpLoad 0 Ok))) \<and>
         fst (cp_run (s, p) (replicate (length rs) (CpLoad 0 Ok))) = s \<and>
         cp_requests (snd (cp_run (s, p) (replicate (length rs) (CpLoad 0 Ok)))) = [] \<and>
         complianceItems (snd (cp_run (s, p) (replicate (length rs) (CpLoad 0 Ok)))) = compliance_of (last rs) i"
  using assms
proof (induction rs arbitrary: p)
  case Nil
  then show ?case by simp
next
  case (Cons x xs)
  let ?p = "loadComplianceData Ok x (p\<lparr>cp_requests := xs\<rparr>)"
  have id: "cp_id p = i"
    using cp_reachable_inv [OF Cons.prems(1)] by simp
  have step: "cp_step (s, p) (CpLoad 0 Ok) = (s, ?p)"
    using Cons.prems(2) by simp
  have reach: "cp_reachable i (s, ?p)"
    using cp_reachable.step [OF Cons.prems(1), of "CpLoad 0 Ok"] Cons.prems(2) step by simp
  show ?case
  proof (cases "xs = []")
    case True
    then show ?thesis
      using reach step id Cons.prems(4) loadComplianceData_items [of x "p\<lparr>cp_requests := xs\<rparr>"]
      by (simp add: cp_run_def)
  next
    case False
    have "cp_run (s, p) (replicate (length (x # xs)) (CpLoad 0 Ok)) =
          cp_run (s, ?p) (replicate (length xs) (CpLoad 0 Ok))"
      using step by (simp add: cp_run_def)
    then show ?thesis
      using Cons.IH [OF reach _ False] False Cons.prems(4) by simp
  qed
qed

subsection \<open>Properties of the compliance page\<close>

text \<open>
  C27: In every reachable state the page is still about its own
  opportunity and lists only requirements of that opportunity, so the rate
  and the pending count it shows are about that opportunity alone.
\<close>

theorem cp_shows_own_items:
  assumes "cp_reachable i (s, p)"
  shows "cp_id p = i \<and> (\<forall>c \<in> set (complianceItems p). ci_opportunity_id c = i)"
  using cp_reachable_inv [OF assms] by (simp add: cp_shows_own_def)

theorem cp_shows_own_items_witness:
  "list_all (\<lambda>c. ci_opportunity_id c = 1) (complianceItems (snd (cp_step
      (create_compliance 1 initialComplianceForm (create_opportunity initialFormData empty_store),
       mountCompliancePage 1 (create_compliance 1 initialComplianceForm (create_opportunity initialFormData empty_store)))
      (CpLoad 0 Ok))))"
proof -
  let ?s = "create_compliance 1 initialComplianceForm (create_opportunity initialFormData empty_store)"
  have "cp_reachable 1 (cp_step (?s, mountCompliancePage 1 ?s) (CpLoad 0 Ok))"
    by (rule cp_reachable.step [OF cp_reachable.start]) (simp add: mountCompliancePage_def initCompliancePage_def)
  then show ?thesis
    using cp_shows_own_items [of 1 "fst (cp_step (?s, mountCompliancePage 1 ?s) (CpLoad 0 Ok))"
                                  "snd (cp_step (?s, mountCompliancePage 1 ?s) (CpLoad 0 Ok))"]
    by (simp add: list_all_iff del: cp_step.simps)
qed

text \<open>
  C28: A successful submit or delete starts a reload; when the answers to
  the reloads in flight arrive in the order they were requested, the page
  ends with no request in flight, the store as the handler left it, and
  exactly the opportunity's requirements in that store (as long as the
  opportunity exists), so its rate is the rate of those requirements.
\<close>

theorem cp_inorder_sync:
  assumes "cp_reachable i (s, p)" and "get_opportunity s i \<noteq> None"
    and "e = CpSubmit Ok \<and> cp_dialog_open p \<or> e = CpDelete c True Ok \<and> c \<in> item_id ` set (complianceItems p)"
  shows "let (s', p') = cp_step (s, p) e;
             q = cp_run (s', p') (replicate (length (cp_requests p')) (CpLoad 0 Ok)) in
           cp_reachable i q \<and> fst q = s' \<and> cp_requests (snd q) = [] \<and>
           complianceItems (snd q) = compliance_of s' i \<and>
           cp_rate (snd q) = calculateComplianceRate (compliance_of s' i)"
proof -
  obtain s' p' where sp': "cp_step (s, p) e = (s', p')"
    by fastforce
  have id: "cp_id p = i"
    using cp_reachable_inv [OF assms(1)] by simp
  have ok: "cp_event_ok p e"
    using assms(3) by auto
  have last: "cp_requests p' = cp_requests p @ [s']" and opp: "get_opportunity s' i \<noteq> None"
    using assms(3) sp' assms(2) id
    by (auto simp: handleComplianceSubmit_def handleComplianceDelete_def resetComplianceForm_def Let_def)
  have "cp_reachable i (s', p')"
    using cp_reachable.step [OF assms(1), of e] ok sp' by simp
  from cp_run_in_order [OF this refl _ ] last opp show ?thesis
    using sp' by (simp add: cp_rate_def)
qed

theorem cp_inorder_sync_witness:
  "let (s', p') = cp_step (create_opportunity initialFormData empty_store,
         (mountCompliancePage 1 (create_opportunity initialFormData empty_store))\<lparr>cp_dialog_open := True\<rparr>) (CpSubmit Ok);
       q = cp_run (s', p') (replicate (length (cp_requests p')) (CpLoad 0 Ok)) in
     cp_reachable 1 q \<and> fst q = s' \<and> cp_requests (snd q) = [] \<and>
     complianceItems (snd q) = compliance_of s' 1 \<and>
     cp_rate (snd q) = calculateComplianceRate (compliance_of s' 1)"
proof -
  let ?s = "create_opportunity initialFormData empty_store"
  have "cp_reachable 1 (cp_step (?s, mountCompliancePage 1 ?s) (CpDialogChange True))"
    by (rule cp_reachable.step [OF cp_reachable.start]) simp
  then have "cp_reachable 1 (?s, (mountCompliancePage 1 ?s)\<lparr>cp_dialog_open := True\<rparr>)"
    by simp
  then show ?thesis
    by (rule cp_inorder_sync) (simp_all add: get_opportunity_def create_opportunity_def empty_store_def
        mountCompliancePage_def)
qed

text \<open>
  C29: The reloads are not sequenced: when an older request's answer
  arrives after a newer one's, the older answer overwrites the newer one,
  and the page shows the requirements of the older store, with no error and
  nothing left to correct it when these were the only requests in flight.
\<close>

theorem cp_stale_response:
  assumes "cp_reachable i (s, p)" and "j < k" and "k < length (cp_requests p)"
    and "get_opportunity (cp_requests p ! j) i \<noteq> None"
    and "get_opportunity (cp_requests p ! k) i \<noteq> None"
  shows "cp_reachable i (cp_run (s, p) [CpLoad k Ok, CpLoad j Ok]) \<and>
         fst (cp_run (s, p) [CpLoad k Ok, CpLoad j Ok]) = s \<and>
         complianceItems (snd (cp_run (s, p) [CpLoad k Ok, CpLoad j Ok])) = compliance_of (cp_requests p ! j) i \<and>
         cp_toasts (snd (cp_run (s, p) [CpLoad k Ok, CpLoad j Ok])) = cp_toasts p \<and>
         length (cp_requests (snd (cp_run (s, p) [CpLoad k Ok, CpLoad j Ok]))) = length (cp_requests p) - 2"
proof -
  let ?rs = "cp_requests p"
  let ?p1 = "deliverComplianceLoad k Ok p"
  have id: "cp_id p = i"
    using cp_reachable_inv [OF assms(1)] by simp
  have r1: "cp_reachable i (s, ?p1)"
    using cp_reachable.step [OF assms(1), of "CpLoad k Ok"] assms(3) by simp
  have rq1: "cp_requests ?p1 = take k ?rs @ drop (Suc k) ?rs"
    using assms(3) by (simp add: deliverComplianceLoad_def)
  have j1: "j < length (cp_requests ?p1)" and nth1: "cp_requests ?p1 ! j = ?rs ! j"
    using assms(2,3) rq1 by (simp_all add: nth_append)
  have l1: "complianceItems ?p1 = compliance_of (?rs ! k) i \<and> cp_toasts ?p1 = cp_toasts p"
    using assms(3,5) id loadComplianceData_items [of "?rs ! k" "p\<lparr>cp_requests := take k ?rs @ drop (Suc k) ?rs\<rparr>"]
    by (simp add: deliverComplianceLoad_def)
  let ?p2 = "deliverComplianceLoad j Ok ?p1"
  have r2: "cp_reachable i (s, ?p2)"
    using cp_reachable.step [OF r1, of "CpLoad j Ok"] j1 by simp
  have id1: "cp_id ?p1 = i"
    using r1 cp_reachable_inv by fastforce
  have l2: "complianceItems ?p2 = compliance_of (?rs ! j) i \<and> cp_toasts ?p2 = cp_toasts p"
    using j1 nth1 id1 assms(4) l1
      loadComplianceData_items [of "?rs ! j" "?p1\<lparr>cp_requests := take j (cp_requests ?p1) @ drop (Suc j) (cp_requests ?p1)\<rparr>"]
    by (simp add: deliverComplianceLoad_def)
  have len2: "length (cp_requests ?p2) = length ?rs - 2"
    using j1 rq1 assms(3) by (simp add: deliverComplianceLoad_def)
  have "cp_run (s, p) [CpLoad k Ok, CpLoad j Ok] = (s, ?p2)"
    by (simp add: cp_run_def)
  then show ?thesis
    using r2 l2 len2 by simp
qed

theorem cp_stale_response_witness:
  "let s0 = create_opportunity initialFormData empty_store;
       q = cp_run (cp_step (cp_step (s0, mountCompliancePage 1 s0) (CpDialogChange True)) (CpSubmit Ok))
             [CpLoad 1 Ok, CpLoad 0 Ok] in
     complianceItems (snd q) = [] \<and> compliance_of (fst q) 1 \<noteq> [] \<and> cp_requests (snd q) = [] \<and>
     cp_toasts (snd q) = [ToastSuccess ''Compliance item added successfully''] \<and> cp_reachable 1 q"
proof -
  let ?s0 = "create_opportunity initialFormData empty_store"
  let ?q = "cp_step (cp_step (?s0, mountCompliancePage 1 ?s0) (CpDialogChange True)) (CpSubmit Ok)"
  have "cp_reachable 1 (cp_step (?s0, mountCompliancePage 1 ?s0) (CpDialogChange True))"
    by (rule cp_reachable.step [OF cp_reachable.start]) simp
  then have reach: "cp_reachable 1 ?q"
    by (rule cp_reachable.step) (simp add: mountCompliancePage_def)
  obtain s1 p1 where q: "?q = (s1, p1)"
    by fastforce
  have s1: "s1 = create_compliance 1 initialComplianceForm ?s0"
    and rq: "cp_requests p1 = [?s0, s1]"
    and ts: "cp_toasts p1 = [ToastSuccess ''Compliance item added successfully'']"
    using q by (auto simp: handleComplianceSubmit_def resetComplianceForm_def mountCompliancePage_def
        initCompliancePage_def Let_def)
  have opp0: "get_opportunity ?s0 1 \<noteq> None"
    by (simp add: get_opportunity_def create_opportunity_def empty_store_def)
  have "cp_reachable 1 (cp_run (s1, p1) [CpLoad 1 Ok, CpLoad 0 Ok]) \<and>
         fst (cp_run (s1, p1) [CpLoad 1 Ok, CpLoad 0 Ok]) = s1 \<and>
         complianceItems (snd (cp_run (s1, p1) [CpLoad 1 Ok, CpLoad 0 Ok])) = compliance_of (cp_requests p1 ! 0) 1 \<and>
         cp_toasts (snd (cp_run (s1, p1) [CpLoad 1 Ok, CpLoad 0 Ok])) = cp_toasts p1 \<and>
         length (cp_requests (snd (cp_run (s1, p1) [CpLoad 1 Ok, CpLoad 0 Ok]))) = length (cp_requests p1) - 2"
    by (rule cp_stale_response) (use reach q rq s1 opp0 in simp_all)
  then show ?thesis
    unfolding Let_def q using rq s1 ts
    by (simp add: compliance_of_def create_compliance_def create_opportunity_def
        empty_store_def)
qed

end
