(* ===== verification/Detail.thy ===== *)
theory Detail
  imports Compliance Store
begin

text \<open>
  The read-only page of \<open>OpportunityDetail.jsx\<close>: \<open>loadData\<close> fetches the
  opportunity and its activity log with \<open>Promise.all\<close> (if either request
  fails neither is set), and the page renders one of three screens. The
  model of a rendered screen keeps what the page shows: the texts of the
  cards and tabs, the class names of the badges and of the compliance bar,
  and whether the portal link and the risk flags appear. The locale formats
  of \<open>toLocaleDateString\<close>, \<open>toLocaleTimeString\<close> and \<open>toLocaleString\<close>
  are parameters.
\<close>

record detail_page =
  dt_id :: ident
  dt_opportunity :: "opportunity option"
  dt_activities :: "activity list"
  dt_loading :: bool
  dt_toasts :: "toast list"

definition initDetailPage :: "ident \<Rightarrow> detail_page" where
  "initDetailPage i =
     \<lparr>dt_id = i, dt_opportunity = None, dt_activities = [], dt_loading = True, dt_toasts = []\<rparr>"

definition loadDetail :: "outcome \<Rightarrow> store \<Rightarrow> detail_page \<Rightarrow> detail_page" where
  "loadDetail r s p =
     (case (r, get_opportunity s (dt_id p)) of
        (Ok, Some opp) \<Rightarrow>
          p\<lparr>dt_opportunity := Some opp, dt_activities := activities_of s (dt_id p),
            dt_loading := False\<rparr>
      | _ \<Rightarrow> p\<lparr>dt_toasts := dt_toasts p @ [ToastError ''Failed to load opportunity details''],
               dt_loading := False\<rparr>)"

record detail_card =
  dv_title :: string
  dv_subtitle :: string
  dv_status_badge :: string
  dv_priority_badge :: string
  dv_deadline :: "string \<times> string"
  dv_compliance_text :: string
  dv_compliance_fill :: compliance_band
  dv_owner :: string
  dv_format_text :: string
  dv_release_date :: string
  dv_industry :: string
  dv_budget :: string
  dv_portal :: "string option"
  dv_risk_flags :: "string list"
  dv_activities :: "(string \<times> string \<times> string) list"

datatype detail_view = DetailLoading | DetailNotFound | DetailShown detail_card

definition activity_line :: "(int \<Rightarrow> string) \<Rightarrow> activity \<Rightarrow> string \<times> string \<times> string" where
  "activity_line fmt_time a =
     (activity_type a, description a, ''by '' @ act_user a @ '' '' @ bullet @ '' '' @ fmt_time (act_created_at a))"

definition detailCard ::
  "(js_time \<Rightarrow> string) \<Rightarrow> (js_time \<Rightarrow> string) \<Rightarrow> (int \<Rightarrow> string) \<Rightarrow>
   opportunity \<Rightarrow> activity list \<Rightarrow> detail_card" where
  "detailCard fmt_date fmt_clock fmt_time opp acts =
     \<lparr>dv_title = client opp,
      dv_subtitle = project_type opp,
      dv_status_badge = ''badge-'' @ js_lower (status_name (status opp)),
      dv_priority_badge = ''badge-'' @ js_lower (priority_name (priority_level opp)),
      dv_deadline = (fmt_date (submission_deadline opp), fmt_clock (submission_deadline opp)),
      dv_compliance_text = string_of_int (compliance_percentage opp) @ ''%'',
      dv_compliance_fill = complianceBand (compliance_percentage opp),
      dv_owner = proposal_owner opp,
      dv_format_text = format_name (submission_format opp) @ '' Submission'',
      dv_release_date = rfp_release_date opp,
      dv_industry = js_or_string (industry opp) ''N/A'',
      dv_budget = js_or_string (budget opp) ''N/A'',
      dv_portal = (if portal_link opp = [] then None else Some (portal_link opp)),
      dv_risk_flags = risk_flags opp,
      dv_activities = map (activity_line fmt_time) acts\<rparr>"

definition detailView ::
  "(js_time \<Rightarrow> string) \<Rightarrow> (js_time \<Rightarrow> string) \<Rightarrow> (int \<Rightarrow> string) \<Rightarrow> detail_page \<Rightarrow> detail_view" where
  "detailView fmt_date fmt_clock fmt_time p =
     (if dt_loading p then DetailLoading
      else case dt_opportunity p of
        None \<Rightarrow> DetailNotFound
      | Some opp \<Rightarrow> DetailShown (detailCard fmt_date fmt_clock fmt_time opp (dt_activities p)))"

end
