(* ===== verification/Overview.thy ===== *)
theory Overview
  imports Statistics Compliance Store
begin

text \<open>
  The two overview pages, \<open>Dashboard.jsx\<close> and \<open>Reports.jsx\<close>: each loads
  the statistics and the opportunities with \<open>Promise.all\<close> (if either request
  fails neither is set) and shows four metric cards. The statistics are
  computed by the backend from the stored opportunities at the time of the
  request (\<open>summarize\<close>, clock \<open>now\<close>); the pages' own urgent lists use the
  browser's clock at render time. Below the cards the Dashboard shows an
  alert and the recent list, and the Reports page four sections (status
  summary, urgent items, compliance analysis, recommendations); each is a
  function of the page state giving what it renders.
\<close>

record overview_page =
  ov_statistics :: "statistics option"
  ov_opportunities :: "opportunity list"
  ov_loading :: bool
  ov_toasts :: "toast list"

definition initOverviewPage :: overview_page where
  "initOverviewPage = \<lparr>ov_statistics = None, ov_opportunities = [], ov_loading = True, ov_toasts = []\<rparr>"

definition loadOverview :: "string \<Rightarrow> outcome \<Rightarrow> int \<Rightarrow> store \<Rightarrow> overview_page \<Rightarrow> overview_page" where
  "loadOverview msg r now s p =
     (case r of
        Ok \<Rightarrow> p\<lparr>ov_statistics := Some (summarize now (st_opportunities s)),
                 ov_opportunities := st_opportunities s, ov_loading := False\<rparr>
      | Failed \<Rightarrow> p\<lparr>ov_toasts := ov_toasts p @ [ToastError msg], ov_loading := False\<rparr>)"

definition loadDashboard :: "outcome \<Rightarrow> int \<Rightarrow> store \<Rightarrow> overview_page \<Rightarrow> overview_page" where
  "loadDashboard = loadOverview ''Failed to load dashboard data''"

definition loadReports :: "outcome \<Rightarrow> int \<Rightarrow> store \<Rightarrow> overview_page \<Rightarrow> overview_page" where
  "loadReports = loadOverview ''Failed to load report data''"

record dashboard_cards =
  dc_total :: int
  dc_win_rate :: int
  dc_average :: int
  dc_urgent :: int

definition dashboardCards :: "overview_page \<Rightarrow> dashboard_cards" where
  "dashboardCards p =
     \<lparr>dc_total = stat_or_zero (ov_statistics p) (\<lambda>s. int (total_opportunities s)),
      dc_win_rate = stat_or_zero (ov_statistics p) win_rate,
      dc_average = stat_or_zero (ov_statistics p) average_compliance,
      dc_urgent = stat_or_zero (ov_statistics p) (\<lambda>s. int (urgent_deadlines s))\<rparr>"

text \<open>\<open>statistics?.status_counts?.Won || 0\<close>: a missing key reads 0.\<close>

definition status_count_or_zero :: "statistics option \<Rightarrow> opp_status \<Rightarrow> int" where
  "status_count_or_zero st k =
     stat_or_zero st (\<lambda>s. case map_of (status_counts s) k of None \<Rightarrow> 0 | Some n \<Rightarrow> int n)"

record reports_cards =
  rc_total :: int
  rc_active :: nat
  rc_win_rate :: int
  rc_won :: int
  rc_lost :: int
  rc_average :: int
  rc_urgent :: nat

definition reportsCards :: "int \<Rightarrow> overview_page \<Rightarrow> reports_cards" where
  "reportsCards now p =
     \<lparr>rc_total = stat_or_zero (ov_statistics p) (\<lambda>s. int (total_opportunities s)),
      rc_active = length (activeOpportunities (ov_opportunities p)),
      rc_win_rate = stat_or_zero (ov_statistics p) win_rate,
      rc_won = status_count_or_zero (ov_statistics p) Won,
      rc_lost = status_count_or_zero (ov_statistics p) Lost,
      rc_average = stat_or_zero (ov_statistics p) average_compliance,
      rc_urgent = length (reportsUrgentOpportunities now (ov_opportunities p))\<rparr>"

subsection \<open>The Dashboard's alert and recent list\<close>

text \<open>
  The alert over the cards counts the page's own urgent list
  (\<open>urgentOpportunities\<close>, browser clock) and pluralises the noun.
\<close>

definition dashboardAlert :: "int \<Rightarrow> overview_page \<Rightarrow> string option" where
  "dashboardAlert now p =
     (let n = length (dashboardUrgentOpportunities now (ov_opportunities p)) in
      if n > 0 then Some (string_of_nat n @ '' Urgent Deadline'' @ (if n > 1 then ''s'' else ''''))
      else None)"

text \<open>
  One card of the recent list (the first five opportunities as the backend
  returns them): the status badge, the deadline tint and its locale date
  (\<open>fmt\<close>), and the compliance bar.
\<close>

record recent_card =
  rcd_id :: ident
  rcd_client :: string
  rcd_project :: string
  rcd_badge :: string
  rcd_status :: string
  rcd_deadline :: deadline_class
  rcd_date :: string
  rcd_fill :: compliance_band
  rcd_percent :: string

definition recentCard :: "(js_time \<Rightarrow> string) \<Rightarrow> int \<Rightarrow> opportunity \<Rightarrow> recent_card" where
  "recentCard fmt now opp =
     \<lparr>rcd_id = opp_id opp, rcd_client = client opp, rcd_project = project_type opp,
      rcd_badge = ''badge badge-'' @ js_lower (status_name (status opp)),
      rcd_status = status_name (status opp),
      rcd_deadline = recentDeadlineClass now opp,
      rcd_date = fmt (submission_deadline opp),
      rcd_fill = complianceBand (compliance_percentage opp),
      rcd_percent = string_of_int (compliance_percentage opp) @ ''%''\<rparr>"

definition dashboardRecent :: "(js_time \<Rightarrow> string) \<Rightarrow> int \<Rightarrow> overview_page \<Rightarrow> recent_card list" where
  "dashboardRecent fmt now p = map (recentCard fmt now) (take 5 (ov_opportunities p))"

subsection \<open>The Reports page's sections\<close>

text \<open>
  The status summary: one row per key of \<open>status_counts\<close>, with its share of
  the total rounded by \<open>Math.round\<close> (0 when the total is 0).
\<close>

record status_row =
  sr_status :: string
  sr_badge :: string
  sr_percent :: int
  sr_count :: nat

definition statusRow :: "nat \<Rightarrow> opp_status \<times> nat \<Rightarrow> status_row" where
  "statusRow tot kn =
     (let (k, n) = kn in
      \<lparr>sr_status = status_name k, sr_badge = ''badge badge-'' @ js_lower (status_name k),
       sr_percent = (if tot > 0 then ratio_percent n tot else 0), sr_count = n\<rparr>)"

definition statusSummaryRows :: "statistics option \<Rightarrow> status_row list" where
  "statusSummaryRows st =
     (case st of None \<Rightarrow> [] | Some s \<Rightarrow> map (statusRow (total_opportunities s)) (status_counts s))"

text \<open>
  The urgent items: the first five of the page's urgent list, each with the
  whole hours left, \<open>Math.floor((deadline - now) / 3600000)\<close>. The list is
  filtered at one reading of the clock (\<open>now\<close>) and each item reads it again
  (\<open>now'\<close>, no earlier); an unparsable deadline would read \<open>None\<close> (NaN).
\<close>

record urgent_item =
  ui_id :: ident
  ui_client :: string
  ui_project :: string
  ui_hours :: "int option"
  ui_date :: string

definition urgentItem :: "(js_time \<Rightarrow> string) \<Rightarrow> int \<Rightarrow> opportunity \<Rightarrow> urgent_item" where
  "urgentItem fmt now' opp =
     \<lparr>ui_id = opp_id opp, ui_client = client opp, ui_project = project_type opp,
      ui_hours = map_option (\<lambda>t. (t - now') div ms_per_hour) (submission_deadline opp),
      ui_date = fmt (submission_deadline opp)\<rparr>"

datatype urgent_section = NoUrgentDeadlines | UrgentItems "urgent_item list"

definition reportsUrgentSection ::
  "(js_time \<Rightarrow> string) \<Rightarrow> int \<Rightarrow> int \<Rightarrow> overview_page \<Rightarrow> urgent_section" where
  "reportsUrgentSection fmt now now' p =
     (let urgent = reportsUrgentOpportunities now (ov_opportunities p) in
      if urgent = [] then NoUrgentDeadlines
      else UrgentItems (map (urgentItem fmt now') (take 5 urgent)))"

text \<open>The compliance analysis: the first five opportunities and their bars.\<close>

definition reportsComplianceSection ::
  "overview_page \<Rightarrow> (string \<times> string \<times> compliance_band) list" where
  "reportsComplianceSection p =
     map (\<lambda>opp. (client opp, string_of_int (compliance_percentage opp) @ ''%'',
                 complianceBand (compliance_percentage opp)))
       (take 5 (ov_opportunities p))"

text \<open>The four recommendations of the page, titles and texts.\<close>

definition pageRecommendations :: "int \<Rightarrow> overview_page \<Rightarrow> (string \<times> string) list" where
  "pageRecommendations now p =
     [(''Prioritize Urgent Submissions'',
       string_of_nat (length (reportsUrgentOpportunities now (ov_opportunities p))) @
         '' opportunities have deadlines within 48 hours''),
      (''Improve Compliance Tracking'',
       ''Average compliance is at '' @ string_of_int (stat_or_zero (ov_statistics p) average_compliance) @
         ''% - aim for 90%+''),
      (''Resource Allocation'',
       string_of_int (status_count_or_zero (ov_statistics p) Drafting) @
         '' opportunities in drafting stage need attention''),
      (''Portal Monitoring'', ''Regularly check bid portals for RFP updates and clarifications'')]"

subsection \<open>Lemmas\<close>

lemma reportsUrgent_deadline:
  assumes "opp \<in> set (reportsUrgentOpportunities now opps)"
  obtains t where "submission_deadline opp = Some t" "0 < t - now" "t - now \<le> 48 * ms_per_hour"
  using assms by (auto simp: reportsUrgentOpportunities_def within48_ms)

lemma hours_floor_bounds:
  assumes "now \<le> now'" and "t - now \<le> 48 * ms_per_hour"
  shows "(t - now') div ms_per_hour \<le> 48 \<and> (0 \<le> (t - now') div ms_per_hour \<longleftrightarrow> now' \<le> t)"
proof -
  have "(t - now') div ms_per_hour \<le> (48 * ms_per_hour) div ms_per_hour"
    using assms ms_per_hour_pos by (intro zdiv_mono1) simp_all
  then have "(t - now') div ms_per_hour \<le> 48"
    using ms_per_hour_pos by simp
  moreover have "0 \<le> (t - now') div ms_per_hour \<longleftrightarrow> now' \<le> t"
    using pos_imp_zdiv_nonneg_iff [OF ms_per_hour_pos, of "t - now'"] by simp
  ultimately show ?thesis ..
qed

lemma statusSummaryRows_summarize:
  "statusSummaryRows (Some (summarize now opps)) =
     map (\<lambda>st. statusRow (length opps) (st, count_status st opps)) (rev (remdups (rev (map status opps))))"
  by (simp add: statusSummaryRows_def statusCounts_def)

lemma loadOverview_Ok_statistics [simp]:
  "ov_statistics (loadOverview msg Ok now s p) = Some (summarize now (st_opportunities s))"
  "ov_opportunities (loadOverview msg Ok now s p) = st_opportunities s"
  by (simp_all add: loadOverview_def)

subsection \<open>Properties of the overview pages\<close>

text \<open>
  C17: Each urgent item of the Reports page has a valid deadline within the
  next 48 hours of the filter's clock and shows at most 48 whole hours left;
  the figure is negative exactly when the deadline has passed by the time the
  item reads the clock again. The section lists one to five items.
\<close>

theorem reports_urgent_hours:
  assumes "now \<le> now'" and "reportsUrgentSection fmt now now' p = UrgentItems items"
  shows "items \<noteq> [] \<and> length items \<le> 5 \<and>
         (\<forall>it \<in> set items. \<exists>t h. ui_date it = fmt (Some t) \<and> ui_hours it = Some h \<and>
            now < t \<and> t \<le> now + 48 * ms_per_hour \<and> h \<le> 48 \<and> (0 \<le> h \<longleftrightarrow> now' \<le> t))"
proof -
  let ?u = "reportsUrgentOpportunities now (ov_opportunities p)"
  have ne: "?u \<noteq> []" and items: "items = map (urgentItem fmt now') (take 5 ?u)"
    using assms(2) by (auto simp: reportsUrgentSection_def Let_def split: if_splits)
  have "\<exists>t h. ui_date it = fmt (Some t) \<and> ui_hours it = Some h \<and>
          now < t \<and> t \<le> now + 48 * ms_per_hour \<and> h \<le> 48 \<and> (0 \<le> h \<longleftrightarrow> now' \<le> t)"
    if "it \<in> set items" for it
  proof -
    from that items obtain opp where u: "opp \<in> set ?u" and it: "it = urgentItem fmt now' opp"
      by (auto dest: in_set_takeD)
    from u obtain t where "submission_deadline opp = Some t" "0 < t - now" "t - now \<le> 48 * ms_per_hour"
      by (rule reportsUrgent_deadline)
    with hours_floor_bounds [OF assms(1), of t] show ?thesis
      by (auto simp: it urgentItem_def)
  qed
  with ne items show ?thesis by auto
qed

theorem reports_urgent_hours_witness:
  "list_all (\<lambda>it. \<exists>t h. ui_date it = ''d'' \<and> ui_hours it = Some h \<and>
       0 < t \<and> t \<le> 48 * ms_per_hour \<and> h \<le> 48 \<and> 0 \<le> h)
     [urgentItem (\<lambda>_. ''d'') 0 (new_opportunity 1 (initialFormData\<lparr>submission_deadline := Some (10 * ms_per_hour)\<rparr>))]"
proof -
  let ?o = "new_opportunity 1 (initialFormData\<lparr>submission_deadline := Some (10 * ms_per_hour)\<rparr>)"
  let ?p = "initOverviewPage\<lparr>ov_opportunities := [?o]\<rparr>"
  have "reportsUrgentSection (\<lambda>_. ''d'') 0 0 ?p = UrgentItems [urgentItem (\<lambda>_. ''d'') 0 ?o]"
    by (simp add: reportsUrgentSection_def reportsUrgentOpportunities_def activeOpportunities_def
        initOverviewPage_def within48_ms initialFormData_def ms_per_hour_def)
  from reports_urgent_hours [OF order_refl this] show ?thesis
    by (auto simp: list_all_iff)
qed

text \<open>
  C18: After a successful load the Reports status summary has one row per
  status present in the store, each once, with a positive count and a
  percentage between 0 and 100, and the counts add up to the
  "Total Opportunities" card.
\<close>

theorem reports_status_summary:
  assumes "rows = statusSummaryRows (ov_statistics (loadReports Ok now s p))"
  shows "distinct (map sr_status rows) \<and>
         set (map sr_status rows) = status_name ` set (map status (st_opportunities s)) \<and>
         int (sum_list (map sr_count rows)) = rc_total (reportsCards now' (loadReports Ok now s p)) \<and>
         (\<forall>r \<in> set rows. 0 < sr_count r \<and> 0 \<le> sr_percent r \<and> sr_percent r \<le> 100)"
proof -
  let ?opps = "st_opportunities s"
  let ?L = "rev (remdups (rev (map status ?opps)))"
  have rows: "rows = map (\<lambda>st. statusRow (length ?opps) (st, count_status st ?opps)) ?L"
    using assms by (simp add: loadReports_def statusSummaryRows_summarize)
  have inj: "inj_on status_name S" for S
    by (simp add: inj_on_def status_name_inj)
  have pos: "0 < count_status st ?opps" if "st \<in> set (map status ?opps)" for st
    using that by (auto simp: count_status_def filter_empty_conv)
  have "sum_list (map sr_count rows) = length ?opps"
    using sum_count_status [of ?opps] by (simp add: rows statusRow_def comp_def)
  moreover have "rc_total (reportsCards now' (loadReports Ok now s p)) = int (length ?opps)"
    by (simp add: reportsCards_def loadReports_def stat_or_zero_def)
  ultimately show ?thesis
    using pos inj by (auto simp: rows statusRow_def comp_def distinct_map image_image
        ratio_percent_nonneg ratio_percent_le_100 count_status_le)
qed

theorem reports_status_summary_witness:
  "distinct (map sr_status (statusSummaryRows (ov_statistics
      (loadReports Ok 0 (create_opportunity initialFormData empty_store) initOverviewPage)))) \<and>
   list_all (\<lambda>r. 0 < sr_count r \<and> 0 \<le> sr_percent r \<and> sr_percent r \<le> 100)
     (statusSummaryRows (ov_statistics
      (loadReports Ok 0 (create_opportunity initialFormData empty_store) initOverviewPage)))"
  using reports_status_summary [OF refl, of 0 "create_opportunity initialFormData empty_store"
      initOverviewPage 0]
  by (simp add: list_all_iff)

text \<open>
  C19: When the browser's clock agrees with the backend's, the Dashboard's
  alert appears exactly when its "Urgent Deadlines" card is non-zero, prints
  that number, and pluralises the noun for more than one deadline.
\<close>

theorem dashboard_alert_card:
  "dashboardAlert now (loadDashboard Ok now s p) =
     (if dc_urgent (dashboardCards (loadDashboard Ok now s p)) = 0 then None
      else Some (string_of_int (dc_urgent (dashboardCards (loadDashboard Ok now s p))) @ '' Urgent Deadline'' @
                 (if dc_urgent (dashboardCards (loadDashboard Ok now s p)) = 1 then '''' else ''s'')))"
proof -
  have "dc_urgent (dashboardCards (loadDashboard Ok now s p)) =
          int (length (dashboardUrgentOpportunities now (st_opportunities s)))"
    by (simp add: dashboardCards_def loadDashboard_def stat_or_zero_def
        dashboardUrgentOpportunities_def spec_urgent_dashboard [abs_def])
  moreover have "ov_opportunities (loadDashboard Ok now s p) = st_opportunities s"
    by (simp add: loadDashboard_def)
  ultimately show ?thesis
    by (cases "length (dashboardUrgentOpportunities now (st_opportunities s))")
       (simp_all add: dashboardAlert_def del: of_nat_Suc)
qed

end
