(* ===== verification/Routing.thy ===== *)
theory Routing
  imports Prelude
begin

text \<open>
  Routing and layout: the route table of \<open>App.js\<close>, the sidebar of
  \<open>Layout.jsx\<close>, and the paths the pages navigate to. Matching is that of
  react-router v6 (the API the code uses): a pattern is compiled to a
  case-insensitive regular expression, \<open>/tracker\<close> to
  \<open>^/tracker/*$\<close> and \<open>/opportunity/:id\<close> to
  \<open>^/opportunity/([^/]+)/*$\<close>, the index route of \<open>/\<close> to
  \<open>^/*$\<close>. The model matches on the pieces of \<open>pathname.split('/')\<close>
  (\<open>js_split_slash\<close>), which is the same language: a leading empty piece,
  one piece per pattern segment (a parameter is a non-empty piece, a
  literal equal up to case), then only empty pieces. A \<open>NavLink\<close> is active
  when the lower-cased location equals its target or continues it with a
  slash. The six patterns are disjoint, so react-router's ranking picks the
  only match.
\<close>

subsection \<open>Splitting a path\<close>

text \<open>
  \<open>s.split('/')\<close>: the piece up to the first slash, then the pieces of the
  rest. The recursion is on what follows the slash, which is shorter but not
  a sub-term: termination is by the measure \<open>length\<close>.
\<close>

function js_split_slash :: "string \<Rightarrow> string list" where
  "js_split_slash s =
     (let seg = takeWhile (\<lambda>c. c \<noteq> CHR ''/'') s; rest = dropWhile (\<lambda>c. c \<noteq> CHR ''/'') s
      in if rest = [] then [seg] else seg # js_split_slash (tl rest))"
  by pat_completeness auto
termination
  by (relation "measure length") (simp_all del: length_tl add: length_tl_dropWhile)

declare js_split_slash.simps [simp del]

subsection \<open>The route table\<close>

datatype route_seg = Lit string | Param

datatype page =
    PageDashboard
  | PageTracker
  | PageDetail string
  | PageCompliance string
  | PageDocuments string
  | PageReports

fun match_segs :: "route_seg list \<Rightarrow> string list \<Rightarrow> string list option" where
  "match_segs [] [] = Some []"
| "match_segs (Lit l # ps) (s # ss) = (if js_lower s = js_lower l then match_segs ps ss else None)"
| "match_segs (Param # ps) (s # ss) = (if s = [] then None else map_option (Cons s) (match_segs ps ss))"
| "match_segs ps ss = None"

definition match_path :: "route_seg list \<Rightarrow> string \<Rightarrow> string list option" where
  "match_path pat path =
     (case js_split_slash path of
        [] \<Rightarrow> None
      | lead # pieces \<Rightarrow>
          (if lead = [] \<and> list_all (\<lambda>x. x = []) (drop (length pat) pieces)
           then match_segs pat (take (length pat) pieces) else None))"

definition route_table :: "(route_seg list \<times> (string list \<Rightarrow> page)) list" where
  "route_table =
     [([], \<lambda>ps. PageDashboard),
      ([Lit ''tracker''], \<lambda>ps. PageTracker),
      ([Lit ''opportunity'', Param], \<lambda>ps. PageDetail (hd ps)),
      ([Lit ''compliance'', Param], \<lambda>ps. PageCompliance (hd ps)),
      ([Lit ''documents'', Param], \<lambda>ps. PageDocuments (hd ps)),
      ([Lit ''reports''], \<lambda>ps. PageReports)]"

fun route_in :: "(route_seg list \<times> (string list \<Rightarrow> page)) list \<Rightarrow> string \<Rightarrow> page option" where
  "route_in [] path = None"
| "route_in ((pat, mk) # rs) path =
     (case match_path pat path of Some ps \<Rightarrow> Some (mk ps) | None \<Rightarrow> route_in rs path)"

definition route :: "string \<Rightarrow> page option" where
  "route path = route_in route_table path"

subsection \<open>The sidebar\<close>

definition navLinks :: "(string \<times> string) list" where
  "navLinks = [(''/'', ''Dashboard''), (''/tracker'', ''Bid Tracker''), (''/reports'', ''Reports'')]"

definition navActive :: "string \<Rightarrow> string \<Rightarrow> bool" where
  "navActive to loc =
     (let l = js_lower loc; t = js_lower to
      in l = t \<or> (take (length t) l = t \<and> length t < length l \<and> l ! length t = CHR ''/''))"

definition activeNavLabels :: "string \<Rightarrow> string list" where
  "activeNavLabels loc = map snd (filter (\<lambda>(to, label). navActive to loc) navLinks)"

subsection \<open>The paths the pages navigate to\<close>

definition trackerPath :: string where
  "trackerPath = ''/tracker''"

definition detailPath :: "ident \<Rightarrow> string" where
  "detailPath i = ''/opportunity/'' @ string_of_nat i"

definition compliancePath :: "ident \<Rightarrow> string" where
  "compliancePath i = ''/compliance/'' @ string_of_nat i"

definition documentsPath :: "ident \<Rightarrow> string" where
  "documentsPath i = ''/documents/'' @ string_of_nat i"

subsection \<open>Lemmas\<close>

lemma js_split_slash_unfold:
  "js_split_slash s =
     (if CHR ''/'' \<in> set s
      then takeWhile (\<lambda>c. c \<noteq> CHR ''/'') s # js_split_slash (tl (dropWhile (\<lambda>c. c \<noteq> CHR ''/'') s))
      else [s])"
  by (subst js_split_slash.simps) (auto simp: Let_def dropWhile_eq_Nil_conv takeWhile_eq_all_conv)

lemma js_split_slash_noslash: "CHR ''/'' \<notin> set a \<Longrightarrow> js_split_slash a = [a]"
  by (simp add: js_split_slash_unfold)

lemma js_split_slash_Nil [simp]: "js_split_slash [] = [[]]"
  by (simp add: js_split_slash_unfold)

lemma js_split_slash_nonempty: "js_split_slash s \<noteq> []"
  by (subst js_split_slash_unfold) simp

lemma js_split_slash_Cons [simp]:
  "js_split_slash (c # s) =
     (if c = CHR ''/'' then [] # js_split_slash s
      else (case js_split_slash s of y # ys \<Rightarrow> (c # y) # ys))"
proof (cases "c = CHR ''/''")
  case True
  then show ?thesis by (subst js_split_slash_unfold) simp
next
  case False
  obtain y ys where yys: "js_split_slash s = y # ys"
    using js_split_slash_nonempty by (cases "js_split_slash s") auto
  show ?thesis
  proof (cases "CHR ''/'' \<in> set s")
    case True
    with False yys show ?thesis
      by (subst (1 2) js_split_slash_unfold) (auto simp: js_split_slash_unfold [of s])
  next
    case nos: False
    with False show ?thesis
      by (simp add: js_split_slash_noslash)
  qed
qed

lemma route_param_pages:
  assumes "x \<noteq> []" "CHR ''/'' \<notin> set x"
  shows "route (''/opportunity/'' @ x) = Some (PageDetail x) \<and>
         route (''/compliance/'' @ x) = Some (PageCompliance x) \<and>
         route (''/documents/'' @ x) = Some (PageDocuments x)"
  using assms by (simp add: route_def route_table_def match_path_def js_split_slash_noslash
      js_lower_def js_lower_char_def)

lemma route_id_paths:
  "route (detailPath i) = Some (PageDetail (string_of_nat i)) \<and>
   route (compliancePath i) = Some (PageCompliance (string_of_nat i)) \<and>
   route (documentsPath i) = Some (PageDocuments (string_of_nat i))"
  using route_param_pages [OF string_of_nat_nonempty [of i] string_of_nat_noslash [of i]]
  by (simp add: detailPath_def compliancePath_def documentsPath_def)

lemma nav_param_pages:
  "activeNavLabels (''/opportunity/'' @ x) = [] \<and> activeNavLabels (''/compliance/'' @ x) = [] \<and>
   activeNavLabels (''/documents/'' @ x) = []"
  by (simp add: activeNavLabels_def navLinks_def navActive_def js_lower_def js_lower_char_def)

subsection \<open>Properties of the routing\<close>

text \<open>
  C34: Every path the application navigates to reaches the intended page:
  the three sidebar links reach the Dashboard, the tracker and the reports,
  the detail page's back button reaches the tracker, and the links built from
  an opportunity's id (the tracker's view button, the back buttons of the
  compliance and document pages, the detail page's two buttons) reach the
  detail, compliance and document pages with that id as the route parameter.
\<close>

theorem app_links_route:
  "map (\<lambda>(to, label). route to) navLinks = [Some PageDashboard, Some PageTracker, Some PageReports] \<and>
   route trackerPath = Some PageTracker \<and>
   route (detailPath i) = Some (PageDetail (string_of_nat i)) \<and>
   route (compliancePath i) = Some (PageCompliance (string_of_nat i)) \<and>
   route (documentsPath i) = Some (PageDocuments (string_of_nat i))"
  using route_id_paths [of i]
  by (simp add: navLinks_def trackerPath_def route_def route_table_def match_path_def
      js_lower_def js_lower_char_def)

text \<open>
  C35: The sidebar highlights exactly the current page on the three top
  pages, and nothing at all on the detail, compliance and document pages
  (which the tracker leads to).
\<close>

theorem sidebar_highlight:
  "activeNavLabels ''/'' = [''Dashboard''] \<and> activeNavLabels trackerPath = [''Bid Tracker''] \<and>
   activeNavLabels ''/reports'' = [''Reports''] \<and>
   activeNavLabels (detailPath i) = [] \<and> activeNavLabels (compliancePath i) = [] \<and>
   activeNavLabels (documentsPath i) = []"
  using nav_param_pages [of "string_of_nat i"]
  by (simp add: detailPath_def compliancePath_def documentsPath_def trackerPath_def
      activeNavLabels_def navLinks_def navActive_def js_lower_def js_lower_char_def)

end
