(* ===== verification/Views.thy ===== *)
theory Views
  imports Tracker Documents CompliancePage Routing
begin

text \<open>
  What the three working pages render from their state: the table of
  \<open>BidTracker.jsx\<close>, the cards and category sections of
  \<open>DocumentManager.jsx\<close>, and the cards and requirement matrix of
  \<open>ComplianceChecker.jsx\<close>. Each view is a function of the page state
  (the JSX of the component's \<open>return\<close>), giving the texts, the class names
  and the targets of the buttons; a page that is still loading renders its
  loading text instead. The locale formats of \<open>toLocaleString\<close> and
  \<open>toLocaleDateString\<close> are parameters, and the navigation targets are the
  paths of \<open>Routing\<close>, so the buttons can be followed through the router.
\<close>

datatype 'a screen = ScreenLoading string | ScreenShown 'a

text \<open>\<open>{opportunity?.client}\<close>: an absent opportunity renders nothing.\<close>

definition optional_text :: "('a \<Rightarrow> string) \<Rightarrow> 'a option \<Rightarrow> string" where
  "optional_text f x = (case x of None \<Rightarrow> [] | Some y \<Rightarrow> f y)"

subsection \<open>The tracker table\<close>

record tracker_row =
  tr_id :: ident
  tr_client :: string
  tr_project :: string
  tr_owner :: string
  tr_deadline_class :: string
  tr_deadline :: string
  tr_status :: string
  tr_status_badge :: string
  tr_priority :: string
  tr_priority_badge :: string
  tr_fill :: compliance_band
  tr_percent :: string
  tr_view :: string
  tr_edit :: opportunity
  tr_delete :: ident

definition trackerRow :: "(js_time \<Rightarrow> string) \<Rightarrow> int \<Rightarrow> opportunity \<Rightarrow> tracker_row" where
  "trackerRow fmt_time now opp =
     \<lparr>tr_id = opp_id opp, tr_client = client opp, tr_project = project_type opp,
      tr_owner = proposal_owner opp,
      tr_deadline_class = deadline_css (getDeadlineClass (submission_deadline opp) (status opp) now),
      tr_deadline = fmt_time (submission_deadline opp),
      tr_status = status_name (status opp),
      tr_status_badge = ''badge badge-'' @ js_lower (status_name (status opp)),
      tr_priority = priority_name (priority_level opp),
      tr_priority_badge = ''badge badge-'' @ js_lower (priority_name (priority_level opp)),
      tr_fill = complianceBand (compliance_percentage opp),
      tr_percent = string_of_int (compliance_percentage opp) @ ''%'',
      tr_view = detailPath (opp_id opp),
      tr_edit = opp,
      tr_delete = opp_id opp\<rparr>"

text \<open>
  The status filter's \<open>Select\<close>: its options, and the value it hands to
  \<open>setStatusFilter\<close>, which the tracker model reads as \<open>None\<close> for
  \<open>'all'\<close> and the status otherwise (\<open>statusFilter !== 'all'\<close>).
\<close>

definition statusFilterOptions :: "(string \<times> string) list" where
  "statusFilterOptions =
     (''all'', ''All Status'') #
     map (\<lambda>st. (status_name st, status_name st)) [Drafting, Review, Approved, Submitted, Won, Lost]"

definition parseStatusFilter :: "string \<Rightarrow> opp_status option" where
  "parseStatusFilter v = find (\<lambda>st. status_name st = v) [Drafting, Review, Approved, Submitted, Won, Lost]"

definition statusFilterValue :: "opp_status option \<Rightarrow> string" where
  "statusFilterValue f = (case f of None \<Rightarrow> ''all'' | Some st \<Rightarrow> status_name st)"

record tracker_table =
  tt_rows :: "tracker_row list"
  tt_empty_message :: bool

definition trackerView :: "(js_time \<Rightarrow> string) \<Rightarrow> int \<Rightarrow> tracker_page \<Rightarrow> tracker_table screen" where
  "trackerView fmt_time now p =
     (if tp_loading p then ScreenLoading ''Loading opportunities...''
      else ScreenShown
        \<lparr>tt_rows = map (trackerRow fmt_time now) (filteredOpportunities p),
         tt_empty_message = (length (filteredOpportunities p) = 0)\<rparr>)"

subsection \<open>The document manager\<close>

record doc_row =
  dr_id :: ident
  dr_name :: string
  dr_line :: string
  dr_time :: string
  dr_badge :: string
  dr_delete :: "ident \<times> string"

definition docRow :: "(int \<Rightarrow> string) \<Rightarrow> document \<Rightarrow> doc_row" where
  "docRow fmt_time d =
     \<lparr>dr_id = doc_id d, dr_name = document_name d,
      dr_line = ''Version '' @ version d @ '' '' @ bullet @ '' Uploaded by '' @ uploaded_by d,
      dr_time = fmt_time (doc_created_at d), dr_badge = version d,
      dr_delete = (doc_id d, document_name d)\<rparr>"

record doc_section =
  ds_category :: string
  ds_count :: string
  ds_rows :: "doc_row list"

definition docSection :: "(int \<Rightarrow> string) \<Rightarrow> category \<times> document list \<Rightarrow> doc_section" where
  "docSection fmt_time cd =
     (let (c, ds) = cd in
      \<lparr>ds_category = category_name c, ds_count = string_of_nat (length ds) @ '' document(s)'',
       ds_rows = map (docRow fmt_time) ds\<rparr>)"

record doc_manager_view =
  dm_back :: string
  dm_subtitle :: string
  dm_total :: nat
  dm_categories :: nat
  dm_latest :: string
  dm_sections :: "doc_section list"

text \<open>
  The "Latest Upload" card shows the date of \<open>documents[0]\<close>, the first
  document in the order the backend lists them.
\<close>

definition docManagerView ::
  "(int \<Rightarrow> string) \<Rightarrow> (int \<Rightarrow> string) \<Rightarrow> doc_page \<Rightarrow> doc_manager_view screen" where
  "docManagerView fmt_date fmt_time p =
     (if dp_loading p then ScreenLoading ''Loading...''
      else let groups = groupDocumentsByCategory (documents p) in
        ScreenShown
          \<lparr>dm_back = detailPath (dp_id p),
           dm_subtitle = optional_text client (dp_opportunity p) @ '' - '' @
                         optional_text project_type (dp_opportunity p),
           dm_total = length (documents p),
           dm_categories = length groups,
           dm_latest = (case documents p of [] \<Rightarrow> ''N/A'' | d # _ \<Rightarrow> fmt_date (doc_created_at d)),
           dm_sections = map (docSection fmt_time) groups\<rparr>)"

subsection \<open>The compliance checker\<close>

datatype status_icon = CheckCircle | XCircle | AlertCircle

text \<open>\<open>getStatusIcon\<close>: its \<open>default\<close> branch is the one for Pending.\<close>

fun getStatusIcon :: "ci_status \<Rightarrow> status_icon \<times> string" where
  "getStatusIcon Compliant = (CheckCircle, ''text-green-600'')"
| "getStatusIcon NonCompliant = (XCircle, ''text-red-600'')"
| "getStatusIcon Pending = (AlertCircle, ''text-yellow-600'')"

record compliance_row =
  cr_id :: ident
  cr_icon :: "status_icon \<times> string"
  cr_requirement :: string
  cr_notes :: "string option"
  cr_assigned :: string
  cr_badge :: string
  cr_status :: string
  cr_delete :: ident

definition complianceRow :: "compliance_item \<Rightarrow> compliance_row" where
  "complianceRow item =
     \<lparr>cr_id = item_id item, cr_icon = getStatusIcon (ci_status item),
      cr_requirement = requirement item,
      cr_notes = (if ci_notes item = [] then None else Some (ci_notes item)),
      cr_assigned = assigned_to item,
      cr_badge = ''badge '' @ ci_badge (ci_status item),
      cr_status = ci_status_name (ci_status item),
      cr_delete = item_id item\<rparr>"

record compliance_view =
  cv_back :: string
  cv_subtitle :: string
  cv_rate :: int
  cv_rate_text :: string
  cv_band :: compliance_band
  cv_total :: nat
  cv_pending :: nat
  cv_rows :: "compliance_row list"

definition complianceView :: "compliance_page \<Rightarrow> compliance_view screen" where
  "complianceView p =
     (if cp_loading p then ScreenLoading ''Loading...''
      else let rate = cp_rate p in
        ScreenShown
          \<lparr>cv_back = detailPath (cp_id p),
           cv_subtitle = optional_text client (cp_opportunity p) @ '' - '' @
                         optional_text project_type (cp_opportunity p),
           cv_rate = rate, cv_rate_text = string_of_int rate @ ''%'',
           cv_band = complianceBand rate,
           cv_total = length (complianceItems p),
           cv_pending = length (filter (\<lambda>item. ci_status item = Pending) (complianceItems p)),
           cv_rows = map complianceRow (complianceItems p)\<rparr>)"

subsection \<open>Lemmas\<close>

lemma filteredOpportunities_step:
  "filteredOpportunities (snd (tracker_step sp e)) =
     filterOpportunities (tp_opportunities (snd (tracker_step sp e)))
       (searchTerm (snd (tracker_step sp e))) (statusFilter (snd (tracker_step sp e)))"
  by (simp add: tracker_step_def filterEffect_def split: prod.split)

lemma trackerRow_links:
  "route (tr_view (trackerRow fmt now opp)) = Some (PageDetail (string_of_nat (tr_id (trackerRow fmt now opp)))) \<and>
   tr_delete (trackerRow fmt now opp) = tr_id (trackerRow fmt now opp) \<and>
   opp_id (tr_edit (trackerRow fmt now opp)) = tr_id (trackerRow fmt now opp)"
  using route_id_paths [of "opp_id opp"] by (simp add: trackerRow_def)

lemma getStatusIcon_kind:
  "fst (getStatusIcon st) = CheckCircle \<longleftrightarrow> st = Compliant"
  "fst (getStatusIcon st) = AlertCircle \<longleftrightarrow> st = Pending"
  by (cases st; simp)+

lemma parseStatusFilter_name [simp]: "parseStatusFilter (status_name st) = Some st"
  by (cases st) (simp_all add: parseStatusFilter_def)

lemma parseStatusFilter_all [simp]: "parseStatusFilter ''all'' = None"
  by (simp add: parseStatusFilter_def)

lemma statusFilter_roundtrip: "parseStatusFilter (statusFilterValue f) = f"
  by (cases f) (simp_all add: statusFilterValue_def)

lemma statusFilter_options:
  "map (\<lambda>(v, label). parseStatusFilter v) statusFilterOptions =
     None # map Some [Drafting, Review, Approved, Submitted, Won, Lost] \<and>
   distinct (map fst statusFilterOptions) \<and>
   statusFilterValue f \<in> fst ` set statusFilterOptions"
proof -
  have "status_name st \<in> fst ` set statusFilterOptions" for st
    by (cases st) (simp_all add: statusFilterOptions_def)
  then have "statusFilterValue f \<in> fst ` set statusFilterOptions"
    by (cases f) (simp_all add: statusFilterValue_def statusFilterOptions_def)
  then show ?thesis
    by (simp add: statusFilterOptions_def parseStatusFilter_def)
qed

lemma docSections_eq:
  "map (docSection fmt_time) (groupDocumentsByCategory docs) =
     map (\<lambda>c. docSection fmt_time (c, filter (\<lambda>d. doc_category d = c) docs))
       (rev (remdups (rev (map doc_category docs))))"
  by (simp add: groupDocumentsByCategory_eq)

lemma loadDocData_found:
  assumes "get_opportunity s (dp_id p) = Some opp"
  shows "documents (loadDocData Ok s p) = documents_of s (dp_id p) \<and>
         \<not> dp_loading (loadDocData Ok s p) \<and> dp_id (loadDocData Ok s p) = dp_id p"
  using assms by (simp add: loadDocData_def)

subsection \<open>Properties of the views\<close>

text \<open>
  C31: After every step of the tracker page, the table it renders lists
  exactly the page's opportunities that match the search term and the status
  filter, in order; the empty-state message shows exactly when there is no
  row; and each row's view button leads, through the router, to that
  opportunity's detail page, while its edit and delete buttons act on that
  opportunity.
\<close>

theorem tracker_table_rows:
  assumes "p' = snd (tracker_step sp e)" and "trackerView fmt now p' = ScreenShown t"
  shows "tt_rows t = map (trackerRow fmt now) (filterOpportunities (tp_opportunities p') (searchTerm p') (statusFilter p')) \<and>
         (tt_empty_message t \<longleftrightarrow> tt_rows t = []) \<and>
         (\<forall>r \<in> set (tt_rows t). route (tr_view r) = Some (PageDetail (string_of_nat (tr_id r))) \<and>
            tr_delete r = tr_id r \<and> opp_id (tr_edit r) = tr_id r)"
  using assms trackerRow_links filteredOpportunities_step [of sp e]
  by (auto simp: trackerView_def split: if_splits)

theorem tracker_table_rows_witness:
  "list_all (\<lambda>r. route (tr_view r) = Some (PageDetail (string_of_nat (tr_id r))))
     (map (trackerRow (\<lambda>_. ''d'') 0) (filteredOpportunities
        (snd (tracker_step (create_opportunity initialFormData empty_store, initTrackerPage) (TrLoad Ok)))))"
proof -
  let ?p = "snd (tracker_step (create_opportunity initialFormData empty_store, initTrackerPage) (TrLoad Ok))"
  have "trackerView (\<lambda>_. ''d'') 0 ?p =
      ScreenShown \<lparr>tt_rows = map (trackerRow (\<lambda>_. ''d'') 0) (filteredOpportunities ?p),
                   tt_empty_message = (length (filteredOpportunities ?p) = 0)\<rparr>"
    by (simp add: trackerView_def tracker_step_def loadOpportunities_def filterEffect_def)
  from conjunct2 [OF conjunct2 [OF tracker_table_rows [OF refl this]]] show ?thesis
    by (simp add: list_all_iff)
qed

text \<open>
  C32: When the document manager has loaded an existing opportunity, it
  renders one section per category present, each once and in the order of
  the first document of that category; each section lists the documents of
  its category in the store's order and says how many there are; every
  document appears in exactly one section, so the section counts add up to
  the "Total Documents" card and the "Categories" card counts the sections.
  The "Latest Upload" card shows the date of the first document the store
  lists.
\<close>

theorem doc_manager_sections:
  assumes "get_opportunity s (dp_id p) \<noteq> None"
  shows "\<exists>v. docManagerView fmt_date fmt_time (loadDocData Ok s p) = ScreenShown v \<and>
     map (\<lambda>sec. (ds_category sec, ds_rows sec)) (dm_sections v) =
       map (\<lambda>c. (category_name c, map (docRow fmt_time) (filter (\<lambda>d. doc_category d = c) (documents_of s (dp_id p)))))
         (rev (remdups (rev (map doc_category (documents_of s (dp_id p)))))) \<and>
     mset (concat (map ds_rows (dm_sections v))) = mset (map (docRow fmt_time) (documents_of s (dp_id p))) \<and>
     distinct (map ds_category (dm_sections v)) \<and>
     dm_categories v = length (dm_sections v) \<and>
     sum_list (map (\<lambda>sec. length (ds_rows sec)) (dm_sections v)) = dm_total v \<and>
     (\<forall>sec \<in> set (dm_sections v). ds_rows sec \<noteq> [] \<and>
        ds_count sec = string_of_nat (length (ds_rows sec)) @ '' document(s)'') \<and>
     dm_latest v = (case documents_of s (dp_id p) of [] \<Rightarrow> ''N/A'' | d # _ \<Rightarrow> fmt_date (doc_created_at d))"
proof -
  obtain opp where opp: "get_opportunity s (dp_id p) = Some opp"
    using assms by blast
  let ?docs = "documents_of s (dp_id p)"
  let ?cs = "rev (remdups (rev (map doc_category ?docs)))"
  have load: "documents (loadDocData Ok s p) = ?docs" "\<not> dp_loading (loadDocData Ok s p)"
    using loadDocData_found [OF opp] by simp_all
  define v where "v = \<lparr>dm_back = detailPath (dp_id (loadDocData Ok s p)),
     dm_subtitle = optional_text client (dp_opportunity (loadDocData Ok s p)) @ '' - '' @
                   optional_text project_type (dp_opportunity (loadDocData Ok s p)),
     dm_total = length ?docs, dm_categories = length (groupDocumentsByCategory ?docs),
     dm_latest = (case ?docs of [] \<Rightarrow> ''N/A'' | d # _ \<Rightarrow> fmt_date (doc_created_at d)),
     dm_sections = map (docSection fmt_time) (groupDocumentsByCategory ?docs)\<rparr>"
  have shown: "docManagerView fmt_date fmt_time (loadDocData Ok s p) = ScreenShown v"
    using load by (simp add: docManagerView_def v_def Let_def)
  have secs: "dm_sections v = map (\<lambda>c. docSection fmt_time (c, filter (\<lambda>d. doc_category d = c) ?docs)) ?cs"
    by (simp add: v_def docSections_eq)
  have rows: "concat (map ds_rows (dm_sections v)) =
      map (docRow fmt_time) (concat (map (\<lambda>c. filter (\<lambda>d. doc_category d = c) ?docs) ?cs))"
    by (simp add: secs docSection_def map_concat comp_def)
  have ms: "mset (concat (map ds_rows (dm_sections v))) = mset (map (docRow fmt_time) ?docs)"
  proof -
    have "filter (\<lambda>d. doc_category d \<in> set ?cs) ?docs = ?docs"
      by (simp add: filter_id_conv)
    then show ?thesis
      using mset_concat_filter [of ?cs doc_category ?docs] by (simp add: rows)
  qed
  have "sum_list (map (\<lambda>sec. length (ds_rows sec)) (dm_sections v)) = length (concat (map ds_rows (dm_sections v)))"
    by (simp add: length_concat comp_def)
  also have "\<dots> = dm_total v"
    using arg_cong [OF ms, of size] by (simp add: v_def)
  finally have total: "sum_list (map (\<lambda>sec. length (ds_rows sec)) (dm_sections v)) = dm_total v" .
  have inj: "inj_on category_name S" for S
    by (simp add: inj_on_def category_name_inj)
  have nonempty: "filter (\<lambda>d. doc_category d = c) ?docs \<noteq> []" if "c \<in> set ?cs" for c
    using that by (auto simp: filter_empty_conv)
  have sections: "map (\<lambda>sec. (ds_category sec, ds_rows sec)) (dm_sections v) =
      map (\<lambda>c. (category_name c, map (docRow fmt_time) (filter (\<lambda>d. doc_category d = c) ?docs))) ?cs"
    by (simp add: secs docSection_def)
  have dist: "distinct (map ds_category (dm_sections v))"
    using inj by (simp add: secs docSection_def comp_def distinct_map)
  have counts: "\<forall>sec \<in> set (dm_sections v). ds_rows sec \<noteq> [] \<and>
      ds_count sec = string_of_nat (length (ds_rows sec)) @ '' document(s)''"
    using nonempty by (auto simp: secs docSection_def)
  have cats: "dm_categories v = length (dm_sections v)"
    by (simp add: v_def)
  have latest: "dm_latest v = (case ?docs of [] \<Rightarrow> ''N/A'' | d # _ \<Rightarrow> fmt_date (doc_created_at d))"
    by (simp add: v_def)
  show ?thesis
    using shown sections ms dist cats total counts latest by blast
qed

theorem doc_manager_sections_witness:
  "\<exists>v. docManagerView (\<lambda>_. ''d'') (\<lambda>_. ''t'')
        (loadDocData Ok (create_opportunity initialFormData empty_store) (initDocPage 1)) = ScreenShown v \<and>
      dm_categories v = length (dm_sections v) \<and> dm_total v = 0 \<and> dm_latest v = ''N/A''"
proof -
  let ?s = "create_opportunity initialFormData empty_store"
  have "get_opportunity ?s (dp_id (initDocPage 1)) \<noteq> None"
    by (simp add: get_opportunity_def create_opportunity_def empty_store_def initDocPage_def)
  from doc_manager_sections [OF this, where fmt_date = "\<lambda>_. ''d''" and fmt_time = "\<lambda>_. ''t''"]
  obtain v where "docManagerView (\<lambda>_. ''d'') (\<lambda>_. ''t'') (loadDocData Ok ?s (initDocPage 1)) = ScreenShown v"
    and "dm_categories v = length (dm_sections v)"
    and "sum_list (map (\<lambda>sec. length (ds_rows sec)) (dm_sections v)) = dm_total v"
    and "dm_latest v = (case documents_of ?s 1 of [] \<Rightarrow> ''N/A'' | d # _ \<Rightarrow> ''d'')"
    by (auto simp: initDocPage_def)
  moreover have "documents_of ?s 1 = []"
    by (simp add: documents_of_def create_opportunity_def empty_store_def)
  moreover have "dm_total v = 0" if "docManagerView (\<lambda>_. ''d'') (\<lambda>_. ''t'') (loadDocData Ok ?s (initDocPage 1)) = ScreenShown v"
    using that [symmetric] by (simp add: docManagerView_def loadDocData_def get_opportunity_def create_opportunity_def
        empty_store_def initDocPage_def documents_of_def Let_def)
  ultimately show ?thesis by auto
qed

text \<open>
  C33: In every reachable state of the compliance checker, its back button
  leads to the detail page of its own opportunity, and the cards agree with
  the matrix: the rate is a percentage, is the rounded share of rows with the
  check icon, and has the band of its value; the total counts the rows and
  the pending count the rows with the alert icon.
\<close>

theorem compliance_view_consistent:
  assumes "cp_reachable i (s, p)" and "complianceView p = ScreenShown v"
  shows "route (cv_back v) = Some (PageDetail (string_of_nat i)) \<and>
         0 \<le> cv_rate v \<and> cv_rate v \<le> 100 \<and> cv_band v = complianceBand (cv_rate v) \<and>
         cv_rate v = (if cv_rows v = [] then 0
                      else ratio_percent (length (filter (\<lambda>r. fst (cr_icon r) = CheckCircle) (cv_rows v)))
                             (length (cv_rows v))) \<and>
         cv_total v = length (cv_rows v) \<and>
         cv_pending v = length (filter (\<lambda>r. fst (cr_icon r) = AlertCircle) (cv_rows v))"
proof -
  have "cp_id p = i"
    using cp_reachable_inv [OF assms(1)] by simp
  then show ?thesis
    using assms(2) route_id_paths [of i] calculateComplianceRate_bounds [of "complianceItems p"]
    by (auto simp: complianceView_def cp_rate_def calculateComplianceRate_def complianceRow_def
        getStatusIcon_kind comp_def Let_def split: if_splits)
qed

theorem compliance_view_consistent_witness:
  "\<exists>v. complianceView (snd (cp_step (create_opportunity initialFormData empty_store,
          mountCompliancePage 1 (create_opportunity initialFormData empty_store)) (CpLoad 0 Ok))) = ScreenShown v \<and>
      cv_total v = length (cv_rows v) \<and> 0 \<le> cv_rate v \<and> cv_rate v \<le> 100"
proof -
  let ?s = "create_opportunity initialFormData empty_store"
  let ?q = "cp_step (?s, mountCompliancePage 1 ?s) (CpLoad 0 Ok)"
  have "cp_reachable 1 ?q"
    by (rule cp_reachable.step [OF cp_reachable.start]) (simp add: mountCompliancePage_def initCompliancePage_def)
  then have reach: "cp_reachable 1 (fst ?q, snd ?q)"
    by (simp del: cp_step.simps)
  have "\<not> cp_loading (snd ?q)"
    by (simp add: mountCompliancePage_def initCompliancePage_def deliverComplianceLoad_def
        loadComplianceData_def split: option.split)
  then obtain v where v: "complianceView (snd ?q) = ScreenShown v"
    by (simp add: complianceView_def Let_def del: cp_step.simps)
  from compliance_view_consistent [OF reach v] v show ?thesis
    by blast
qed

end
