(* ===== verification/Spec2Isabelle.thy ===== *)
theory Spec2Isabelle
  imports Urgency Compliance Documents Statistics Reports Tracker CompliancePage Detail Overview
    Routing Views
begin

text \<open>
  \<^bold>\<open>A verification model of the Automated Bid and Proposal Tracker (ABPTS).\<close>

  \<^bold>\<open>The program.\<close> The repository is a React frontend
  (\<open>src/frontend/src\<close>) over a remote record store reached by HTTP
  (\<open>/api/opportunities\<close>, \<open>/api/compliance\<close>, \<open>/api/documents\<close>,
  \<open>/api/activities\<close>, \<open>/api/statistics\<close>). Its logic is spread over the
  pages: \<open>BidTracker.jsx\<close> (opportunity list, search and status filter, create,
  edit and delete, deadline tint), \<open>Dashboard.jsx\<close> (urgent-deadline alert,
  recent list), \<open>ComplianceChecker.jsx\<close> (requirements and the compliance
  rate), \<open>DocumentManager.jsx\<close> (documents, version labels, activity log
  entries), \<open>Reports.jsx\<close> (the report sections, the PDF report and the Excel
  export) and
  \<open>OpportunityDetail.jsx\<close> (read-only view). The statistics summary is
  computed by the backend, whose code is not in the repository; it is modelled
  from the spec (section 4.4) and marked so in the manifest.

  \<^bold>\<open>Theories.\<close> Each component is one theory; the claims C1 to C35
  are stated in the theory of the component they are about, and those that
  span pages in this root theory.
  \<^item> \<open>Prelude\<close>: JavaScript values (time values that may be NaN, the
    comparisons that are false on NaN, \<open>Math.round\<close> as \<open>floor (x + 1/2)\<close>,
    the rounded percentage \<open>ratio_percent\<close>, falsy string defaults
    \<open>x || d\<close>, \<open>toLowerCase\<close> on ASCII letters, decimal printing of
    template literals with its inverse) and the shared lemmas on them.
  \<^item> \<open>Entities\<close>: the records of the pages (the opportunity form
    \<open>formData\<close> of \<open>BidTracker.jsx\<close> extended by the stored id; compliance
    items and documents as their forms extended by parent reference, id and,
    for documents, version and creation time; activities), the enumerations
    of the select widgets and the resolved/active status sets.
  \<^item> \<open>Urgency\<close>: the four deadline tests of the pages
    (\<open>getDeadlineClass\<close> of \<open>BidTracker.jsx\<close>, the urgent filters of
    \<open>Dashboard.jsx\<close> and \<open>Reports.jsx\<close>, the recent-list tint of
    \<open>Dashboard.jsx\<close>), their reduction to integer comparisons in
    milliseconds; C1 to C5 and C7 on how they agree and differ (C7 says
    exactly when the recent-list tint and the tracker's tint differ).
  \<^item> \<open>Compliance\<close>: \<open>calculateComplianceRate\<close>, the pending count, the
    colour band and badge of \<open>ComplianceChecker.jsx\<close>; C8 gives the
    monotonicity of the rate in one added requirement, C9 exactly when it
    reaches 100; its bounds are a lemma.
  \<^item> \<open>Store\<close>: the record store behind \<open>/api\<close> (spec-modelled: lists of
    records with one id counter; a request may fail, an \<open>outcome\<close> chosen by
    the environment), its well-formedness \<open>store_wf\<close> (identifiers unique
    and below the counter) and one lemma per operation that keeps it; it is
    the hypothesis under which C15 holds.
  \<^item> \<open>Documents\<close>: \<open>DocumentManager.jsx\<close> as a state machine
    \<open>doc_step\<close> on the pair (record store, page state) with the events of the
    page (load, dialog, form edit, submit with the outcomes of its two
    requests, delete); the fire-and-forget reload after a submit or delete
    is an event of its own, so the interleavings in which the page acts on a
    stale snapshot are runs of the model. C10 to C12 give every branch of
    \<open>handleSubmit\<close>, C13 the version invariant under the guard that
    uploads use a fresh snapshot and no delete succeeds (by induction over
    runs); C14 and C15 the two ways it breaks: in every run without a
    successful reload all uploads are labelled from the old snapshot, and
    from any consistent store deleting any but the newest version of a name
    makes the next upload repeat the newest label; a lemma characterises
    \<open>groupDocumentsByCategory\<close> by filtering.
  \<^item> \<open>Statistics\<close>: the backend's summary (spec-modelled
    \<open>summarize\<close>) and the Dashboard's chart data; C16 bounds its
    average compliance.
  \<^item> \<open>Reports\<close>: \<open>generatePDFReport\<close> as the list of jsPDF calls with
    \<open>yPos\<close> threaded through the sections and the page breaks of the code,
    and \<open>exportToExcel\<close> as the row objects of its two sheets. The
    vertical positions are exact millimetres, the lines that
    \<open>splitTextToSize\<close> returns are drawn at jsPDF's line height \<open>lh\<close>
    (a parameter; about 4.46 mm at the default 11 pt and factor 1.15). C20
    shows every line, each wrapped line included, lands on the page when
    each wrapped recommendation fits in the 6 mm the loop advances, C21 that
    pagination drops and reorders no text, C22 gives the statistics sheet.
  \<^item> \<open>Tracker\<close>: \<open>BidTracker.jsx\<close> as a state machine \<open>tracker_step\<close>
    on (record store, page state): load, the dialog, form edits,
    \<open>handleSubmit\<close> (update when editing, create otherwise),
    \<open>handleEdit\<close>, \<open>handleDelete\<close> with its confirmation, search and status
    filter, each followed by the effect that recomputes the filtered list.
    C23 gives the filter against its specification, C24 the invariant that
    a closed dialog holds a blank create form (induction over the runs the
    page can deliver), C25 the edit/save round trip, C26 that a delete does
    not cascade.
  \<^item> \<open>CompliancePage\<close>: \<open>ComplianceChecker.jsx\<close> as a state machine
    \<open>cp_step\<close> whose reachable states are the inductive predicate
    \<open>cp_reachable\<close> (the state after the mount effect, and a step by any
    event the page can deliver). Each call of \<open>loadData\<close> (on mount, and
    the unawaited one after a successful add or delete) is a request in
    flight, held as the store it reads; \<open>CpLoad k r\<close> delivers the answer
    to the \<open>k\<close>-th, so answers arrive in any order. C27 is an invariant by
    rule induction (the page lists only its opportunity's requirements);
    C28 liveness: after an add or delete, answers arriving in order leave
    the page in step with the store; C29 the race: an older answer arriving
    last overwrites a newer one and the page shows the older list.
  \<^item> \<open>Detail\<close>: \<open>OpportunityDetail.jsx\<close>: its load and the screen it
    renders (loading, not found, or the opportunity's cards and activities).
  \<^item> \<open>Overview\<close>: the load and the metric cards of \<open>Dashboard.jsx\<close> and
    \<open>Reports.jsx\<close>, the Dashboard's urgent alert and recent list, and the
    four sections of the Reports page (status summary, urgent items with the
    hours left, compliance analysis, recommendations). C17 bounds the hours
    an urgent item shows (the list and the items read the clock separately),
    C18 ties the status summary to the total card, C19 shows that the alert
    and the urgent card agree when the two clocks do.
  \<^item> \<open>Views\<close>: what the tracker, the document manager and the compliance
    checker render from their state (the JSX of each component's
    \<open>return\<close>): table rows with their badges, tints and buttons, cards,
    category sections and the requirement matrix, with loading and empty
    states; buttons carry router paths and the events of the page models,
    and the status filter's options parse back to the filter the tracker
    model holds (a round-trip lemma).
    C31: after every tracker step the table shows exactly the filtered
    opportunities and each row's view button reaches its detail page; C32:
    the document sections partition the loaded documents (a multiset
    equality) and agree with the cards; C33: in every reachable state of the
    compliance checker its cards agree with its matrix.
  \<^item> \<open>Routing\<close>: the route table of \<open>App.js\<close>, the sidebar of
    \<open>Layout.jsx\<close> and the paths the pages navigate to. The matching of
    react-router v6 (split on slashes, case-insensitive segments, \<open>:id\<close>
    a non-empty piece, trailing slashes allowed, first match wins) and the
    active test of \<open>NavLink\<close> are library behaviour, modelled from the
    library's documented semantics. C34: every link of the application
    reaches its page; C35: which sidebar entry is highlighted.
  \<^item> This theory: C6 (the two urgent-deadline cards) and C30 (a deleted
    opportunity's children stay in the store, but no page shows them).

  \<^bold>\<open>Bounds and termination.\<close> No loop of the program can run forever:
  every loop is over a finite list and is modelled by structural recursion,
  by \<open>fun\<close> with the measure the package finds (decimal printing), or by
  \<^theory_text>\<open>function\<close> with an explicit measure (the router's path split, by
  \<open>length\<close>), so every function of the model is total and no fuel is
  needed. The page bound C20 relies on the status breakdown having at most six
  entries (\<open>statusCounts\<close> lists distinct statuses), which
  \<open>statusCounts_length\<close> proves.

  \<^bold>\<open>Not modelled.\<close> The backend is not in the repository:
  the record store is modelled from the spec only as far as the pages call
  it (lists, get, create, update, delete and a failing outcome for each
  request), so its persistence, validation and ordering guarantees are
  outside the model and the component stays partly modelled. Rendering
  beyond the texts, class names and button targets the views give (layout,
  icon sizes, styles); the markup of the dialogs, whose fields are the form
  events of the page models; the Dashboard's charts, which are commented out
  in the source; the \<open>Toaster\<close> and the rendering of the
  router's outlet; percent-decoding of route parameters (the application's
  ids are decimal numerals here, which need none); the byte encoders of
  jsPDF and XLSX; the browser's locale date formatting and text wrapping,
  which are parameters; Unicode case mapping beyond ASCII letters.

  \<^bold>\<open>Modelling choices.\<close> The clock \<open>new Date()\<close> is a parameter \<open>now\<close>
  (milliseconds). A deadline is held as the time value \<open>new Date(s)\<close> gives,
  \<open>None\<close> for an Invalid Date; parsing date strings depends on the browser's
  time zone and is not modelled. Numbers are exact rationals: the hour
  thresholds compare exactly (a one-millisecond difference near 24 or 48 hours
  is far above double precision), but \<open>Math.round\<close> of a double quotient can
  differ from the exact rounding at a half (see the findings), so the model's
  rate is the exactly rounded one and no claim fixes its value at a half.
\<close>

section \<open>Properties across the pages\<close>

text \<open>
  C6: The two "Urgent Deadlines" cards disagree: after both pages
  load the same store, the Reports card counts the Dashboard's urgent
  opportunities plus every Submitted opportunity due within 48 hours.
\<close>

theorem urgent_cards_differ:
  "int (rc_urgent (reportsCards now (loadReports Ok now s initOverviewPage))) =
   dc_urgent (dashboardCards (loadDashboard Ok now s initOverviewPage)) +
   int (length (filter (\<lambda>opp. status opp = Submitted \<and> within48 now opp) (st_opportunities s)))"
proof -
  let ?xs = "st_opportunities s"
  have "reportsUrgentOpportunities now ?xs =
      filter (\<lambda>opp. dashboardUrgent now opp \<or> (status opp = Submitted \<and> within48 now opp)) ?xs"
    unfolding reportsUrgentOpportunities_def activeOpportunities_def filter_filter
    by (rule filter_cong) (auto simp: dashboardUrgent_within48 is_resolved_def)
  moreover have "length (filter (\<lambda>opp. dashboardUrgent now opp \<or> (status opp = Submitted \<and> within48 now opp)) ?xs)
      = length (filter (dashboardUrgent now) ?xs) + length (filter (\<lambda>opp. status opp = Submitted \<and> within48 now opp) ?xs)"
    by (rule length_filter_disj) (auto simp: dashboardUrgent_def is_resolved_def)
  ultimately show ?thesis
    by (simp add: reportsCards_def dashboardCards_def loadReports_def loadDashboard_def loadOverview_def
        stat_or_zero_def spec_urgent_dashboard [abs_def])
qed

text \<open>
  C30: Deleting an opportunity from the tracker leaves its compliance
  items, documents and activities in the store, but no page shows them any
  more: the compliance page reports "Failed to load compliance data" and
  lists nothing, the document page lists nothing, and the detail page shows
  "Opportunity not found".
\<close>

theorem delete_leaves_orphans:
  "let s' = fst (handleOppDelete i True Ok (s, tp)) in
     compliance_of s' i = compliance_of s i \<and> activities_of s' i = activities_of s i \<and>
     documents_of s' i = documents_of s i \<and>
     complianceItems (loadComplianceData Ok s' (initCompliancePage i)) = [] \<and>
     cp_toasts (loadComplianceData Ok s' (initCompliancePage i)) = [ToastError ''Failed to load compliance data''] \<and>
     documents (loadDocData Ok s' (initDocPage i)) = [] \<and>
     detailView fmt_date fmt_clock fmt_time (loadDetail Ok s' (initDetailPage i)) = DetailNotFound"
  by (simp add: Let_def handleOppDelete_def loadComplianceData_def initCompliancePage_def
      loadDocData_def initDocPage_def loadDetail_def initDetailPage_def detailView_def)

end
